theory Spec2Isabelle
  imports Main "HOL-Library.Word"
begin

unbundle bit_operations_syntax

section \<open>Return codes and the emergency latch\<close>

text \<open>
  Every operation of the filesystem returns an \<open>int\<close>: 0 for success, a negated
  Linux errno for failure. The constants below are the errno values the sources use.
\<close>

definition ENOENT :: int where "ENOENT = 2"
definition EIO :: int where "EIO = 5"
definition ENOMEM :: int where "ENOMEM = 12"
definition EINVAL :: int where "EINVAL = 22"
definition ENOSPC :: int where "ENOSPC = 28"
definition EROFS :: int where "EROFS = 30"
definition EMLINK :: int where "EMLINK = 31"
definition ENOTRECOVERABLE :: int where "ENOTRECOVERABLE = 131"

lemmas errno_defs = ENOENT_def EIO_def ENOMEM_def EINVAL_def ENOSPC_def EROFS_def
  EMLINK_def ENOTRECOVERABLE_def

text \<open>
  \<open>emergency.cpp\<close>: the process-global variable \<open>emergencyType\<close> and the function
  \<open>emergency(t)\<close>, which latches the first emergency. The global is threaded through
  every function that can reach a call of \<open>emergency\<close>: such a function takes the
  current value and returns the new one. Log output is not modelled.
\<close>

datatype EmergencyType = EmergencyNone | EmergencyBug | EmergencySystemFailure

definition emergency :: "EmergencyType \<Rightarrow> EmergencyType \<Rightarrow> EmergencyType" where
  "emergency t emergencyType = (if emergencyType = EmergencyNone then t else emergencyType)"

section \<open>Storage: the in-memory backend\<close>

text \<open>
  \<open>storage.cpp\<close> and \<open>storage_memory.cpp\<close>. \<open>Storage\<close> turns chunk indices into
  byte offsets (\<open>index * chunkSize\<close>) and \<open>StorageMemory\<close> keeps the bytes in a
  \<open>std::vector\<close>. All callers in the repository read and write exactly one chunk at
  a chunk-aligned offset, so the vector is modelled as the list of its chunks, each a
  value of type \<open>'a\<close> (a 64-bit word for a bitmap container, a record for a data
  container); \<open>blank\<close> is the chunk made of \<open>chunkSize\<close> zero bytes, which is what
  \<open>resize(size, 0)\<close> appends.

  \<open>std::vector::resize\<close> throws when it cannot allocate; the backend catches that and
  latches \<open>_fatalError\<close>, after which every call fails. Whether an allocation succeeds is
  not computable from the program, so the state carries \<open>growthsLeft\<close>, the number of
  growing \<open>resize\<close> calls the allocator will still satisfy. Shrinking never allocates and
  never throws. The I/O statistics counters are not modelled.
\<close>

record 'a Storage =
  chunkSize :: nat
  storage :: "'a list"
  blank :: 'a
  fatalError :: bool
  growthsLeft :: nat

text \<open>The \<open>try { _storage.resize(n, 0); } catch (...) { _fatalError = true; }\<close> block.\<close>

definition resize :: "'a Storage \<Rightarrow> nat \<Rightarrow> 'a Storage" where
  "resize s n =
     (if n \<le> length (storage s) then s\<lparr>storage := take n (storage s)\<rparr>
      else if growthsLeft s = 0 then s\<lparr>fatalError := True\<rparr>
      else s\<lparr>storage := storage s @ replicate (n - length (storage s)) (blank s),
              growthsLeft := growthsLeft s - 1\<rparr>)"

text \<open>\<open>Storage::size\<close> over \<open>StorageMemory::sizeInBytes\<close>; the out-parameter keeps its
  old value on failure.\<close>

definition Storage_size :: "'a Storage \<Rightarrow> nat \<Rightarrow> int \<times> nat" where
  "Storage_size s old = (if fatalError s then (- EIO, old) else (0, length (storage s)))"

text \<open>\<open>Storage::read(index, 1, buf)\<close> over \<open>StorageMemory::readBytes\<close>: the buffer is
  left alone when the call fails.\<close>

definition Storage_read :: "'a Storage \<Rightarrow> nat \<Rightarrow> 'a \<Rightarrow> int \<times> 'a" where
  "Storage_read s index buf =
     (if fatalError s then (- EIO, buf)
      else if index + 1 > length (storage s) then (- EIO, buf)
      else (0, storage s ! index))"

text \<open>\<open>Storage::write(index, 1, buf)\<close> over \<open>StorageMemory::writeBytes\<close>, which grows
  the vector when the chunk lies beyond its end.\<close>

definition Storage_write :: "'a Storage \<Rightarrow> nat \<Rightarrow> 'a \<Rightarrow> int \<times> 'a Storage" where
  "Storage_write s index buf =
     (if fatalError s then (- EIO, s)
      else if index + 1 > length (storage s) then
        (let s' = resize s (index + 1) in
         if fatalError s' then (- ENOMEM, s')
         else (0, s'\<lparr>storage := (storage s')[index := buf]\<rparr>))
      else (0, s\<lparr>storage := (storage s)[index := buf]\<rparr>))"

text \<open>\<open>Storage::punchHole\<close> over \<open>StorageMemory::punchHoleBytes\<close>: nothing to do in
  memory.\<close>

definition Storage_punchHole :: "'a Storage \<Rightarrow> nat \<Rightarrow> int" where
  "Storage_punchHole s index = (if fatalError s then - EIO else 0)"

text \<open>\<open>Storage::setSize\<close> over \<open>StorageMemory::setSizeBytes\<close>.\<close>

definition Storage_setSize :: "'a Storage \<Rightarrow> nat \<Rightarrow> int \<times> 'a Storage" where
  "Storage_setSize s n =
     (if fatalError s then (- EIO, s)
      else (let s' = resize s n in
            if fatalError s' then (- ENOMEM, s') else (0, s')))"

section \<open>Map: the allocation bitmap\<close>

text \<open>
  \<open>map.hpp\<close>, \<open>map.cpp\<close>. One bit per slot, 64 bits per chunk of the bitmap
  container; one chunk is resident. Chunk indices and slot indices are \<open>uint64_t\<close> in
  the source and natural numbers here: every index that reaches the bitmap is either
  below the number of chunks of a container or one past it, so the 64-bit arithmetic on
  them does not wrap. The resident chunk itself is a 64-bit word. The member
  \<open>_lastOne\<close> is declared but never read or written and is left out.
\<close>

definition InvalidIndex :: "64 word" where
  \<comment> \<open>Modelled from the spec: \<open>index.hpp\<close> is not among the sources. The spec calls the
      value the sentinel \<open>INVALID\<close> of a 64-bit index; it is taken to be the largest one.\<close>
  "InvalidIndex = - 1"

record Map =
  map_storage :: "64 word Storage"
  bitChunksInStorage :: nat
  currentBitChunk :: "64 word"
  currentBitChunkIndex :: nat
  currentBitChunkModified :: bool
  firstZeroCandidate :: nat

text \<open>The constructor \<open>Map::Map(storage)\<close>.\<close>

definition Map_new :: "64 word Storage \<Rightarrow> Map" where
  "Map_new st =
     \<lparr>map_storage = st\<lparr>chunkSize := 8\<rparr>, bitChunksInStorage = 0, currentBitChunk = 0,
      currentBitChunkIndex = unat InvalidIndex, currentBitChunkModified = False,
      firstZeroCandidate = 0\<rparr>"

definition toBitChunkIndex :: "nat \<Rightarrow> nat" where
  "toBitChunkIndex index = index div 64"

definition toBitIndex :: "nat \<Rightarrow> nat" where
  "toBitIndex index = index mod 64"

text \<open>\<open>Map::initialize\<close>.\<close>

definition Map_initialize :: "Map \<Rightarrow> int \<times> Map" where
  "Map_initialize m =
     (case Storage_size (map_storage m) (bitChunksInStorage m) of (r, n) \<Rightarrow>
      let m1 = m\<lparr>bitChunksInStorage := n\<rparr> in
      if r < 0 then (r, m1)
      else
        (case (if bitChunksInStorage m1 = 0 then
                 (case Storage_setSize (map_storage m1) 1 of (r', st') \<Rightarrow>
                    (r', m1\<lparr>currentBitChunk := 0, bitChunksInStorage := 1, map_storage := st'\<rparr>))
               else
                 (case Storage_read (map_storage m1) 0 (currentBitChunk m1) of (r', c) \<Rightarrow>
                    (r', m1\<lparr>currentBitChunk := c\<rparr>)))
         of (r', m2) \<Rightarrow>
           if r' < 0 then (r', m2) else (0, m2\<lparr>currentBitChunkIndex := 0\<rparr>)))"

text \<open>
  The loop of \<open>Map::sync\<close> that walks back over the chunks before the resident one:
  \<^verbatim>\<open>
  while (_currentBitChunkIndex > 1) {
      _currentBitChunkIndex--;
      r = _storage->read(_currentBitChunkIndex, 1, &_currentBitChunk);
      if (r < 0 || _currentBitChunk != 0) break;
  }\<close>
  It returns the last \<open>r\<close>, the index and the chunk it stopped at.
\<close>

function sync_scan :: "64 word Storage \<Rightarrow> int \<Rightarrow> nat \<Rightarrow> 64 word \<Rightarrow> int \<times> nat \<times> 64 word" where
  "sync_scan st r idx chunk =
     (if idx > 1 then
        (case Storage_read st (idx - 1) chunk of (r', chunk') \<Rightarrow>
           if r' < 0 \<or> chunk' \<noteq> 0 then (r', idx - 1, chunk')
           else sync_scan st r' (idx - 1) chunk')
      else (r, idx, chunk))"
  by pat_completeness auto
termination
  by (relation "measure (\<lambda>(st, r, idx, chunk). idx)") auto

declare sync_scan.simps [simp del]

text \<open>\<open>Map::sync\<close>. Members changed before a failing step keep their new values.\<close>

definition Map_sync :: "EmergencyType \<Rightarrow> Map \<Rightarrow> int \<times> EmergencyType \<times> Map" where
  "Map_sync e m =
     (if currentBitChunkIndex m \<ge> bitChunksInStorage m then
        (- ENOTRECOVERABLE, emergency EmergencyBug e, m)
      else
        (case (if currentBitChunk m = 0 \<and> currentBitChunkIndex m + 1 = bitChunksInStorage m then
                 (let m1 = m\<lparr>bitChunksInStorage := bitChunksInStorage m - 1\<rparr> in
                  case sync_scan (map_storage m1) 0 (currentBitChunkIndex m1) (currentBitChunk m1)
                  of (r, idx, chunk) \<Rightarrow>
                    let m2 = m1\<lparr>currentBitChunkIndex := idx, currentBitChunk := chunk\<rparr> in
                    if r = 0 then
                      (case Storage_setSize (map_storage m2) (bitChunksInStorage m2) of (r', st') \<Rightarrow>
                         (r', m2\<lparr>map_storage := st'\<rparr>))
                    else (r, m2))
               else if currentBitChunkModified m then
                 (case Storage_write (map_storage m) (currentBitChunkIndex m) (currentBitChunk m)
                  of (r, st') \<Rightarrow> (r, m\<lparr>map_storage := st'\<rparr>))
               else (0, m))
         of (r, m3) \<Rightarrow>
           if r < 0 then (r, e, m3)
           else (0, e, m3\<lparr>currentBitChunkModified := False\<rparr>)))"

text \<open>\<open>Map::storageSizeInBytes\<close>.\<close>

definition Map_storageSizeInBytes :: "Map \<Rightarrow> nat" where
  "Map_storageSizeInBytes m = bitChunksInStorage m * chunkSize (map_storage m)"

lemma Map_sync_chunks_le:
  "Map_sync e m = (r, e', m') \<Longrightarrow> bitChunksInStorage m' \<le> bitChunksInStorage m"
  by (auto simp: Map_sync_def Let_def split: if_splits prod.splits)

text \<open>\<open>Map::setCurrentBitChunkIndex\<close>: make chunk \<open>bitChunkIndex\<close> the resident one.\<close>

definition Map_setCurrentBitChunkIndex ::
  "EmergencyType \<Rightarrow> Map \<Rightarrow> nat \<Rightarrow> int \<times> EmergencyType \<times> Map" where
  "Map_setCurrentBitChunkIndex e m bitChunkIndex =
     (if bitChunkIndex = currentBitChunkIndex m then (0, e, m)
      else
        (case Map_sync e m of (r, e1, m1) \<Rightarrow>
           if r < 0 then (r, e1, m1)
           else
             (case (if bitChunkIndex \<ge> bitChunksInStorage m1 then
                      (let m2 = m1\<lparr>currentBitChunk := 0, bitChunksInStorage := bitChunkIndex + 1\<rparr> in
                       case Storage_setSize (map_storage m2) (bitChunksInStorage m2) of (r', st') \<Rightarrow>
                         (r', m2\<lparr>map_storage := st'\<rparr>))
                    else
                      (case Storage_read (map_storage m1) bitChunkIndex (currentBitChunk m1)
                       of (r', c) \<Rightarrow> (r', m1\<lparr>currentBitChunk := c\<rparr>)))
              of (r', m3) \<Rightarrow>
                if r' < 0 then (r', e1, m3)
                else (0, e1, m3\<lparr>currentBitChunkIndex := bitChunkIndex\<rparr>))))"

text \<open>\<open>__builtin_ctzll\<close>: the number of trailing zero bits of a non-zero 64-bit value
  (the builtin is undefined at 0, where this function gives 64; the source never calls
  it there).\<close>

definition ctzll :: "64 word \<Rightarrow> nat" where
  "ctzll w = length (takeWhile (\<lambda>i. \<not> bit w i) [0..<64])"

lemma setCurrentBitChunkIndex_full_chunk:
  assumes "Map_setCurrentBitChunkIndex e m k = (r, e', m')" "\<not> r < 0"
    and "NOT (currentBitChunk m') = 0"
  shows "2 * (bitChunksInStorage m' - (k + 1)) + (if k + 1 = currentBitChunkIndex m' then 1 else 0)
         < 2 * (bitChunksInStorage m - k) + (if k = currentBitChunkIndex m then 1 else (0::nat))"
proof (cases "k = currentBitChunkIndex m")
  case True
  with assms have "m' = m" by (simp add: Map_setCurrentBitChunkIndex_def)
  with True show ?thesis by simp
next
  case False
  obtain rs e1 m1 where s: "Map_sync e m = (rs, e1, m1)" by (cases "Map_sync e m") auto
  have le: "bitChunksInStorage m1 \<le> bitChunksInStorage m" using s by (rule Map_sync_chunks_le)
  have nz: "NOT (0::64 word) \<noteq> 0" by simp
  from assms False s nz have "k < bitChunksInStorage m1 \<and> bitChunksInStorage m' = bitChunksInStorage m1
      \<and> currentBitChunkIndex m' = k"
    by (auto simp: Map_setCurrentBitChunkIndex_def Let_def split: if_splits prod.splits)
  with le False show ?thesis by (simp, arith)
qed

text \<open>
  The loop of \<open>Map::firstZero\<close>:
  \<^verbatim>\<open>
  for (;;) {
      r = setCurrentBitChunkIndex(bitChunkIndex);
      if (r < 0) return r;
      if (~_currentBitChunk != 0) { bitIndex = __builtin_ctzll(~_currentBitChunk); break; }
      bitChunkIndex++;
  }\<close>
  It returns \<open>r\<close>, the state, \<open>bitChunkIndex\<close> and \<open>bitIndex\<close>. The loop ends: a chunk
  past the end of the container is created empty, so the walk stops there at the
  latest.
\<close>

function firstZero_scan ::
  "EmergencyType \<Rightarrow> Map \<Rightarrow> nat \<Rightarrow> int \<times> EmergencyType \<times> Map \<times> nat \<times> nat" where
  "firstZero_scan e m bitChunkIndex =
     (case Map_setCurrentBitChunkIndex e m bitChunkIndex of (r, e', m') \<Rightarrow>
        if r < 0 then (r, e', m', bitChunkIndex, 0)
        else if NOT (currentBitChunk m') \<noteq> 0 then
          (0, e', m', bitChunkIndex, ctzll (NOT (currentBitChunk m')))
        else firstZero_scan e' m' (bitChunkIndex + 1))"
  by pat_completeness auto
termination
  apply (relation "measure (\<lambda>(e, m, k).
    2 * (bitChunksInStorage m - k) + (if k = currentBitChunkIndex m then 1 else 0))")
  apply simp
  subgoal for e m k r rest e' m'
    using setCurrentBitChunkIndex_full_chunk [of e m k r e' m'] by auto
  done

declare firstZero_scan.simps [simp del]

text \<open>\<open>Map::firstZero\<close>; \<open>index\<close> is the out-parameter, untouched on failure.\<close>

definition Map_firstZero ::
  "EmergencyType \<Rightarrow> Map \<Rightarrow> nat \<Rightarrow> int \<times> EmergencyType \<times> Map \<times> nat" where
  "Map_firstZero e m index =
     (case firstZero_scan e m (toBitChunkIndex (firstZeroCandidate m))
      of (r, e', m', bitChunkIndex, bitIndex) \<Rightarrow>
        if r < 0 then (r, e', m', index)
        else (let m2 = m'\<lparr>firstZeroCandidate := bitChunkIndex * 64 + bitIndex\<rparr>
              in (0, e', m2, firstZeroCandidate m2)))"

text \<open>\<open>Map::set\<close>; \<open>setOne\<close> and \<open>setZero\<close> are its two instances.\<close>

definition Map_set :: "EmergencyType \<Rightarrow> Map \<Rightarrow> nat \<Rightarrow> bool \<Rightarrow> int \<times> EmergencyType \<times> Map" where
  "Map_set e m index b =
     (case Map_setCurrentBitChunkIndex e m (toBitChunkIndex index) of (r, e', m') \<Rightarrow>
        if r < 0 then (r, e', m')
        else
          (let previousBitChunk = currentBitChunk m';
               mask = push_bit (toBitIndex index) (1 :: 64 word);
               m2 = (if b then
                       m'\<lparr>currentBitChunk := currentBitChunk m' OR mask,
                          firstZeroCandidate :=
                            (if index = firstZeroCandidate m' then firstZeroCandidate m' + 1
                             else firstZeroCandidate m')\<rparr>
                     else
                       m'\<lparr>currentBitChunk := currentBitChunk m' AND NOT mask,
                          firstZeroCandidate :=
                            (if index < firstZeroCandidate m' then index
                             else firstZeroCandidate m')\<rparr>)
           in (0, e', m2\<lparr>currentBitChunkModified := (previousBitChunk \<noteq> currentBitChunk m2)\<rparr>)))"

definition Map_setZero :: "EmergencyType \<Rightarrow> Map \<Rightarrow> nat \<Rightarrow> int \<times> EmergencyType \<times> Map" where
  "Map_setZero e m index = Map_set e m index False"

definition Map_setOne :: "EmergencyType \<Rightarrow> Map \<Rightarrow> nat \<Rightarrow> int \<times> EmergencyType \<times> Map" where
  "Map_setOne e m index = Map_set e m index True"

text \<open>\<open>Map::get\<close>; \<open>b\<close> is the out-parameter, untouched on failure.\<close>

definition Map_get ::
  "EmergencyType \<Rightarrow> Map \<Rightarrow> nat \<Rightarrow> bool \<Rightarrow> int \<times> EmergencyType \<times> Map \<times> bool" where
  "Map_get e m index b =
     (case Map_setCurrentBitChunkIndex e m (toBitChunkIndex index) of (r, e', m') \<Rightarrow>
        if r < 0 then (r, e', m', b)
        else (let mask = push_bit (toBitIndex index) (1 :: 64 word)
              in (0, e', m', currentBitChunk m' AND mask \<noteq> 0)))"

section \<open>ChunkManager\<close>

text \<open>
  \<open>chunk.hpp\<close>, \<open>chunk.cpp\<close>: a bitmap and a data container of equally sized chunks.
  The reader-writer lock serialises the calls and is not modelled.
\<close>

record 'a ChunkManager =
  cm_map :: Map
  chunks :: "'a Storage"
  punchHolesForEmptyChunks :: bool
  chunksInStorage :: nat

definition ChunkManager_new :: "Map \<Rightarrow> 'a Storage \<Rightarrow> nat \<Rightarrow> bool \<Rightarrow> 'a ChunkManager" where
  "ChunkManager_new m st chunkSize0 punch =
     \<lparr>cm_map = m, chunks = st\<lparr>chunkSize := chunkSize0\<rparr>, punchHolesForEmptyChunks = punch,
      chunksInStorage = 0\<rparr>"

text \<open>\<open>ChunkManager::initialize\<close>.\<close>

definition ChunkManager_initialize :: "'a ChunkManager \<Rightarrow> int \<times> 'a ChunkManager" where
  "ChunkManager_initialize cm =
     (case Map_initialize (cm_map cm) of (r, m') \<Rightarrow>
        let cm1 = cm\<lparr>cm_map := m'\<rparr> in
        if r = 0 then
          (case Storage_size (chunks cm1) (chunksInStorage cm1) of (r', n) \<Rightarrow>
             (r', cm1\<lparr>chunksInStorage := n\<rparr>))
        else (r, cm1))"

text \<open>\<open>ChunkManager::sync\<close>.\<close>

definition ChunkManager_sync ::
  "EmergencyType \<Rightarrow> 'a ChunkManager \<Rightarrow> int \<times> EmergencyType \<times> 'a ChunkManager" where
  "ChunkManager_sync e cm =
     (case Map_sync e (cm_map cm) of (r, e', m') \<Rightarrow> (r, e', cm\<lparr>cm_map := m'\<rparr>))"

text \<open>
  \<open>ChunkManager::add\<close>, in the three steps of the source. First the bitmap:
  \<^verbatim>\<open>
  int r = _map->firstZero(index);
  if (r == 0) r = _map->setOne(*index);\<close>
\<close>

definition add_allocate ::
  "EmergencyType \<Rightarrow> 'a ChunkManager \<Rightarrow> nat \<Rightarrow> int \<times> EmergencyType \<times> 'a ChunkManager \<times> nat" where
  "add_allocate e cm index =
     (case Map_firstZero e (cm_map cm) index of (r, e1, m1, index1) \<Rightarrow>
        if r = 0 then
          (case Map_setOne e1 m1 index1 of (r', e2, m2) \<Rightarrow> (r', e2, cm\<lparr>cm_map := m2\<rparr>, index1))
        else (r, e1, cm\<lparr>cm_map := m1\<rparr>, index1))"

text \<open>
  Then the data container grows when the slot lies past its end; a failure clears the
  bit again, and a failure of that is only logged:
  \<^verbatim>\<open>
  if (r == 0 && *index >= _chunksInStorage) {
      _chunksInStorage = *index + 1;
      r = _chunks->setSize(_chunksInStorage);
      if (r < 0) { int r2 = _map->setZero(*index); if (r2 < 0) { logger.log(...); } }
  }\<close>
\<close>

definition add_grow ::
  "int \<Rightarrow> EmergencyType \<Rightarrow> 'a ChunkManager \<Rightarrow> nat \<Rightarrow> int \<times> EmergencyType \<times> 'a ChunkManager" where
  "add_grow r e cm index =
     (if r = 0 \<and> index \<ge> chunksInStorage cm then
        (let cm1 = cm\<lparr>chunksInStorage := index + 1\<rparr> in
         case Storage_setSize (chunks cm1) (chunksInStorage cm1) of (r', st') \<Rightarrow>
           let cm2 = cm1\<lparr>chunks := st'\<rparr> in
           if r' < 0 then
             (case Map_setZero e (cm_map cm2) index of (r2, e', m') \<Rightarrow> (r', e', cm2\<lparr>cm_map := m'\<rparr>))
           else (r', e, cm2))
      else (r, e, cm))"

text \<open>
  Then the chunk is written; a failure clears the bit and gives the last chunk back:
  \<^verbatim>\<open>
  if (r == 0) {
      r = _chunks->write(*index, 1, buf);
      if (r < 0) {
          int r2 = _map->setZero(*index);
          if (r2 == 0 && *index + 1 == _chunksInStorage) {
              _chunksInStorage--;
              r2 = _chunks->setSize(_chunksInStorage);
          }
          if (r2 < 0) { logger.log(...); }
      }
  }\<close>
\<close>

definition add_write ::
  "int \<Rightarrow> EmergencyType \<Rightarrow> 'a ChunkManager \<Rightarrow> nat \<Rightarrow> 'a \<Rightarrow> int \<times> EmergencyType \<times> 'a ChunkManager" where
  "add_write r e cm index buf =
     (if r = 0 then
        (case Storage_write (chunks cm) index buf of (r', st') \<Rightarrow>
           let cm1 = cm\<lparr>chunks := st'\<rparr> in
           if r' < 0 then
             (case Map_setZero e (cm_map cm1) index of (r2, e', m') \<Rightarrow>
                let cm2 = cm1\<lparr>cm_map := m'\<rparr> in
                if r2 = 0 \<and> index + 1 = chunksInStorage cm2 then
                  (let cm3 = cm2\<lparr>chunksInStorage := chunksInStorage cm2 - 1\<rparr> in
                   case Storage_setSize (chunks cm3) (chunksInStorage cm3) of (r3, st3) \<Rightarrow>
                     (r', e', cm3\<lparr>chunks := st3\<rparr>))
                else (r', e', cm2))
           else (r', e, cm1))
      else (r, e, cm))"

text \<open>\<open>ChunkManager::add\<close>; \<open>index\<close> is the out-parameter.\<close>

definition ChunkManager_add ::
  "EmergencyType \<Rightarrow> 'a ChunkManager \<Rightarrow> nat \<Rightarrow> 'a
     \<Rightarrow> int \<times> EmergencyType \<times> 'a ChunkManager \<times> nat" where
  "ChunkManager_add e cm index buf =
     (case add_allocate e cm index of (r, e1, cm1, index1) \<Rightarrow>
      case add_grow r e1 cm1 index1 of (r2, e2, cm2) \<Rightarrow>
      case add_write r2 e2 cm2 index1 buf of (r3, e3, cm3) \<Rightarrow>
        (r3, e3, cm3, index1))"

text \<open>
  The loop of \<open>ChunkManager::remove\<close> that gives back the free chunks at the end of the
  container:
  \<^verbatim>\<open>
  while (index > 0) {
      index--;
      bool b;
      int r2 = _map->get(index, &b);
      if (r2 < 0) { emergency(EmergencySystemFailure); r = -ENOTRECOVERABLE; break; }
      if (b) break;
      _chunksInStorage--;
  }\<close>
\<close>

function remove_scan ::
  "int \<Rightarrow> EmergencyType \<Rightarrow> 'a ChunkManager \<Rightarrow> nat \<Rightarrow> int \<times> EmergencyType \<times> 'a ChunkManager" where
  "remove_scan r e cm index =
     (if index > 0 then
        (case Map_get e (cm_map cm) (index - 1) False of (r2, e', m', b) \<Rightarrow>
           let cm1 = cm\<lparr>cm_map := m'\<rparr> in
           if r2 < 0 then (- ENOTRECOVERABLE, emergency EmergencySystemFailure e', cm1)
           else if b then (r, e', cm1)
           else remove_scan r e' (cm1\<lparr>chunksInStorage := chunksInStorage cm1 - 1\<rparr>) (index - 1))
      else (r, e, cm))"
  by pat_completeness auto
termination
  by (relation "measure (\<lambda>(r, e, cm, index). index)") auto

declare remove_scan.simps [simp del]

text \<open>\<open>ChunkManager::remove\<close>.\<close>

definition ChunkManager_remove ::
  "EmergencyType \<Rightarrow> 'a ChunkManager \<Rightarrow> nat \<Rightarrow> int \<times> EmergencyType \<times> 'a ChunkManager" where
  "ChunkManager_remove e cm index =
     (if index \<ge> chunksInStorage cm then (- ENOTRECOVERABLE, emergency EmergencyBug e, cm)
      else
        (case Map_setZero e (cm_map cm) index of (r, e1, m1) \<Rightarrow>
           let cm1 = cm\<lparr>cm_map := m1\<rparr> in
           if r = 0 then
             (if index + 1 = chunksInStorage cm1 then
                (case remove_scan r e1 (cm1\<lparr>chunksInStorage := chunksInStorage cm1 - 1\<rparr>) index
                 of (r', e2, cm2) \<Rightarrow>
                   if r' = 0 then
                     (case Storage_setSize (chunks cm2) (chunksInStorage cm2) of (r2, st') \<Rightarrow>
                        if r2 < 0 then
                          (- ENOTRECOVERABLE, emergency EmergencySystemFailure e2, cm2\<lparr>chunks := st'\<rparr>)
                        else (r', e2, cm2\<lparr>chunks := st'\<rparr>))
                   else (r', e2, cm2))
              else (r, e1, cm1))
           else (r, e1, cm1)))"

text \<open>
  In the last branch the source punches a hole when \<open>_punchHolesForEmptyChunks\<close> is set
  and ignores the result; \<open>StorageMemory::punchHoleBytes\<close> changes nothing, so the branch
  leaves the state as it is.

  \<open>ChunkManager::read\<close> and \<open>ChunkManager::write\<close>; \<open>buf\<close> of \<open>read\<close> is the
  out-parameter.
\<close>

definition ChunkManager_read ::
  "EmergencyType \<Rightarrow> 'a ChunkManager \<Rightarrow> nat \<Rightarrow> 'a \<Rightarrow> int \<times> EmergencyType \<times> 'a" where
  "ChunkManager_read e cm index buf =
     (if index \<ge> chunksInStorage cm then (- ENOTRECOVERABLE, emergency EmergencyBug e, buf)
      else (case Storage_read (chunks cm) index buf of (r, buf') \<Rightarrow> (r, e, buf')))"

definition ChunkManager_write ::
  "EmergencyType \<Rightarrow> 'a ChunkManager \<Rightarrow> nat \<Rightarrow> 'a \<Rightarrow> int \<times> EmergencyType \<times> 'a ChunkManager" where
  "ChunkManager_write e cm index buf =
     (if index \<ge> chunksInStorage cm then (- ENOTRECOVERABLE, emergency EmergencyBug e, cm)
      else (case Storage_write (chunks cm) index buf of (r, st') \<Rightarrow> (r, e, cm\<lparr>chunks := st'\<rparr>)))"

text \<open>\<open>ChunkManager::storageSizeInBytes\<close>, a \<open>uint64_t\<close>.\<close>

definition ChunkManager_storageSizeInBytes :: "'a ChunkManager \<Rightarrow> 64 word" where
  "ChunkManager_storageSizeInBytes cm =
     of_nat (chunksInStorage cm) * of_nat (chunkSize (chunks cm))
       + of_nat (Map_storageSizeInBytes (cm_map cm))"

section \<open>Time, Inode, Dirent, Block\<close>

text \<open>\<open>time.cpp\<close>: a time stamp; \<open>seconds\<close> is an \<open>int64_t\<close>, read through \<open>sint\<close>.\<close>

record Time =
  seconds :: "64 word"
  nanoseconds :: "32 word"

definition Time_new :: Time where
  "Time_new = \<lparr>seconds = 0, nanoseconds = 0\<rparr>"

definition isOlderThan :: "Time \<Rightarrow> Time \<Rightarrow> bool" where
  "isOlderThan a t =
     (sint (seconds a) < sint (seconds t)
      \<or> (seconds a = seconds t \<and> nanoseconds a < nanoseconds t))"

text \<open>\<open>inode.hpp\<close>: the type and mode bits (octal in the source) and the inode. The
  field \<open>size\<close> of the source is \<open>i_size\<close> here.\<close>

definition TypeMask :: "32 word" where "TypeMask = 0xF000"
definition TypeSOCK :: "32 word" where "TypeSOCK = 0xC000"
definition TypeLNK :: "32 word" where "TypeLNK = 0xA000"
definition TypeREG :: "32 word" where "TypeREG = 0x8000"
definition TypeBLK :: "32 word" where "TypeBLK = 0x6000"
definition TypeDIR :: "32 word" where "TypeDIR = 0x4000"
definition TypeCHR :: "32 word" where "TypeCHR = 0x2000"
definition TypeFIFO :: "32 word" where "TypeFIFO = 0x1000"
definition ModeSUID :: "32 word" where "ModeSUID = 0x800"
definition ModeSGID :: "32 word" where "ModeSGID = 0x400"

record Inode =
  atime :: Time
  ctime :: Time
  mtime :: Time
  uid :: "32 word"
  gid :: "32 word"
  typeAndMode :: "32 word"
  nlink :: "64 word"
  rdev :: "64 word"
  i_size :: "64 word"
  slotTrees :: "64 word list"
  xattrIndex :: "64 word"

definition Inode_type :: "Inode \<Rightarrow> 32 word" where
  "Inode_type i = typeAndMode i AND TypeMask"

text \<open>The constructor \<open>Inode::Inode()\<close>.\<close>

definition Inode_new :: Inode where
  "Inode_new =
     \<lparr>atime = Time_new, ctime = Time_new, mtime = Time_new, uid = 0, gid = 0, typeAndMode = 0,
      nlink = 0, rdev = 0, i_size = 0, slotTrees = replicate 5 InvalidIndex,
      xattrIndex = InvalidIndex\<rparr>"

text \<open>The inode made of zero bytes, which is what a grown inode container holds.\<close>

definition Inode_zero :: Inode where
  "Inode_zero =
     \<lparr>atime = Time_new, ctime = Time_new, mtime = Time_new, uid = 0, gid = 0, typeAndMode = 0,
      nlink = 0, rdev = 0, i_size = 0, slotTrees = replicate 5 0, xattrIndex = 0\<rparr>"

record Dirent =
  \<comment> \<open>Modelled from the spec: \<open>dirent.hpp\<close> is not among the sources. A directory entry
      records a null-terminated name of at most 255 bytes and the index of its inode; the
      name is kept without its terminator.\<close>
  name :: string
  d_inodeIndex :: "64 word"

text \<open>
  \<open>block.hpp\<close>: 4096 bytes, read as data bytes or as 512 little-endian 64-bit indices
  (the union of the source; the machines the program runs on are little-endian).
\<close>

type_synonym Block = "8 word list"

definition Block_size :: nat where
  "Block_size = 4096"

fun le_decode :: "8 word list \<Rightarrow> 64 word" where
  "le_decode [] = 0"
| "le_decode (x # xs) = ucast x OR push_bit 8 (le_decode xs)"

fun le_encode :: "nat \<Rightarrow> 64 word \<Rightarrow> 8 word list" where
  "le_encode 0 w = []"
| "le_encode (Suc n) w = ucast w # le_encode n (drop_bit 8 w)"

text \<open>\<open>block.indices[j]\<close> and \<open>block.indices[j] = v\<close>, for \<open>j < 512\<close>.\<close>

definition Block_index :: "Block \<Rightarrow> nat \<Rightarrow> 64 word" where
  "Block_index blk j = le_decode (take 8 (drop (8 * j) blk))"

definition Block_set_index :: "Block \<Rightarrow> nat \<Rightarrow> 64 word \<Rightarrow> Block" where
  "Block_set_index blk j v = take (8 * j) blk @ le_encode 8 v @ drop (8 * j + 8) blk"

definition initializeData :: Block where
  \<comment> \<open>Modelled from the spec: \<open>block.cpp\<close> is not among the sources. A data block is
      initialised to zeros (``a new block is initialized (zeroed ...)'').\<close>
  "initializeData = replicate Block_size 0"

definition initializeIndices :: Block where
  \<comment> \<open>Modelled from the spec: \<open>block.cpp\<close> is not among the sources. ``Each new
      [indirection] block is initialized to all-INVALID.''\<close>
  "initializeIndices = concat (replicate 512 (le_encode 8 InvalidIndex))"

section \<open>Base\<close>

text \<open>
  \<open>base.hpp\<close>, \<open>base.cpp\<close>: the three chunk managers and the byte ceiling. The model
  covers the configuration without a key, where \<open>encrypt()\<close> is false and every
  gateway (\<open>inodeAdd\<close>, \<open>blockRead\<close>, ...) is the call of its raw function; the
  encrypted frame is modelled on its own further down. The structure lock is not
  modelled.
\<close>

record Base =
  maxSize :: "64 word"
  inodeMgr :: "Inode ChunkManager"
  direntMgr :: "Dirent ChunkManager"
  blockMgr :: "Block ChunkManager"

definition Base_storageSizeInBytes :: "Base \<Rightarrow> 64 word" where
  "Base_storageSizeInBytes b =
     ChunkManager_storageSizeInBytes (inodeMgr b)
       + ChunkManager_storageSizeInBytes (direntMgr b)
       + ChunkManager_storageSizeInBytes (blockMgr b)"

text \<open>\<open>Base::checkWriteAction\<close>; \<open>4 * sizeof(Block)\<close> is 16384, and the sums are
  \<open>uint64_t\<close> sums.\<close>

definition Base_checkWriteAction :: "EmergencyType \<Rightarrow> Base \<Rightarrow> 64 word \<Rightarrow> int" where
  "Base_checkWriteAction emergencyType b additionalBytes =
     (if emergencyType \<noteq> EmergencyNone then - EROFS
      else if maxSize b > 0 \<and> additionalBytes > 0 then
        (let additionalBytes' = additionalBytes + 4 * 4096 in
         if Base_storageSizeInBytes b + additionalBytes' > maxSize b then - ENOSPC else 0)
      else 0)"

text \<open>\<open>Base::entityAddRaw\<close>, \<open>entityRemove\<close>, \<open>entityReadRaw\<close>, \<open>entityWriteRaw\<close>.\<close>

definition entityAddRaw ::
  "EmergencyType \<Rightarrow> Base \<Rightarrow> 'a ChunkManager \<Rightarrow> nat \<Rightarrow> 'a
     \<Rightarrow> int \<times> EmergencyType \<times> 'a ChunkManager \<times> nat" where
  "entityAddRaw e b mgr index rawData =
     (let r = Base_checkWriteAction e b (of_nat (chunkSize (chunks mgr))) in
      if r = 0 then ChunkManager_add e mgr index rawData else (r, e, mgr, index))"

definition entityRemove ::
  "EmergencyType \<Rightarrow> Base \<Rightarrow> 'a ChunkManager \<Rightarrow> nat \<Rightarrow> int \<times> EmergencyType \<times> 'a ChunkManager" where
  "entityRemove e b mgr index =
     (let r = Base_checkWriteAction e b 0 in
      if r = 0 then ChunkManager_remove e mgr index else (r, e, mgr))"

definition entityReadRaw ::
  "EmergencyType \<Rightarrow> 'a ChunkManager \<Rightarrow> nat \<Rightarrow> 'a \<Rightarrow> int \<times> EmergencyType \<times> 'a" where
  "entityReadRaw e mgr index rawData = ChunkManager_read e mgr index rawData"

definition entityWriteRaw ::
  "EmergencyType \<Rightarrow> 'a ChunkManager \<Rightarrow> nat \<Rightarrow> 'a \<Rightarrow> int \<times> EmergencyType \<times> 'a ChunkManager" where
  "entityWriteRaw e mgr index rawData = ChunkManager_write e mgr index rawData"

text \<open>The gateways. An index is a \<open>uint64_t\<close>; \<open>index\<close> of an \<open>Add\<close> and the buffer of a
  \<open>Read\<close> are out-parameters.\<close>

definition Base_inodeAdd ::
  "EmergencyType \<Rightarrow> Base \<Rightarrow> 64 word \<Rightarrow> Inode \<Rightarrow> int \<times> EmergencyType \<times> Base \<times> 64 word" where
  "Base_inodeAdd e b index x =
     (case entityAddRaw e b (inodeMgr b) (unat index) x of (r, e', mgr', index') \<Rightarrow>
        (r, e', b\<lparr>inodeMgr := mgr'\<rparr>, of_nat index'))"

definition Base_inodeRemove :: "EmergencyType \<Rightarrow> Base \<Rightarrow> 64 word \<Rightarrow> int \<times> EmergencyType \<times> Base" where
  "Base_inodeRemove e b index =
     (case entityRemove e b (inodeMgr b) (unat index) of (r, e', mgr') \<Rightarrow>
        (r, e', b\<lparr>inodeMgr := mgr'\<rparr>))"

definition Base_inodeRead ::
  "EmergencyType \<Rightarrow> Base \<Rightarrow> 64 word \<Rightarrow> Inode \<Rightarrow> int \<times> EmergencyType \<times> Inode" where
  "Base_inodeRead e b index x = entityReadRaw e (inodeMgr b) (unat index) x"

definition Base_inodeWrite ::
  "EmergencyType \<Rightarrow> Base \<Rightarrow> 64 word \<Rightarrow> Inode \<Rightarrow> int \<times> EmergencyType \<times> Base" where
  "Base_inodeWrite e b index x =
     (case entityWriteRaw e (inodeMgr b) (unat index) x of (r, e', mgr') \<Rightarrow>
        (r, e', b\<lparr>inodeMgr := mgr'\<rparr>))"

definition Base_direntAdd ::
  "EmergencyType \<Rightarrow> Base \<Rightarrow> 64 word \<Rightarrow> Dirent \<Rightarrow> int \<times> EmergencyType \<times> Base \<times> 64 word" where
  "Base_direntAdd e b index x =
     (case entityAddRaw e b (direntMgr b) (unat index) x of (r, e', mgr', index') \<Rightarrow>
        (r, e', b\<lparr>direntMgr := mgr'\<rparr>, of_nat index'))"

definition Base_direntRemove :: "EmergencyType \<Rightarrow> Base \<Rightarrow> 64 word \<Rightarrow> int \<times> EmergencyType \<times> Base" where
  "Base_direntRemove e b index =
     (case entityRemove e b (direntMgr b) (unat index) of (r, e', mgr') \<Rightarrow>
        (r, e', b\<lparr>direntMgr := mgr'\<rparr>))"

definition Base_direntRead ::
  "EmergencyType \<Rightarrow> Base \<Rightarrow> 64 word \<Rightarrow> Dirent \<Rightarrow> int \<times> EmergencyType \<times> Dirent" where
  "Base_direntRead e b index x = entityReadRaw e (direntMgr b) (unat index) x"

definition Base_direntWrite ::
  "EmergencyType \<Rightarrow> Base \<Rightarrow> 64 word \<Rightarrow> Dirent \<Rightarrow> int \<times> EmergencyType \<times> Base" where
  "Base_direntWrite e b index x =
     (case entityWriteRaw e (direntMgr b) (unat index) x of (r, e', mgr') \<Rightarrow>
        (r, e', b\<lparr>direntMgr := mgr'\<rparr>))"

definition Base_blockAdd ::
  "EmergencyType \<Rightarrow> Base \<Rightarrow> 64 word \<Rightarrow> Block \<Rightarrow> int \<times> EmergencyType \<times> Base \<times> 64 word" where
  "Base_blockAdd e b index x =
     (case entityAddRaw e b (blockMgr b) (unat index) x of (r, e', mgr', index') \<Rightarrow>
        (r, e', b\<lparr>blockMgr := mgr'\<rparr>, of_nat index'))"

definition Base_blockRemove :: "EmergencyType \<Rightarrow> Base \<Rightarrow> 64 word \<Rightarrow> int \<times> EmergencyType \<times> Base" where
  "Base_blockRemove e b index =
     (case entityRemove e b (blockMgr b) (unat index) of (r, e', mgr') \<Rightarrow>
        (r, e', b\<lparr>blockMgr := mgr'\<rparr>))"

definition Base_blockRead ::
  "EmergencyType \<Rightarrow> Base \<Rightarrow> 64 word \<Rightarrow> Block \<Rightarrow> int \<times> EmergencyType \<times> Block" where
  "Base_blockRead e b index x = entityReadRaw e (blockMgr b) (unat index) x"

definition Base_blockWrite ::
  "EmergencyType \<Rightarrow> Base \<Rightarrow> 64 word \<Rightarrow> Block \<Rightarrow> int \<times> EmergencyType \<times> Base" where
  "Base_blockWrite e b index x =
     (case entityWriteRaw e (blockMgr b) (unat index) x of (r, e', mgr') \<Rightarrow>
        (r, e', b\<lparr>blockMgr := mgr'\<rparr>))"

section \<open>Handle: the slots of an inode\<close>

text \<open>
  \<open>handle.hpp\<close>, \<open>handle.cpp\<close>. The handle keeps a copy of its inode, the number of
  slots and a cache of one indirection block per tree level. The back pointer
  \<open>_base\<close> is the \<open>Base\<close> state passed to every function; the mutex is not modelled,
  and \<open>_cachedBlockIsModified\<close> is never used. Sizes, offsets and slots are \<open>uint64_t\<close>
  and are 64-bit words here.
\<close>

record Handle =
  h_inodeIndex :: "64 word"
  h_inode :: Inode
  h_slotCount :: "64 word"
  h_readOnly :: bool
  h_append :: bool
  h_refCount :: int
  h_removeOnceUnused :: bool
  h_cachedBlockIndices :: "64 word list"
  h_cachedBlocks :: "Block list"

text \<open>The static function \<open>slotCount(const Inode&)\<close>; \<open>sizeof(Block)\<close> is 4096.\<close>

definition Inode_slotCount :: "Inode \<Rightarrow> 64 word" where
  "Inode_slotCount i =
     (if Inode_type i = TypeREG then
        i_size i div 4096 + (if i_size i mod 4096 \<noteq> 0 then 1 else 0)
      else if Inode_type i = TypeDIR then i_size i
      else 0)"

text \<open>The constructor \<open>Handle::Handle(base, inodeIndex, inode)\<close>. The cached blocks are
  uninitialised memory in the source; they are only read after \<open>cacheBlock\<close> or
  \<open>initializeIndices\<close> has filled them.\<close>

definition Handle_new :: "64 word \<Rightarrow> Inode \<Rightarrow> Handle" where
  "Handle_new inodeIndex i =
     \<lparr>h_inodeIndex = inodeIndex, h_inode = i, h_slotCount = Inode_slotCount i,
      h_readOnly = False, h_append = False, h_refCount = 0, h_removeOnceUnused = False,
      h_cachedBlockIndices = replicate 4 InvalidIndex,
      h_cachedBlocks = replicate 4 initializeData\<rparr>"

text \<open>\<open>Handle::updateATime\<close>; \<open>now\<close> is the value of \<open>Time::now()\<close>. It returns the
  flag \<open>updated\<close> and the handle.\<close>

definition updateATime :: "Time \<Rightarrow> Handle \<Rightarrow> bool \<times> Handle" where
  "updateATime now h =
     (let nowMinus24hrs = now\<lparr>seconds := seconds now - 60 * 60 * 24\<rparr> in
      if isOlderThan (atime (h_inode h)) (ctime (h_inode h))
         \<or> isOlderThan (atime (h_inode h)) (mtime (h_inode h))
         \<or> isOlderThan (atime (h_inode h)) nowMinus24hrs
      then (True, h\<lparr>h_inode := (h_inode h)\<lparr>atime := now\<rparr>\<rparr>)
      else (False, h))"

text \<open>\<open>N\<close>, the number of indices in a block, and \<open>maxSlotCount\<close>.\<close>

definition N_indices :: "64 word" where
  "N_indices = 512"

definition maxSlotCount :: "64 word" where
  "maxSlotCount =
     1 + N_indices + N_indices * N_indices + N_indices * N_indices * N_indices
       + N_indices * N_indices * N_indices * N_indices"

text \<open>\<open>Handle::slotToTreeIndices\<close>: the tree and the indices \<open>ijkl\<close> of a slot.\<close>

definition slotToTreeIndices :: "64 word \<Rightarrow> nat \<times> 64 word list" where
  "slotToTreeIndices slot =
     (if slot = 0 then (0, [InvalidIndex, InvalidIndex, InvalidIndex, InvalidIndex])
      else
        (let s1 = slot - 1 in
         if s1 < N_indices then (1, [s1, InvalidIndex, InvalidIndex, InvalidIndex])
         else
           (let s2 = s1 - N_indices in
            if s2 < N_indices * N_indices then
              (let i = s2 div N_indices;
                   s3 = s2 - i * N_indices;
                   j = s3 mod N_indices
               in (2, [i, j, InvalidIndex, InvalidIndex]))
            else
              (let s4 = s2 - N_indices * N_indices in
               if s4 < N_indices * N_indices * N_indices then
                 (let i = s4 div (N_indices * N_indices);
                      s5 = s4 - i * (N_indices * N_indices);
                      j = s5 div N_indices;
                      s6 = s5 - j * N_indices;
                      k = s6 mod N_indices
                  in (3, [i, j, k, InvalidIndex]))
               else
                 (let s7 = s4 - N_indices * N_indices * N_indices;
                      i = s7 div (N_indices * N_indices * N_indices);
                      s8 = s7 - i * (N_indices * N_indices * N_indices);
                      j = s8 div (N_indices * N_indices);
                      s9 = s8 - j * (N_indices * N_indices);
                      k = s9 div N_indices;
                      s10 = s9 - k * N_indices;
                      l = s10 mod N_indices
                  in (4, [i, j, k, l]))))))"

text \<open>\<open>Handle::cacheBlock\<close>.\<close>

definition cacheBlock ::
  "EmergencyType \<Rightarrow> Base \<Rightarrow> Handle \<Rightarrow> nat \<Rightarrow> 64 word \<Rightarrow> int \<times> EmergencyType \<times> Handle" where
  "cacheBlock e b h treeLevel blockIndex =
     (if h_cachedBlockIndices h ! treeLevel \<noteq> blockIndex then
        (case Base_blockRead e b blockIndex (h_cachedBlocks h ! treeLevel) of (r, e', blk) \<Rightarrow>
           (r, e', h\<lparr>h_cachedBlocks := (h_cachedBlocks h)[treeLevel := blk],
                     h_cachedBlockIndices :=
                       (h_cachedBlockIndices h)[treeLevel := (if r = 0 then blockIndex else InvalidIndex)]\<rparr>))
      else (0, e, h))"

text \<open>
  The walk of \<open>Handle::getSlot\<close> down a tree:
  \<^verbatim>\<open>
  for (int l = 0; l < tree; l++) {
      if (blockIndex == InvalidIndex) { *index = InvalidIndex; break; }
      int r = cacheBlock(l, blockIndex);
      if (r < 0) return r;
      if (l == tree - 1) { *index = _cachedBlocks[l].indices[ijkl[l]]; break; }
      blockIndex = _cachedBlocks[l].indices[ijkl[l]];
  }
  return 0;\<close>
\<close>

function getSlot_walk ::
  "EmergencyType \<Rightarrow> Base \<Rightarrow> Handle \<Rightarrow> nat \<Rightarrow> 64 word list \<Rightarrow> nat \<Rightarrow> 64 word \<Rightarrow> 64 word
     \<Rightarrow> int \<times> EmergencyType \<times> Handle \<times> 64 word" where
  "getSlot_walk e b h tree ijkl l blockIndex index =
     (if l < tree then
        (if blockIndex = InvalidIndex then (0, e, h, InvalidIndex)
         else
           (case cacheBlock e b h l blockIndex of (r, e', h') \<Rightarrow>
              if r < 0 then (r, e', h', index)
              else if l = tree - 1 then
                (0, e', h', Block_index (h_cachedBlocks h' ! l) (unat (ijkl ! l)))
              else getSlot_walk e' b h' tree ijkl (l + 1)
                     (Block_index (h_cachedBlocks h' ! l) (unat (ijkl ! l))) index))
      else (0, e, h, index))"
  by pat_completeness auto
termination
  by (relation "measure (\<lambda>(e, b, h, tree, ijkl, l, blockIndex, index). tree - l)") auto

declare getSlot_walk.simps [simp del]

text \<open>\<open>Handle::getSlot\<close>; \<open>index\<close> is the out-parameter.\<close>

definition getSlot ::
  "EmergencyType \<Rightarrow> Base \<Rightarrow> Handle \<Rightarrow> 64 word \<Rightarrow> 64 word \<Rightarrow> int \<times> EmergencyType \<times> Handle \<times> 64 word" where
  "getSlot e b h slot index =
     (if slot \<ge> h_slotCount h then (- ENOTRECOVERABLE, emergency EmergencyBug e, h, index)
      else
        (case slotToTreeIndices slot of (tree, ijkl) \<Rightarrow>
           if tree = 0 then (0, e, h, slotTrees (h_inode h) ! 0)
           else getSlot_walk e b h tree ijkl 0 (slotTrees (h_inode h) ! tree) index))"

text \<open>The test \<open>allEntriesInvalid\<close> over the 512 indices of a block.\<close>

definition allInvalid :: "Block \<Rightarrow> bool" where
  "allInvalid blk = list_all (\<lambda>j. Block_index blk j = InvalidIndex) [0..<512]"

text \<open>
  \<open>Handle::setSlot\<close>, part one: a missing indirection block at level \<open>l\<close> is created
  and stitched into its parent.
  \<^verbatim>\<open>
  _cachedBlocks[l].initializeIndices();
  r = _base->blockAdd(&blockIndex, &(_cachedBlocks[l]));
  if (r < 0) { _cachedBlockIndices[l] = InvalidIndex; return r; }
  _cachedBlockIndices[l] = blockIndex;
  if (l > 0) {
      _cachedBlocks[l - 1].indices[ijkl[l - 1]] = blockIndex;
      r = _base->blockWrite(_cachedBlockIndices[l - 1], &(_cachedBlocks[l - 1]));
      if (r < 0) return r;
  } else {
      _inode.slotTrees[tree] = blockIndex;
  }\<close>
  The result carries \<open>r\<close> and the new \<open>blockIndex\<close>.
\<close>

definition setSlot_alloc ::
  "EmergencyType \<Rightarrow> Base \<Rightarrow> Handle \<Rightarrow> nat \<Rightarrow> 64 word list \<Rightarrow> nat \<Rightarrow> 64 word
     \<Rightarrow> int \<times> EmergencyType \<times> Base \<times> Handle \<times> 64 word" where
  "setSlot_alloc e b h tree ijkl l blockIndex =
     (let h1 = h\<lparr>h_cachedBlocks := (h_cachedBlocks h)[l := initializeIndices]\<rparr> in
      case Base_blockAdd e b blockIndex (h_cachedBlocks h1 ! l) of (r, e1, b1, blockIndex1) \<Rightarrow>
        if r < 0 then
          (r, e1, b1, h1\<lparr>h_cachedBlockIndices := (h_cachedBlockIndices h1)[l := InvalidIndex]\<rparr>,
           blockIndex1)
        else
          (let h2 = h1\<lparr>h_cachedBlockIndices := (h_cachedBlockIndices h1)[l := blockIndex1]\<rparr> in
           if l > 0 then
             (let blk = Block_set_index (h_cachedBlocks h2 ! (l - 1)) (unat (ijkl ! (l - 1))) blockIndex1;
                  h3 = h2\<lparr>h_cachedBlocks := (h_cachedBlocks h2)[l - 1 := blk]\<rparr>
              in case Base_blockWrite e1 b1 (h_cachedBlockIndices h3 ! (l - 1)) blk of (r2, e2, b2) \<Rightarrow>
                   (r2, e2, b2, h3, blockIndex1))
           else
             (r, e1, b1,
              h2\<lparr>h_inode := (h_inode h2)\<lparr>slotTrees := (slotTrees (h_inode h2))[tree := blockIndex1]\<rparr>\<rparr>,
              blockIndex1)))"

text \<open>
  Part two: an indirection block that holds no index any more is freed, and so are its
  ancestors as long as they become empty.
  \<^verbatim>\<open>
  for (int ll = l; allEntriesInvalid && ll >= 0; ll--) {
      r = _base->blockRemove(_cachedBlockIndices[ll]);
      if (r < 0) return r;
      _cachedBlockIndices[ll] = InvalidIndex;
      if (ll > 0) {
          _cachedBlocks[ll - 1].indices[ijkl[ll - 1]] = InvalidIndex;
          for (...) if (_cachedBlocks[ll - 1].indices[j] != InvalidIndex) allEntriesInvalid = false;
          if (!allEntriesInvalid) {
              r = _base->blockWrite(_cachedBlockIndices[ll - 1], &(_cachedBlocks[ll - 1]));
              if (r < 0) return r;
          }
      } else {
          _inode.slotTrees[tree] = InvalidIndex;
      }
  }\<close>
  The last argument is \<open>ll + 1\<close>, so that 0 stands for the end of the loop.
\<close>

fun setSlot_cascade ::
  "EmergencyType \<Rightarrow> Base \<Rightarrow> Handle \<Rightarrow> nat \<Rightarrow> 64 word list \<Rightarrow> nat
     \<Rightarrow> int \<times> EmergencyType \<times> Base \<times> Handle" where
  "setSlot_cascade e b h tree ijkl 0 = (0, e, b, h)"
| "setSlot_cascade e b h tree ijkl (Suc ll) =
     (case Base_blockRemove e b (h_cachedBlockIndices h ! ll) of (r, e1, b1) \<Rightarrow>
        if r < 0 then (r, e1, b1, h)
        else
          (let h1 = h\<lparr>h_cachedBlockIndices := (h_cachedBlockIndices h)[ll := InvalidIndex]\<rparr> in
           if ll > 0 then
             (let blk = Block_set_index (h_cachedBlocks h1 ! (ll - 1)) (unat (ijkl ! (ll - 1))) InvalidIndex;
                  h2 = h1\<lparr>h_cachedBlocks := (h_cachedBlocks h1)[ll - 1 := blk]\<rparr>
              in if \<not> allInvalid blk then
                   (case Base_blockWrite e1 b1 (h_cachedBlockIndices h2 ! (ll - 1)) blk of (r2, e2, b2) \<Rightarrow>
                      (if r2 < 0 then r2 else 0, e2, b2, h2))
                 else setSlot_cascade e1 b1 h2 tree ijkl ll)
           else
             (0, e1, b1,
              h1\<lparr>h_inode := (h_inode h1)\<lparr>slotTrees := (slotTrees (h_inode h1))[tree := InvalidIndex]\<rparr>\<rparr>)))"

declare setSlot_cascade.simps(2) [simp del]

text \<open>
  Part three: the leaf level, where the index is stored.
  \<^verbatim>\<open>
  uint64_t oldI = _cachedBlocks[l].indices[ijkl[l]];
  _cachedBlocks[l].indices[ijkl[l]] = index;
  bool allEntriesInvalid = (index == InvalidIndex);
  for (...) if (_cachedBlocks[l].indices[j] != InvalidIndex) allEntriesInvalid = false;
  if (allEntriesInvalid) { (the loop above) }
  else {
      r = _base->blockWrite(_cachedBlockIndices[l], &(_cachedBlocks[l]));
      if (r < 0) { _cachedBlocks[l].indices[ijkl[l]] = oldI; return r; }
  }\<close>
\<close>

definition setSlot_leaf ::
  "EmergencyType \<Rightarrow> Base \<Rightarrow> Handle \<Rightarrow> nat \<Rightarrow> 64 word list \<Rightarrow> 64 word \<Rightarrow> nat
     \<Rightarrow> int \<times> EmergencyType \<times> Base \<times> Handle" where
  "setSlot_leaf e b h tree ijkl index l =
     (let oldI = Block_index (h_cachedBlocks h ! l) (unat (ijkl ! l));
          blk = Block_set_index (h_cachedBlocks h ! l) (unat (ijkl ! l)) index;
          h1 = h\<lparr>h_cachedBlocks := (h_cachedBlocks h)[l := blk]\<rparr>
      in if index = InvalidIndex \<and> allInvalid blk then setSlot_cascade e b h1 tree ijkl (Suc l)
         else
           (case Base_blockWrite e b (h_cachedBlockIndices h1 ! l) blk of (r, e1, b1) \<Rightarrow>
              if r < 0 then
                (r, e1, b1,
                 h1\<lparr>h_cachedBlocks := (h_cachedBlocks h1)[l := Block_set_index blk (unat (ijkl ! l)) oldI]\<rparr>)
              else (0, e1, b1, h1)))"

text \<open>The walk of \<open>Handle::setSlot\<close> down a tree, \<open>for (int l = 0; l < tree; l++)\<close>.\<close>

function setSlot_walk ::
  "EmergencyType \<Rightarrow> Base \<Rightarrow> Handle \<Rightarrow> nat \<Rightarrow> 64 word list \<Rightarrow> 64 word \<Rightarrow> nat \<Rightarrow> 64 word
     \<Rightarrow> int \<times> EmergencyType \<times> Base \<times> Handle" where
  "setSlot_walk e b h tree ijkl index l blockIndex =
     (if l < tree then
        (case (if blockIndex = InvalidIndex then setSlot_alloc e b h tree ijkl l blockIndex
               else (0, e, b, h, blockIndex))
         of (ra, e1, b1, h1, blockIndex1) \<Rightarrow>
           if ra < 0 then (ra, e1, b1, h1)
           else
             (case cacheBlock e1 b1 h1 l blockIndex1 of (r, e2, h2) \<Rightarrow>
                if r < 0 then (r, e2, b1, h2)
                else if l = tree - 1 then setSlot_leaf e2 b1 h2 tree ijkl index l
                else setSlot_walk e2 b1 h2 tree ijkl index (l + 1)
                       (Block_index (h_cachedBlocks h2 ! l) (unat (ijkl ! l)))))
      else (0, e, b, h))"
  by pat_completeness auto
termination
  by (relation "measure (\<lambda>(e, b, h, tree, ijkl, index, l, blockIndex). tree - l)") auto

declare setSlot_walk.simps [simp del]

text \<open>\<open>Handle::setSlot\<close>.\<close>

definition setSlot ::
  "EmergencyType \<Rightarrow> Base \<Rightarrow> Handle \<Rightarrow> 64 word \<Rightarrow> 64 word \<Rightarrow> int \<times> EmergencyType \<times> Base \<times> Handle" where
  "setSlot e b h slot index =
     (if slot \<ge> h_slotCount h then (- ENOTRECOVERABLE, emergency EmergencyBug e, b, h)
      else
        (case slotToTreeIndices slot of (tree, ijkl) \<Rightarrow>
           if tree = 0 then
             (0, e, b, h\<lparr>h_inode := (h_inode h)\<lparr>slotTrees := (slotTrees (h_inode h))[0 := index]\<rparr>\<rparr>)
           else setSlot_walk e b h tree ijkl index 0 (slotTrees (h_inode h) ! tree)))"

text \<open>
  What the slot functions leave alone: everything in the handle but the tree roots and
  the block cache. \<open>Handle_core\<close> is the handle with those three blanked.
\<close>

definition Handle_core :: "Handle \<Rightarrow> Handle" where
  "Handle_core h =
     h\<lparr>h_inode := (h_inode h)\<lparr>slotTrees := []\<rparr>, h_cachedBlockIndices := [], h_cachedBlocks := []\<rparr>"

lemma Handle_core_simps [simp]:
  "Handle_core (h\<lparr>h_cachedBlocks := x\<rparr>) = Handle_core h"
  "Handle_core (h\<lparr>h_cachedBlockIndices := y\<rparr>) = Handle_core h"
  "Handle_core (h\<lparr>h_inode := (h_inode h)\<lparr>slotTrees := z\<rparr>\<rparr>) = Handle_core h"
  by (simp_all add: Handle_core_def)

lemma Handle_core_slotCount:
  assumes "Handle_core h' = Handle_core h"
  shows "h_slotCount h' = h_slotCount h"
proof -
  have "h_slotCount (Handle_core h') = h_slotCount (Handle_core h)" using assms by simp
  then show ?thesis by (simp add: Handle_core_def)
qed

lemma Handle_core_fields:
  assumes "Handle_core h' = Handle_core h"
  shows "h_inodeIndex h' = h_inodeIndex h" "h_append h' = h_append h"
    "h_readOnly h' = h_readOnly h" "h_refCount h' = h_refCount h"
    "h_removeOnceUnused h' = h_removeOnceUnused h"
    "(h_inode h')\<lparr>slotTrees := []\<rparr> = (h_inode h)\<lparr>slotTrees := []\<rparr>"
proof -
  have "h_inodeIndex (Handle_core h') = h_inodeIndex (Handle_core h)"
    "h_append (Handle_core h') = h_append (Handle_core h)"
    "h_readOnly (Handle_core h') = h_readOnly (Handle_core h)"
    "h_refCount (Handle_core h') = h_refCount (Handle_core h)"
    "h_removeOnceUnused (Handle_core h') = h_removeOnceUnused (Handle_core h)"
    "h_inode (Handle_core h') = h_inode (Handle_core h)"
    using assms by simp_all
  then show "h_inodeIndex h' = h_inodeIndex h" "h_append h' = h_append h"
    "h_readOnly h' = h_readOnly h" "h_refCount h' = h_refCount h"
    "h_removeOnceUnused h' = h_removeOnceUnused h"
    "(h_inode h')\<lparr>slotTrees := []\<rparr> = (h_inode h)\<lparr>slotTrees := []\<rparr>"
    by (simp_all add: Handle_core_def)
qed

lemma cacheBlock_core:
  "cacheBlock e b h l blockIndex = (r, e', h') \<Longrightarrow> Handle_core h' = Handle_core h"
  by (auto simp: cacheBlock_def split: if_splits prod.splits)

lemma cacheBlock_inode:
  "cacheBlock e b h l blockIndex = (r, e', h') \<Longrightarrow> h_inode h' = h_inode h"
  by (auto simp: cacheBlock_def split: if_splits prod.splits)

lemma getSlot_walk_core:
  "getSlot_walk e b h tree ijkl l blockIndex index = (r, e', h', index')
     \<Longrightarrow> Handle_core h' = Handle_core h \<and> h_inode h' = h_inode h"
proof (induction e b h tree ijkl l blockIndex index rule: getSlot_walk.induct)
  case (1 e b h tree ijkl l blockIndex index)
  show ?case
  proof (cases "l < tree \<and> blockIndex \<noteq> InvalidIndex")
    case False
    with "1.prems" show ?thesis
      by (auto simp: getSlot_walk.simps [of e b h tree ijkl l] split: if_splits)
  next
    case True
    obtain rc ec hc where c: "cacheBlock e b h l blockIndex = (rc, ec, hc)"
      by (cases "cacheBlock e b h l blockIndex") auto
    note cc = cacheBlock_core [OF c] cacheBlock_inode [OF c]
    show ?thesis
    proof (cases "rc < 0 \<or> l = tree - 1")
      case True
      with \<open>l < tree \<and> blockIndex \<noteq> InvalidIndex\<close> "1.prems" c cc show ?thesis
        by (auto simp: getSlot_walk.simps [of e b h tree ijkl l] split: if_splits)
    next
      case False
      with \<open>l < tree \<and> blockIndex \<noteq> InvalidIndex\<close> "1.prems" c
      have "getSlot_walk ec b hc tree ijkl (l + 1)
              (Block_index (h_cachedBlocks hc ! l) (unat (ijkl ! l))) index = (r, e', h', index')"
        by (simp add: getSlot_walk.simps [of e b h tree ijkl l])
      from "1.IH" [OF _ _ c [symmetric] refl _ _ this] True False cc show ?thesis by simp
    qed
  qed
qed

lemma getSlot_core:
  "getSlot e b h slot index = (r, e', h', index')
     \<Longrightarrow> Handle_core h' = Handle_core h \<and> h_inode h' = h_inode h"
  by (auto simp: getSlot_def split: if_splits prod.splits dest: getSlot_walk_core)

lemma setSlot_alloc_core:
  "setSlot_alloc e b h tree ijkl l blockIndex = (r, e', b', h', blockIndex')
     \<Longrightarrow> Handle_core h' = Handle_core h"
  by (auto simp: setSlot_alloc_def Let_def Handle_core_def split: if_splits prod.splits)

lemma setSlot_cascade_core:
  "setSlot_cascade e b h tree ijkl n = (r, e', b', h') \<Longrightarrow> Handle_core h' = Handle_core h"
proof (induction n arbitrary: e b h)
  case 0
  then show ?case by simp
next
  case (Suc ll)
  obtain r1 e1 b1 where rm: "Base_blockRemove e b (h_cachedBlockIndices h ! ll) = (r1, e1, b1)"
    by (cases "Base_blockRemove e b (h_cachedBlockIndices h ! ll)") auto
  define h1 where "h1 = h\<lparr>h_cachedBlockIndices := (h_cachedBlockIndices h)[ll := InvalidIndex]\<rparr>"
  define blk where "blk = Block_set_index (h_cachedBlocks h1 ! (ll - 1)) (unat (ijkl ! (ll - 1))) InvalidIndex"
  define h2 where "h2 = h1\<lparr>h_cachedBlocks := (h_cachedBlocks h1)[ll - 1 := blk]\<rparr>"
  have c2: "Handle_core h2 = Handle_core h" by (simp add: h2_def h1_def)
  show ?case
  proof (cases "\<not> r1 < 0 \<and> ll > 0 \<and> allInvalid blk")
    case True
    with Suc.prems rm have "setSlot_cascade e1 b1 h2 tree ijkl ll = (r, e', b', h')"
      by (simp add: setSlot_cascade.simps Let_def h1_def h2_def blk_def)
    from Suc.IH [OF this] c2 show ?thesis by simp
  next
    case False
    with Suc.prems rm show ?thesis
      by (auto simp: setSlot_cascade.simps Let_def h1_def h2_def blk_def Handle_core_def
          split: if_splits prod.splits)
  qed
qed

lemma setSlot_leaf_core:
  "setSlot_leaf e b h tree ijkl index l = (r, e', b', h') \<Longrightarrow> Handle_core h' = Handle_core h"
  unfolding setSlot_leaf_def Let_def
  by (auto split: if_splits prod.splits dest!: setSlot_cascade_core)

lemma setSlot_walk_core:
  "setSlot_walk e b h tree ijkl index l blockIndex = (r, e', b', h')
     \<Longrightarrow> Handle_core h' = Handle_core h"
proof (induction e b h tree ijkl index l blockIndex rule: setSlot_walk.induct)
  case (1 e b h tree ijkl index l blockIndex)
  show ?case
  proof (cases "l < tree")
    case False
    with "1.prems" show ?thesis by (simp add: setSlot_walk.simps [of e b h tree ijkl index l])
  next
    case True
    obtain ra e1 b1 h1 blockIndex1 where a:
      "(if blockIndex = InvalidIndex then setSlot_alloc e b h tree ijkl l blockIndex
        else (0, e, b, h, blockIndex)) = (ra, e1, b1, h1, blockIndex1)"
      by (metis prod_cases5)
    have c1: "Handle_core h1 = Handle_core h"
      using a by (auto split: if_splits dest: setSlot_alloc_core)
    obtain rc e2 h2 where c: "cacheBlock e1 b1 h1 l blockIndex1 = (rc, e2, h2)"
      by (cases "cacheBlock e1 b1 h1 l blockIndex1") auto
    have c2: "Handle_core h2 = Handle_core h"
      using cacheBlock_core [OF c] c1 by simp
    show ?thesis
    proof (cases "ra < 0 \<or> rc < 0 \<or> l = tree - 1")
      case True
      with \<open>l < tree\<close> "1.prems" a c c1 c2 show ?thesis
        by (auto simp: setSlot_walk.simps [of e b h tree ijkl index l]
            split: if_splits dest!: setSlot_leaf_core)
    next
      case False
      with \<open>l < tree\<close> "1.prems" a c
      have "setSlot_walk e2 b1 h2 tree ijkl index (l + 1)
              (Block_index (h_cachedBlocks h2 ! l) (unat (ijkl ! l))) = (r, e', b', h')"
        by (simp add: setSlot_walk.simps [of e b h tree ijkl index l])
      from "1.IH" [OF \<open>l < tree\<close> a [symmetric] refl refl refl _ c [symmetric] refl _ _ this]
        False c2 show ?thesis by simp
    qed
  qed
qed

lemma setSlot_core:
  "setSlot e b h slot index = (r, e', b', h') \<Longrightarrow> Handle_core h' = Handle_core h"
  by (auto simp: setSlot_def split: if_splits prod.splits dest: setSlot_walk_core)

text \<open>
  The loop of \<open>Handle::insertSlot\<close> that shifts the slots to the right; \<open>i\<close> is an
  \<open>int64_t\<close>, \<open>tmp\<close> an uninitialised local that \<open>getSlot\<close> sets.
  \<^verbatim>\<open>
  for (int64_t i = int64_t(slotCount()) - 1; i > int64_t(slot); i--) {
      uint64_t tmp;
      r = getSlot(i - 1, &tmp);  if (r < 0) return r;
      r = setSlot(i, tmp);       if (r < 0) return r;
  }\<close>
\<close>

function insertSlot_shift ::
  "EmergencyType \<Rightarrow> Base \<Rightarrow> Handle \<Rightarrow> int \<Rightarrow> 64 word \<Rightarrow> int \<times> EmergencyType \<times> Base \<times> Handle" where
  "insertSlot_shift e b h i slot =
     (if i > sint slot then
        (case getSlot e b h (word_of_int (i - 1)) 0 of (r, e1, h1, tmp) \<Rightarrow>
           if r < 0 then (r, e1, b, h1)
           else
             (case setSlot e1 b h1 (word_of_int i) tmp of (r2, e2, b2, h2) \<Rightarrow>
                if r2 < 0 then (r2, e2, b2, h2)
                else insertSlot_shift e2 b2 h2 (i - 1) slot))
      else (0, e, b, h))"
  by pat_completeness auto
termination
  by (relation "measure (\<lambda>(e, b, h, i, slot). nat (i - sint slot))") auto

declare insertSlot_shift.simps [simp del]

text \<open>\<open>Handle::insertSlot\<close>.\<close>

definition insertSlot ::
  "EmergencyType \<Rightarrow> Base \<Rightarrow> Handle \<Rightarrow> 64 word \<Rightarrow> 64 word \<Rightarrow> int \<times> EmergencyType \<times> Base \<times> Handle" where
  "insertSlot e b h slot index =
     (if slot \<ge> h_slotCount h + 1 then (- ENOTRECOVERABLE, emergency EmergencyBug e, b, h)
      else if h_slotCount h = maxSlotCount then (- ENOSPC, e, b, h)
      else
        (let h1 = h\<lparr>h_slotCount := h_slotCount h + 1\<rparr> in
         case insertSlot_shift e b h1 (sint (h_slotCount h1) - 1) slot of (r, e1, b1, h2) \<Rightarrow>
           if r < 0 then (r, e1, b1, h2)
           else setSlot e1 b1 h2 slot index))"

lemma insertSlot_shift_core:
  "insertSlot_shift e b h i slot = (r, e', b', h') \<Longrightarrow> Handle_core h' = Handle_core h"
proof (induction e b h i slot rule: insertSlot_shift.induct)
  case (1 e b h i slot)
  show ?case
  proof (cases "i > sint slot")
    case False
    with "1.prems" show ?thesis by (simp add: insertSlot_shift.simps [of e b h i])
  next
    case True
    obtain r1 e1 h1 tmp where g: "getSlot e b h (word_of_int (i - 1)) 0 = (r1, e1, h1, tmp)"
      by (metis prod_cases4)
    obtain r2 e2 b2 h2 where st: "setSlot e1 b h1 (word_of_int i) tmp = (r2, e2, b2, h2)"
      by (metis prod_cases4)
    have c2: "Handle_core h1 = Handle_core h" "Handle_core h2 = Handle_core h"
      using getSlot_core [OF g] setSlot_core [OF st] by simp_all
    show ?thesis
    proof (cases "r1 < 0 \<or> r2 < 0")
      case True
      with \<open>i > sint slot\<close> "1.prems" g st c2 show ?thesis
        by (auto simp: insertSlot_shift.simps [of e b h i] split: if_splits)
    next
      case False
      with \<open>i > sint slot\<close> "1.prems" g st
      have "insertSlot_shift e2 b2 h2 (i - 1) slot = (r, e', b', h')"
        by (simp add: insertSlot_shift.simps [of e b h i])
      from "1.IH" [OF \<open>i > sint slot\<close> g [symmetric] refl refl _ st [symmetric] refl refl _ this]
        False c2 show ?thesis by simp
    qed
  qed
qed

text \<open>
  The loop of \<open>Handle::removeSlot\<close> that shifts the slots to the left:
  \<^verbatim>\<open>
  for (uint64_t i = slot; i < slotCount() - 1; i++) {
      uint64_t tmp;
      r = getSlot(i + 1, &tmp);  if (r < 0) return r;
      r = setSlot(i, tmp);       if (r < 0) return r;
  }\<close>
\<close>

function removeSlot_shift ::
  "EmergencyType \<Rightarrow> Base \<Rightarrow> Handle \<Rightarrow> 64 word \<Rightarrow> int \<times> EmergencyType \<times> Base \<times> Handle" where
  "removeSlot_shift e b h i =
     (if i < h_slotCount h - 1 then
        (case getSlot e b h (i + 1) 0 of (r, e1, h1, tmp) \<Rightarrow>
           if r < 0 then (r, e1, b, h1)
           else
             (case setSlot e1 b h1 i tmp of (r2, e2, b2, h2) \<Rightarrow>
                if r2 < 0 then (r2, e2, b2, h2)
                else removeSlot_shift e2 b2 h2 (i + 1)))
      else (0, e, b, h))"
  by pat_completeness auto
termination
  apply (relation "measure (\<lambda>(e, b, h, i). unat (h_slotCount h - 1) - unat i)")
  apply simp
  apply (auto dest!: sym [of "(_, _, _, _)"] getSlot_core setSlot_core Handle_core_slotCount)
  apply unat_arith
  done

declare removeSlot_shift.simps [simp del]

lemma removeSlot_shift_core:
  "removeSlot_shift e b h i = (r, e', b', h') \<Longrightarrow> Handle_core h' = Handle_core h"
proof (induction e b h i rule: removeSlot_shift.induct)
  case (1 e b h i)
  show ?case
  proof (cases "i < h_slotCount h - 1")
    case False
    with "1.prems" show ?thesis by (simp add: removeSlot_shift.simps [of e b h i])
  next
    case True
    obtain r1 e1 h1 tmp where g: "getSlot e b h (i + 1) 0 = (r1, e1, h1, tmp)"
      by (metis prod_cases4)
    obtain r2 e2 b2 h2 where st: "setSlot e1 b h1 i tmp = (r2, e2, b2, h2)"
      by (metis prod_cases4)
    have c2: "Handle_core h1 = Handle_core h" "Handle_core h2 = Handle_core h"
      using getSlot_core [OF g] setSlot_core [OF st] by simp_all
    show ?thesis
    proof (cases "r1 < 0 \<or> r2 < 0")
      case True
      with \<open>i < h_slotCount h - 1\<close> "1.prems" g st c2 show ?thesis
        by (auto simp: removeSlot_shift.simps [of e b h i] split: if_splits)
    next
      case False
      with \<open>i < h_slotCount h - 1\<close> "1.prems" g st
      have "removeSlot_shift e2 b2 h2 (i + 1) = (r, e', b', h')"
        by (simp add: removeSlot_shift.simps [of e b h i])
      from "1.IH" [OF \<open>i < h_slotCount h - 1\<close> g [symmetric] refl refl _ st [symmetric] refl refl _ this]
        False c2 show ?thesis by simp
    qed
  qed
qed

text \<open>\<open>Handle::removeSlot\<close>.\<close>

definition removeSlot ::
  "EmergencyType \<Rightarrow> Base \<Rightarrow> Handle \<Rightarrow> 64 word \<Rightarrow> bool \<Rightarrow> int \<times> EmergencyType \<times> Base \<times> Handle" where
  "removeSlot e b h slot removeDirentOrBlock =
     (if slot \<ge> h_slotCount h then (- ENOTRECOVERABLE, emergency EmergencyBug e, b, h)
      else
        (case (if removeDirentOrBlock then getSlot e b h slot InvalidIndex
               else (0, e, h, InvalidIndex))
         of (r0, e0, h0, index) \<Rightarrow>
           if r0 < 0 then (r0, e0, b, h0)
           else
             (case removeSlot_shift e0 b h0 slot of (r1, e1, b1, h1) \<Rightarrow>
                if r1 < 0 then (r1, e1, b1, h1)
                else
                  (case setSlot e1 b1 h1 (h_slotCount h1 - 1) InvalidIndex of (r2, e2, b2, h2) \<Rightarrow>
                     if r2 < 0 then (r2, e2, b2, h2)
                     else
                       (case (if removeDirentOrBlock \<and> index \<noteq> InvalidIndex then
                                (if Inode_type (h_inode h2) = TypeDIR then Base_direntRemove e2 b2 index
                                 else if Inode_type (h_inode h2) = TypeREG then Base_blockRemove e2 b2 index
                                 else (- EINVAL, e2, b2))
                              else (r2, e2, b2))
                        of (r3, e3, b3) \<Rightarrow>
                          if r3 < 0 then (r3, e3, b3, h2)
                          else (0, e3, b3, h2\<lparr>h_slotCount := h_slotCount h2 - 1\<rparr>))))))"

text \<open>
  What \<open>insertSlot\<close>, \<open>removeSlot\<close> and \<open>truncateNow\<close> leave alone: \<open>Handle_attrs\<close> is the
  handle without the tree roots, the block cache, the slot count and the size.
\<close>

definition Handle_attrs :: "Handle \<Rightarrow> Handle" where
  "Handle_attrs h =
     h\<lparr>h_inode := (h_inode h)\<lparr>slotTrees := [], i_size := 0\<rparr>, h_slotCount := 0,
       h_cachedBlockIndices := [], h_cachedBlocks := []\<rparr>"

lemma Handle_attrs_core: "Handle_attrs h = Handle_attrs (Handle_core h)"
  by (simp add: Handle_attrs_def Handle_core_def)

lemma Handle_core_attrs: "Handle_core h' = Handle_core h \<Longrightarrow> Handle_attrs h' = Handle_attrs h"
  by (metis Handle_attrs_core)

lemma Handle_core_size:
  assumes "Handle_core h' = Handle_core h"
  shows "i_size (h_inode h') = i_size (h_inode h)"
proof -
  have "i_size (h_inode (Handle_core h')) = i_size (h_inode (Handle_core h))" using assms by simp
  then show ?thesis by (simp add: Handle_core_def)
qed

lemma Handle_attrs_simps [simp]:
  "Handle_attrs (h\<lparr>h_slotCount := n\<rparr>) = Handle_attrs h"
  "Handle_attrs (h\<lparr>h_inode := (h_inode h)\<lparr>i_size := z\<rparr>\<rparr>) = Handle_attrs h"
  by (simp_all add: Handle_attrs_def)

lemma Handle_core_slotCount_update:
  "Handle_core (h\<lparr>h_slotCount := n\<rparr>) = (Handle_core h)\<lparr>h_slotCount := n\<rparr>"
  by (simp add: Handle_core_def)

lemma insertSlot_unfold:
  assumes "\<not> (slot \<ge> h_slotCount h + 1 \<or> h_slotCount h = maxSlotCount)"
    and "insertSlot_shift e b (h\<lparr>h_slotCount := h_slotCount h + 1\<rparr>)
           (sint (h_slotCount h + 1) - 1) slot = (r1, e1, b1, h2)"
  shows "insertSlot e b h slot index =
           (if r1 < 0 then (r1, e1, b1, h2) else setSlot e1 b1 h2 slot index)"
  using assms by (simp add: insertSlot_def Let_def)

lemma insertSlot_core:
  assumes "insertSlot e b h slot index = (r, e', b', h')"
  shows "Handle_core h' = Handle_core h
         \<or> Handle_core h' = Handle_core (h\<lparr>h_slotCount := h_slotCount h + 1\<rparr>)"
proof (cases "slot \<ge> h_slotCount h + 1 \<or> h_slotCount h = maxSlotCount")
  case True
  then have "insertSlot e b h slot index = (- ENOTRECOVERABLE, emergency EmergencyBug e, b, h)
      \<or> insertSlot e b h slot index = (- ENOSPC, e, b, h)"
    by (auto simp: insertSlot_def)
  with assms show ?thesis by auto
next
  case False
  define h1 where "h1 = h\<lparr>h_slotCount := h_slotCount h + 1\<rparr>"
  obtain r1 e1 b1 h2 where sh: "insertSlot_shift e b h1 (sint (h_slotCount h + 1) - 1) slot = (r1, e1, b1, h2)"
    by (metis prod_cases4)
  have c2: "Handle_core h2 = Handle_core h1" using insertSlot_shift_core [OF sh] .
  have eq: "insertSlot e b h slot index =
           (if r1 < 0 then (r1, e1, b1, h2) else setSlot e1 b1 h2 slot index)"
    using insertSlot_unfold [OF False] sh by (simp add: h1_def)
  have "Handle_core h' = Handle_core h1"
  proof (cases "r1 < 0")
    case True
    with eq assms c2 show ?thesis by simp
  next
    case False
    with eq assms have "setSlot e1 b1 h2 slot index = (r, e', b', h')" by simp
    from setSlot_core [OF this] c2 show ?thesis by simp
  qed
  then show ?thesis by (simp add: h1_def)
qed

lemma insertSlot_attrs:
  assumes "insertSlot e b h slot index = (r, e', b', h')"
  shows "Handle_attrs h' = Handle_attrs h \<and> i_size (h_inode h') = i_size (h_inode h)"
  using insertSlot_core [OF assms]
  by (auto dest: Handle_core_attrs Handle_core_size)

lemma insertSlot_success:
  assumes "insertSlot e b h slot index = (0, e', b', h')"
  shows "h_slotCount h' = h_slotCount h + 1"
proof -
  have ne: "\<not> (slot \<ge> h_slotCount h + 1 \<or> h_slotCount h = maxSlotCount)"
  proof
    assume "slot \<ge> h_slotCount h + 1 \<or> h_slotCount h = maxSlotCount"
    then have "insertSlot e b h slot index = (- ENOTRECOVERABLE, emergency EmergencyBug e, b, h)
      \<or> insertSlot e b h slot index = (- ENOSPC, e, b, h)"
      by (auto simp: insertSlot_def)
    with assms show False by (auto simp: errno_defs)
  qed
  define h1 where "h1 = h\<lparr>h_slotCount := h_slotCount h + 1\<rparr>"
  obtain r1 e1 b1 h2 where sh: "insertSlot_shift e b h1 (sint (h_slotCount h + 1) - 1) slot = (r1, e1, b1, h2)"
    by (metis prod_cases4)
  have c2: "Handle_core h2 = Handle_core h1" using insertSlot_shift_core [OF sh] .
  have eq: "insertSlot e b h slot index =
           (if r1 < 0 then (r1, e1, b1, h2) else setSlot e1 b1 h2 slot index)"
    using insertSlot_unfold [OF ne] sh by (simp add: h1_def)
  have "Handle_core h' = Handle_core h1"
  proof (cases "r1 < 0")
    case True
    with eq assms c2 show ?thesis by simp
  next
    case False
    with eq assms have "setSlot e1 b1 h2 slot index = (0, e', b', h')" by simp
    from setSlot_core [OF this] c2 show ?thesis by simp
  qed
  then have "h_slotCount h' = h_slotCount h1" by (rule Handle_core_slotCount)
  then show ?thesis by (simp add: h1_def)
qed

lemma removeSlot_unfold:
  assumes "\<not> slot \<ge> h_slotCount h"
    and "(if rm then getSlot e b h slot InvalidIndex else (0, e, h, InvalidIndex)) = (r0, e0, h0, index)"
    and "removeSlot_shift e0 b h0 slot = (r1, e1, b1, h1)"
    and "setSlot e1 b1 h1 (h_slotCount h1 - 1) InvalidIndex = (r2, e2, b2, h2)"
    and "(if rm \<and> index \<noteq> InvalidIndex then
            (if Inode_type (h_inode h2) = TypeDIR then Base_direntRemove e2 b2 index
             else if Inode_type (h_inode h2) = TypeREG then Base_blockRemove e2 b2 index
             else (- EINVAL, e2, b2))
          else (r2, e2, b2)) = (r3, e3, b3)"
  shows "removeSlot e b h slot rm =
     (if r0 < 0 then (r0, e0, b, h0)
      else if r1 < 0 then (r1, e1, b1, h1)
      else if r2 < 0 then (r2, e2, b2, h2)
      else if r3 < 0 then (r3, e3, b3, h2)
      else (0, e3, b3, h2\<lparr>h_slotCount := h_slotCount h2 - 1\<rparr>))"
  unfolding removeSlot_def using assms(1) 
  by (simp only: assms(2-5) if_False prod.case)

lemma removeSlot_result:
  assumes "removeSlot e b h slot rm = (r, e', b', h')"
  shows "(Handle_core h' = Handle_core h \<and> r \<noteq> 0)
         \<or> (Handle_core h' = Handle_core (h\<lparr>h_slotCount := h_slotCount h - 1\<rparr>)
            \<and> r = 0 \<and> h_slotCount h \<noteq> 0)"
proof (cases "slot \<ge> h_slotCount h")
  case True
  with assms show ?thesis by (auto simp: removeSlot_def errno_defs)
next
  case False
  then have nz: "h_slotCount h \<noteq> 0" by auto
  obtain r0 e0 h0 index where g:
    "(if rm then getSlot e b h slot InvalidIndex else (0, e, h, InvalidIndex)) = (r0, e0, h0, index)"
    by (metis prod_cases4)
  have c0: "Handle_core h0 = Handle_core h"
    using g by (auto split: if_splits dest: getSlot_core)
  obtain r1 e1 b1 h1 where sh: "removeSlot_shift e0 b h0 slot = (r1, e1, b1, h1)"
    by (metis prod_cases4)
  have c1: "Handle_core h1 = Handle_core h" using removeSlot_shift_core [OF sh] c0 by simp
  obtain r2 e2 b2 h2 where st: "setSlot e1 b1 h1 (h_slotCount h1 - 1) InvalidIndex = (r2, e2, b2, h2)"
    by (metis prod_cases4)
  have c2: "Handle_core h2 = Handle_core h" using setSlot_core [OF st] c1 by simp
  obtain r3 e3 b3 where rm3: "(if rm \<and> index \<noteq> InvalidIndex then
            (if Inode_type (h_inode h2) = TypeDIR then Base_direntRemove e2 b2 index
             else if Inode_type (h_inode h2) = TypeREG then Base_blockRemove e2 b2 index
             else (- EINVAL, e2, b2))
          else (r2, e2, b2)) = (r3, e3, b3)"
    by (metis prod_cases3)
  have sc: "h_slotCount h2 = h_slotCount h" using c2 by (rule Handle_core_slotCount)
  have c3: "Handle_core (h2\<lparr>h_slotCount := h_slotCount h2 - 1\<rparr>)
            = Handle_core (h\<lparr>h_slotCount := h_slotCount h - 1\<rparr>)"
    using c2 sc by (simp add: Handle_core_slotCount_update)
  from removeSlot_unfold [OF False g sh st rm3] assms c0 c1 c2 c3 nz
  show ?thesis by (auto split: if_splits)
qed

lemma removeSlot_attrs:
  assumes "removeSlot e b h slot rm = (r, e', b', h')"
  shows "Handle_attrs h' = Handle_attrs h \<and> i_size (h_inode h') = i_size (h_inode h)"
  using removeSlot_result [OF assms]
  by (auto dest: Handle_core_attrs Handle_core_size)

lemma removeSlot_success:
  assumes "removeSlot e b h slot rm = (0, e', b', h')"
  shows "h_slotCount h' = h_slotCount h - 1 \<and> h_slotCount h \<noteq> 0"
  using removeSlot_result [OF assms]
  by (auto dest: Handle_core_slotCount)

text \<open>
  The two loops of \<open>Handle::truncateNow\<close> that bring the slot count to the new block
  count:
  \<^verbatim>\<open>
  while (r == 0 && newBlockCount < slotCount()) { r = removeSlot(slotCount() - 1, true); }
  while (r == 0 && newBlockCount > slotCount()) { r = insertSlot(slotCount(), InvalidIndex); }\<close>
\<close>

function truncate_shrink ::
  "EmergencyType \<Rightarrow> Base \<Rightarrow> Handle \<Rightarrow> 64 word \<Rightarrow> int \<times> EmergencyType \<times> Base \<times> Handle" where
  "truncate_shrink e b h newBlockCount =
     (if newBlockCount < h_slotCount h then
        (case removeSlot e b h (h_slotCount h - 1) True of (r, e1, b1, h1) \<Rightarrow>
           if r = 0 then truncate_shrink e1 b1 h1 newBlockCount else (r, e1, b1, h1))
      else (0, e, b, h))"
  by pat_completeness auto
termination
  apply (relation "measure (\<lambda>(e, b, h, newBlockCount). unat (h_slotCount h))")
  apply simp
  apply (auto dest!: sym [of "(_, _, _, _)"] removeSlot_success)
  apply unat_arith
  done

declare truncate_shrink.simps [simp del]

function truncate_grow ::
  "EmergencyType \<Rightarrow> Base \<Rightarrow> Handle \<Rightarrow> 64 word \<Rightarrow> int \<times> EmergencyType \<times> Base \<times> Handle" where
  "truncate_grow e b h newBlockCount =
     (if newBlockCount > h_slotCount h then
        (case insertSlot e b h (h_slotCount h) InvalidIndex of (r, e1, b1, h1) \<Rightarrow>
           if r = 0 then truncate_grow e1 b1 h1 newBlockCount else (r, e1, b1, h1))
      else (0, e, b, h))"
  by pat_completeness auto
termination
  apply (relation "measure (\<lambda>(e, b, h, newBlockCount). unat newBlockCount - unat (h_slotCount h))")
  apply simp
  apply (auto dest!: sym [of "(_, _, _, _)"] insertSlot_success)
  apply unat_arith
  done

declare truncate_grow.simps [simp del]

text \<open>
  The part of \<open>Handle::truncateNow\<close> that clears the tail of the block that used to be
  the last one:
  \<^verbatim>\<open>
  uint64_t lastOrigBlockSlot = origBlockCount - 1;
  uint64_t lastOrigBlockValidDataSize = _inode.size % sizeof(Block);
  uint64_t lastOrigBlockIndex;
  r = getSlot(lastOrigBlockSlot, &lastOrigBlockIndex);
  if (r == 0) {
      if (lastOrigBlockIndex != InvalidIndex) {
          Block lastOrigBlock;
          r = _base->blockRead(lastOrigBlockIndex, &lastOrigBlock);
          if (r == 0) {
              memset(lastOrigBlock.data + lastOrigBlockValidDataSize, 0, sizeof(Block) - lastOrigBlockValidDataSize);
              r = _base->blockWrite(lastOrigBlockIndex, &lastOrigBlock);
          }
      }
  }\<close>
\<close>

definition truncate_zero_tail ::
  "EmergencyType \<Rightarrow> Base \<Rightarrow> Handle \<Rightarrow> 64 word \<Rightarrow> int \<times> EmergencyType \<times> Base \<times> Handle" where
  "truncate_zero_tail e b h origBlockCount =
     (let lastOrigBlockSlot = origBlockCount - 1;
          lastOrigBlockValidDataSize = i_size (h_inode h) mod 4096
      in case getSlot e b h lastOrigBlockSlot 0 of (r, e1, h1, lastOrigBlockIndex) \<Rightarrow>
           if r = 0 \<and> lastOrigBlockIndex \<noteq> InvalidIndex then
             (case Base_blockRead e1 b lastOrigBlockIndex initializeData of (r2, e2, lastOrigBlock) \<Rightarrow>
                if r2 = 0 then
                  (case Base_blockWrite e2 b lastOrigBlockIndex
                          (take (unat lastOrigBlockValidDataSize) lastOrigBlock
                             @ replicate (Block_size - unat lastOrigBlockValidDataSize) 0)
                   of (r3, e3, b3) \<Rightarrow> (r3, e3, b3, h1))
                else (r2, e2, b, h1))
           else (r, e1, b, h1))"

text \<open>\<open>Handle::truncateNow\<close>.\<close>

definition truncateNow ::
  "EmergencyType \<Rightarrow> Base \<Rightarrow> Handle \<Rightarrow> 64 word \<Rightarrow> int \<times> EmergencyType \<times> Base \<times> Handle" where
  "truncateNow e b h len =
     (if len \<noteq> i_size (h_inode h) then
        (let origSize = i_size (h_inode h);
             origBlockCount = h_slotCount h;
             newBlockCount = len div 4096 + (if len mod 4096 \<noteq> 0 then 1 else 0)
         in case truncate_shrink e b h newBlockCount of (r1, e1, b1, h1) \<Rightarrow>
            case (if r1 = 0 then truncate_grow e1 b1 h1 newBlockCount else (r1, e1, b1, h1))
            of (r2, e2, b2, h2) \<Rightarrow>
            case (if r2 = 0 \<and> len > i_size (h_inode h2) \<and> origSize mod 4096 \<noteq> 0
                  then truncate_zero_tail e2 b2 h2 origBlockCount else (r2, e2, b2, h2))
            of (r3, e3, b3, h3) \<Rightarrow>
              if r3 = 0 then (r3, e3, b3, h3\<lparr>h_inode := (h_inode h3)\<lparr>i_size := len\<rparr>\<rparr>)
              else (r3, e3, b3, h3))
      else (0, e, b, h))"

lemma truncate_shrink_attrs:
  "truncate_shrink e b h n = (r, e', b', h')
     \<Longrightarrow> Handle_attrs h' = Handle_attrs h \<and> i_size (h_inode h') = i_size (h_inode h)"
proof (induction e b h n rule: truncate_shrink.induct)
  case (1 e b h n)
  show ?case
  proof (cases "n < h_slotCount h")
    case False
    with "1.prems" show ?thesis by (simp add: truncate_shrink.simps [of e b h n])
  next
    case True
    obtain r1 e1 b1 h1 where rs: "removeSlot e b h (h_slotCount h - 1) True = (r1, e1, b1, h1)"
      by (metis prod_cases4)
    note a1 = removeSlot_attrs [OF rs]
    show ?thesis
    proof (cases "r1 = 0")
      case False
      with True "1.prems" rs a1 show ?thesis by (simp add: truncate_shrink.simps [of e b h n])
    next
      case r0: True
      with True "1.prems" rs have "truncate_shrink e1 b1 h1 n = (r, e', b', h')"
        by (simp add: truncate_shrink.simps [of e b h n])
      from "1.IH" [OF True rs [symmetric] refl refl r0 this] a1 show ?thesis by simp
    qed
  qed
qed

lemma truncate_grow_attrs:
  "truncate_grow e b h n = (r, e', b', h')
     \<Longrightarrow> Handle_attrs h' = Handle_attrs h \<and> i_size (h_inode h') = i_size (h_inode h)"
proof (induction e b h n rule: truncate_grow.induct)
  case (1 e b h n)
  show ?case
  proof (cases "n > h_slotCount h")
    case False
    with "1.prems" show ?thesis by (simp add: truncate_grow.simps [of e b h n])
  next
    case True
    obtain r1 e1 b1 h1 where rs: "insertSlot e b h (h_slotCount h) InvalidIndex = (r1, e1, b1, h1)"
      by (metis prod_cases4)
    note a1 = insertSlot_attrs [OF rs]
    show ?thesis
    proof (cases "r1 = 0")
      case False
      with True "1.prems" rs a1 show ?thesis by (simp add: truncate_grow.simps [of e b h n])
    next
      case r0: True
      with True "1.prems" rs have "truncate_grow e1 b1 h1 n = (r, e', b', h')"
        by (simp add: truncate_grow.simps [of e b h n])
      from "1.IH" [OF True rs [symmetric] refl refl r0 this] a1 show ?thesis by simp
    qed
  qed
qed

lemma truncate_zero_tail_core:
  "truncate_zero_tail e b h n = (r, e', b', h') \<Longrightarrow> Handle_core h' = Handle_core h"
  unfolding truncate_zero_tail_def Let_def
  by (auto split: if_splits prod.splits dest: getSlot_core)

lemma truncateNow_attrs:
  assumes "truncateNow e b h len = (r, e', b', h')"
  shows "Handle_attrs h' = Handle_attrs h"
    and "i_size (h_inode h') = (if r = 0 then len else i_size (h_inode h))"
proof -
  define n where "n = len div 4096 + (if len mod 4096 \<noteq> 0 then 1 else (0::64 word))"
  obtain r1 e1 b1 h1 where s1: "truncate_shrink e b h n = (r1, e1, b1, h1)"
    by (metis prod_cases4)
  obtain r2 e2 b2 h2 where s2:
    "(if r1 = 0 then truncate_grow e1 b1 h1 n else (r1, e1, b1, h1)) = (r2, e2, b2, h2)"
    by (metis prod_cases4)
  obtain r3 e3 b3 h3 where s3:
    "(if r2 = 0 \<and> len > i_size (h_inode h2) \<and> i_size (h_inode h) mod 4096 \<noteq> 0
      then truncate_zero_tail e2 b2 h2 (h_slotCount h) else (r2, e2, b2, h2)) = (r3, e3, b3, h3)"
    by (metis prod_cases4)
  have a1: "Handle_attrs h1 = Handle_attrs h \<and> i_size (h_inode h1) = i_size (h_inode h)"
    using truncate_shrink_attrs [OF s1] .
  have a2: "Handle_attrs h2 = Handle_attrs h \<and> i_size (h_inode h2) = i_size (h_inode h)"
    using s2 a1 by (auto split: if_splits dest: truncate_grow_attrs)
  have a3: "Handle_attrs h3 = Handle_attrs h \<and> i_size (h_inode h3) = i_size (h_inode h)"
    using s3 a2
    by (auto split: if_splits dest!: truncate_zero_tail_core dest: Handle_core_attrs Handle_core_size)
  have eq: "truncateNow e b h len =
     (if len \<noteq> i_size (h_inode h) then
        (if r3 = 0 then (r3, e3, b3, h3\<lparr>h_inode := (h_inode h3)\<lparr>i_size := len\<rparr>\<rparr>)
         else (r3, e3, b3, h3))
      else (0, e, b, h))"
    unfolding truncateNow_def Let_def n_def [symmetric]
    by (simp only: s1 s2 s3 prod.case)
  from eq assms a3 show "Handle_attrs h' = Handle_attrs h"
    by (auto split: if_splits)
  from eq assms a3 show "i_size (h_inode h') = (if r = 0 then len else i_size (h_inode h))"
    by (auto split: if_splits)
qed

section \<open>Handle: link, read, write\<close>

text \<open>\<open>Handle::link\<close>; \<open>now\<close> is the value of \<open>Time::now()\<close>, and
  \<open>std::numeric_limits<uint64_t>::max()\<close> is the word \<open>- 1\<close>.\<close>

definition Handle_link ::
  "EmergencyType \<Rightarrow> Base \<Rightarrow> Handle \<Rightarrow> Time \<Rightarrow> int \<times> EmergencyType \<times> Base \<times> Handle" where
  "Handle_link e b h now =
     (let r0 = (if Inode_type (h_inode h) \<noteq> TypeREG then - EINVAL else 0);
          r1 = (if nlink (h_inode h) = - 1 then - EMLINK else r0)
      in if r1 = 0 then
           (let oldCtime = ctime (h_inode h);
                h1 = h\<lparr>h_inode := (h_inode h)\<lparr>nlink := nlink (h_inode h) + 1, ctime := now\<rparr>\<rparr>
            in case Base_inodeWrite e b (h_inodeIndex h1) (h_inode h1) of (r, e', b') \<Rightarrow>
                 if r < 0 then
                   (r, e', b',
                    h1\<lparr>h_inode := (h_inode h1)\<lparr>nlink := nlink (h_inode h1) - 1, ctime := oldCtime\<rparr>\<rparr>)
                 else (r, e', b', h1))
         else (r1, e, b, h))"

text \<open>\<open>memcpy(dst + off, src, len)\<close> on byte lists.\<close>

definition memcpy_at :: "8 word list \<Rightarrow> nat \<Rightarrow> 8 word list \<Rightarrow> nat \<Rightarrow> 8 word list" where
  "memcpy_at dst off src len = take off dst @ take len src @ drop (off + len) dst"

lemma block_len_pos:
  fixes count offset :: "64 word"
  assumes "count > 0"
  shows "min count (4096 - offset mod 4096) \<noteq> 0"
    and "min count (4096 - offset mod 4096) \<le> count"
    and "min count (4096 - offset mod 4096) \<le> 4096"
proof -
  have "offset mod 4096 < 4096" by (simp add: word_mod_less_divisor)
  then have "4096 - offset mod 4096 \<noteq> 0" "4096 - offset mod 4096 \<le> 4096" by unat_arith+
  with assms show "min count (4096 - offset mod 4096) \<noteq> 0"
    and "min count (4096 - offset mod 4096) \<le> 4096"
    by (auto simp: min_def)
  show "min count (4096 - offset mod 4096) \<le> count" by simp
qed

lemma block_len_dec:
  fixes count offset :: "64 word"
  assumes "count > 0"
  shows "unat (count - min count (4096 - offset mod 4096)) < unat count"
  using block_len_pos(1,2) [OF assms, of offset] by unat_arith

text \<open>
  The loop of \<open>Handle::read\<close>. \<open>block\<close> is the local buffer, \<open>buf\<close> the bytes copied
  out so far.
  \<^verbatim>\<open>
  while (count > 0) {
      uint64_t blockSlot = offset / sizeof(block);
      uint64_t blockIndex;
      r = getSlot(blockSlot, &blockIndex);
      if (r < 0) break;
      if (blockIndex == InvalidIndex) block.initializeData();
      else r = _base->blockRead(blockIndex, &block);
      if (r < 0) break;
      size_t blockOffset = offset % sizeof(block);
      size_t len = std::min(count, sizeof(block) - blockOffset);
      memcpy(buf, block.data + blockOffset, len);
      offset += len;  buf += len;  count -= len;
  }\<close>
\<close>

function read_blocks ::
  "int \<Rightarrow> EmergencyType \<Rightarrow> Base \<Rightarrow> Handle \<Rightarrow> 64 word \<Rightarrow> 64 word \<Rightarrow> Block \<Rightarrow> 8 word list
     \<Rightarrow> int \<times> EmergencyType \<times> Handle \<times> 8 word list" where
  "read_blocks r e b h offset count block buf =
     (if count > 0 then
        (case getSlot e b h (offset div 4096) 0 of (r1, e1, h1, blockIndex) \<Rightarrow>
           if r1 < 0 then (r1, e1, h1, buf)
           else
             (case (if blockIndex = InvalidIndex then (r1, e1, initializeData)
                    else Base_blockRead e1 b blockIndex block)
              of (r2, e2, block2) \<Rightarrow>
                if r2 < 0 then (r2, e2, h1, buf)
                else
                  (let blockOffset = offset mod 4096;
                       len = min count (4096 - blockOffset)
                   in read_blocks r2 e2 b h1 (offset + len) (count - len) block2
                        (buf @ take (unat len) (drop (unat blockOffset) block2)))))
      else (r, e, h, buf))"
  by pat_completeness auto
termination
  by (relation "measure (\<lambda>(r, e, b, h, offset, count, block, buf). unat count)")
    (simp_all add: block_len_dec)

declare read_blocks.simps [simp del]

text \<open>\<open>Handle::read\<close>. It returns the \<open>int\<close> result, the handle and the bytes read;
  \<open>int ret = count\<close> keeps the low 32 bits of \<open>count\<close>.\<close>

definition Handle_read ::
  "EmergencyType \<Rightarrow> Base \<Rightarrow> Handle \<Rightarrow> 64 word \<Rightarrow> 64 word
     \<Rightarrow> int \<times> EmergencyType \<times> Handle \<times> 8 word list" where
  "Handle_read e b h offset count =
     (let count1 = (if offset \<ge> i_size (h_inode h) then 0
                    else if offset + count > i_size (h_inode h) then i_size (h_inode h) - offset
                    else count);
          ret = sint (ucast count1 :: 32 word)
      in case read_blocks 0 e b h offset count1 initializeData [] of (r, e', h', buf) \<Rightarrow>
           (if r < 0 then r else ret, e', h', buf))"

text \<open>
  \<open>Handle::write\<close>, the two ways a block is stored. A slot without a block gets a new
  one:
  \<^verbatim>\<open>
  if (!(blockOffset == 0 && len == sizeof(block))) block.initializeData();
  memcpy(block.data + blockOffset, buf, len);
  r = _base->blockAdd(&blockIndex, &block);
  if (r == 0) {
      if (blockSlot == slotCount()) r = insertSlot(blockSlot, blockIndex);
      else r = setSlot(blockSlot, blockIndex);
  }\<close>
\<close>

definition write_new_block ::
  "EmergencyType \<Rightarrow> Base \<Rightarrow> Handle \<Rightarrow> 64 word \<Rightarrow> 64 word \<Rightarrow> 64 word \<Rightarrow> 64 word \<Rightarrow> 8 word list
     \<Rightarrow> Block \<Rightarrow> int \<times> EmergencyType \<times> Base \<times> Handle \<times> Block" where
  "write_new_block e b h blockIndex blockSlot blockOffset len buf block =
     (let block1 = (if \<not> (blockOffset = 0 \<and> len = 4096) then initializeData else block);
          block2 = memcpy_at block1 (unat blockOffset) buf (unat len)
      in case Base_blockAdd e b blockIndex block2 of (r, e1, b1, blockIndex1) \<Rightarrow>
           if r = 0 then
             (case (if blockSlot = h_slotCount h then insertSlot e1 b1 h blockSlot blockIndex1
                    else setSlot e1 b1 h blockSlot blockIndex1)
              of (r2, e2, b2, h2) \<Rightarrow> (r2, e2, b2, h2, block2))
           else (r, e1, b1, h, block2))"

text \<open>
  A slot with a block has it rewritten, after reading it when the write is partial:
  \<^verbatim>\<open>
  if (!(blockOffset == 0 && len == sizeof(block))) {
      r = _base->blockRead(blockIndex, &block);
      if (r < 0) break;
  }
  memcpy(block.data + blockOffset, buf, len);
  r = _base->blockWrite(blockIndex, &block);\<close>
\<close>

definition write_existing_block ::
  "int \<Rightarrow> EmergencyType \<Rightarrow> Base \<Rightarrow> Handle \<Rightarrow> 64 word \<Rightarrow> 64 word \<Rightarrow> 64 word \<Rightarrow> 8 word list
     \<Rightarrow> Block \<Rightarrow> int \<times> EmergencyType \<times> Base \<times> Handle \<times> Block" where
  "write_existing_block r e b h blockIndex blockOffset len buf block =
     (case (if \<not> (blockOffset = 0 \<and> len = 4096) then Base_blockRead e b blockIndex block
            else (r, e, block))
      of (r1, e1, block1) \<Rightarrow>
        if r1 < 0 then (r1, e1, b, h, block1)
        else
          (let block2 = memcpy_at block1 (unat blockOffset) buf (unat len)
           in case Base_blockWrite e1 b blockIndex block2 of (r2, e2, b2) \<Rightarrow>
                (r2, e2, b2, h, block2)))"

text \<open>
  The loop of \<open>Handle::write\<close>; \<open>buf\<close> is what is left of the caller's bytes.
  \<^verbatim>\<open>
  while (r == 0 && count > 0) {
      uint64_t blockIndex = InvalidIndex;
      uint64_t blockSlot = offset / sizeof(block);
      size_t blockOffset = offset % sizeof(block);
      size_t len = std::min(count, sizeof(block) - blockOffset);
      if (blockSlot >= maxSlotCount) { r = -ENOSPC; break; }
      if (blockSlot > slotCount()) { emergency(EmergencyBug); r = -ENOTRECOVERABLE; break; }
      if (blockSlot < slotCount()) { r = getSlot(blockSlot, &blockIndex); if (r < 0) break; }
      if (blockIndex == InvalidIndex) { (a new block) } else { (an existing block) }
      if (r < 0) break;
      if (offset + len > _inode.size) _inode.size = offset + len;
      offset += len;  buf += len;  count -= len;
  }\<close>
\<close>

function write_blocks ::
  "int \<Rightarrow> EmergencyType \<Rightarrow> Base \<Rightarrow> Handle \<Rightarrow> 64 word \<Rightarrow> 8 word list \<Rightarrow> 64 word \<Rightarrow> Block
     \<Rightarrow> int \<times> EmergencyType \<times> Base \<times> Handle" where
  "write_blocks r e b h offset buf count block =
     (if r = 0 \<and> count > 0 then
        (let blockSlot = offset div 4096;
             blockOffset = offset mod 4096;
             len = min count (4096 - blockOffset)
         in if blockSlot \<ge> maxSlotCount then (- ENOSPC, e, b, h)
            else if blockSlot > h_slotCount h then
              (- ENOTRECOVERABLE, emergency EmergencyBug e, b, h)
            else
              (case (if blockSlot < h_slotCount h then getSlot e b h blockSlot InvalidIndex
                     else (r, e, h, InvalidIndex))
               of (r1, e1, h1, blockIndex) \<Rightarrow>
                 if r1 < 0 then (r1, e1, b, h1)
                 else
                   (case (if blockIndex = InvalidIndex then
                            write_new_block e1 b h1 blockIndex blockSlot blockOffset len buf block
                          else write_existing_block r1 e1 b h1 blockIndex blockOffset len buf block)
                    of (r2, e2, b2, h2, block2) \<Rightarrow>
                      if r2 < 0 then (r2, e2, b2, h2)
                      else
                        (let h3 = (if offset + len > i_size (h_inode h2)
                                   then h2\<lparr>h_inode := (h_inode h2)\<lparr>i_size := offset + len\<rparr>\<rparr>
                                   else h2)
                         in write_blocks r2 e2 b2 h3 (offset + len) (drop (unat len) buf)
                              (count - len) block2))))
      else (r, e, b, h))"
  by pat_completeness auto
termination
  by (relation "measure (\<lambda>(r, e, b, h, offset, buf, count, block). unat count)")
    (simp_all add: block_len_dec)

declare write_blocks.simps [simp del]

text \<open>
  \<open>Handle::write\<close> up to the end of its loop: the offset it writes at, and the result
  \<open>r\<close> and the state when the loop is left.
  \<^verbatim>\<open>
  if (_append) offset = _inode.size;
  if (offset > _inode.size) r = truncateNow(offset);\<close>
\<close>

definition write_offset :: "Handle \<Rightarrow> 64 word \<Rightarrow> 64 word" where
  "write_offset h offset = (if h_append h then i_size (h_inode h) else offset)"

definition Handle_write_loop ::
  "EmergencyType \<Rightarrow> Base \<Rightarrow> Handle \<Rightarrow> 64 word \<Rightarrow> 8 word list \<Rightarrow> 64 word
     \<Rightarrow> int \<times> EmergencyType \<times> Base \<times> Handle" where
  "Handle_write_loop e b h offset buf count =
     (let offset1 = write_offset h offset
      in case (if offset1 > i_size (h_inode h) then truncateNow e b h offset1 else (0, e, b, h))
         of (r, e1, b1, h1) \<Rightarrow>
           write_blocks r e1 b1 h1 offset1 buf count initializeData)"

text \<open>
  \<open>Handle::write\<close>. After the loop the inode is stored when it differs from its value
  at entry, and the result of that call replaces \<open>r\<close>:
  \<^verbatim>\<open>
  if (memcmp(&_inode, &origInode, sizeof(Inode)) != 0) {
      r = _base->inodeWrite(_inodeIndex, &_inode);
  }
  return (r < 0 ? r : ret);\<close>
  \<open>int ret = count\<close> keeps the low 32 bits of \<open>count\<close>.
\<close>

definition Handle_write ::
  "EmergencyType \<Rightarrow> Base \<Rightarrow> Handle \<Rightarrow> 64 word \<Rightarrow> 8 word list \<Rightarrow> 64 word
     \<Rightarrow> int \<times> EmergencyType \<times> Base \<times> Handle" where
  "Handle_write e b h offset buf count =
     (let origInode = h_inode h;
          ret = sint (ucast count :: 32 word)
      in case Handle_write_loop e b h offset buf count of (r, e1, b1, h1) \<Rightarrow>
         case (if h_inode h1 \<noteq> origInode then Base_inodeWrite e1 b1 (h_inodeIndex h1) (h_inode h1)
               else (r, e1, b1))
         of (r2, e2, b2) \<Rightarrow> (if r2 < 0 then r2 else ret, e2, b2, h1))"

section \<open>Map::sync on a bitmap whose only chunk is empty\<close>

text \<open>A fresh memory container and the bitmap that \<open>Map::initialize\<close> builds on it.\<close>

definition emptyMapStorage :: "64 word Storage" where
  "emptyMapStorage =
     \<lparr>chunkSize = 1, storage = [], blank = 0, fatalError = False, growthsLeft = 8\<rparr>"

definition freshMap :: Map where
  "freshMap = snd (Map_initialize (Map_new emptyMapStorage))"

lemma freshMap_eq:
  "freshMap =
     \<lparr>map_storage = \<lparr>chunkSize = 8, storage = [0], blank = 0, fatalError = False, growthsLeft = 7\<rparr>,
      bitChunksInStorage = 1, currentBitChunk = 0, currentBitChunkIndex = 0,
      currentBitChunkModified = False, firstZeroCandidate = 0\<rparr>"
  by (simp add: freshMap_def Map_initialize_def Map_new_def emptyMapStorage_def
      Storage_size_def Storage_setSize_def resize_def Let_def)

text \<open>
  C6. After \<open>Map::initialize\<close> on an empty container the bitmap has a single chunk, all
  zero, resident and last in storage. \<open>Map::sync\<close> succeeds on it and leaves the backing
  Storage with no chunk at all (and \<open>_bitChunksInStorage = 0\<close>), where its own comment
  promises to leave at least one chunk.
\<close>

theorem Map_sync_single_empty_chunk:
  "Map_sync EmergencyNone freshMap =
     (0, EmergencyNone,
      freshMap\<lparr>bitChunksInStorage := 0,
               map_storage := (map_storage freshMap)\<lparr>storage := []\<rparr>\<rparr>)
   \<and> length (storage (map_storage freshMap)) = 1
   \<and> length (storage (map_storage (snd (snd (Map_sync EmergencyNone freshMap))))) = 0"
  by (simp add: freshMap_eq Map_sync_def sync_scan.simps Storage_setSize_def resize_def Let_def)

section \<open>A small filesystem in memory\<close>

text \<open>
  The states the closed theorems below are evaluated on. \<open>StorageMemory_new\<close> is a
  fresh \<open>StorageMemory\<close> (the constructor of \<open>Storage\<close> sets the chunk size to 1).
  \<open>exBase\<close> is a filesystem without byte ceiling whose inode space holds the root
  directory (inode 0) and one regular file (inode 1) and whose dirent and block spaces
  are still empty, as \<open>Map::initialize\<close> and \<open>ChunkManager::initialize\<close> leave them.
  The chunk sizes of inodes and dirents depend on headers that are not among the
  sources; 120 and 264 stand for them.
\<close>

definition StorageMemory_new :: "'a \<Rightarrow> nat \<Rightarrow> 'a Storage" where
  "StorageMemory_new z g =
     \<lparr>chunkSize = 1, storage = [], blank = z, fatalError = False, growthsLeft = g\<rparr>"

definition exRootInode :: Inode where
  "exRootInode =
     \<lparr>atime = \<lparr>seconds = 1000, nanoseconds = 0\<rparr>, ctime = \<lparr>seconds = 1000, nanoseconds = 0\<rparr>,
      mtime = \<lparr>seconds = 1000, nanoseconds = 0\<rparr>, uid = 0, gid = 0, typeAndMode = 0x41C0,
      nlink = 2, rdev = 0, i_size = 0,
      slotTrees = [InvalidIndex, InvalidIndex, InvalidIndex, InvalidIndex, InvalidIndex],
      xattrIndex = InvalidIndex\<rparr>"

text \<open>An empty regular file with mode 04755 (set-user-ID); its last access is older
  than its last modification.\<close>

definition exFileInode :: Inode where
  "exFileInode =
     \<lparr>atime = \<lparr>seconds = 1000, nanoseconds = 0\<rparr>, ctime = \<lparr>seconds = 2000, nanoseconds = 0\<rparr>,
      mtime = \<lparr>seconds = 2000, nanoseconds = 0\<rparr>, uid = 0, gid = 0, typeAndMode = 0x89ED,
      nlink = 1, rdev = 0, i_size = 0,
      slotTrees = [InvalidIndex, InvalidIndex, InvalidIndex, InvalidIndex, InvalidIndex],
      xattrIndex = InvalidIndex\<rparr>"

definition exEmptyMap :: Map where
  "exEmptyMap =
     \<lparr>map_storage = \<lparr>chunkSize = 8, storage = [0], blank = 0, fatalError = False, growthsLeft = 7\<rparr>,
      bitChunksInStorage = 1, currentBitChunk = 0, currentBitChunkIndex = 0,
      currentBitChunkModified = False, firstZeroCandidate = 0\<rparr>"

definition exBase :: Base where
  "exBase =
     \<lparr>maxSize = 0,
      inodeMgr =
        \<lparr>cm_map =
           \<lparr>map_storage = \<lparr>chunkSize = 8, storage = [0], blank = 0, fatalError = False,
                            growthsLeft = 7\<rparr>,
            bitChunksInStorage = 1, currentBitChunk = 3, currentBitChunkIndex = 0,
            currentBitChunkModified = True, firstZeroCandidate = 2\<rparr>,
         chunks = \<lparr>chunkSize = 120, storage = [exRootInode, exFileInode], blank = Inode_zero,
                   fatalError = False, growthsLeft = 6\<rparr>,
         punchHolesForEmptyChunks = False, chunksInStorage = 2\<rparr>,
      direntMgr =
        \<lparr>cm_map = exEmptyMap,
         chunks = (StorageMemory_new \<lparr>name = [], d_inodeIndex = 0\<rparr> 8)\<lparr>chunkSize := 264\<rparr>,
         punchHolesForEmptyChunks = False, chunksInStorage = 0\<rparr>,
      blockMgr =
        \<lparr>cm_map = exEmptyMap,
         chunks = (StorageMemory_new (replicate 4096 0) 8)\<lparr>chunkSize := 4096\<rparr>,
         punchHolesForEmptyChunks = False, chunksInStorage = 0\<rparr>\<rparr>"

text \<open>The handle of the regular file.\<close>

definition exFileHandle :: Handle where
  "exFileHandle = Handle_new 1 exFileInode"

section \<open>Handle::link on an inode that is not a regular file\<close>

text \<open>
  C10 as stated fails: \<open>Handle::link\<close> tests the type first and the link count second,
  and the second test overwrites the result of the first. For the directory below, whose
  link count is the largest 64-bit value, it returns \<open>-EMLINK\<close>, not \<open>-EINVAL\<close>.
\<close>

definition exFullDirInode :: Inode where
  "exFullDirInode = exRootInode\<lparr>nlink := - 1\<rparr>"

theorem Handle_link_full_directory_counterexample:
  "Inode_type exFullDirInode = TypeDIR \<and> TypeDIR \<noteq> TypeREG
   \<and> Handle_link EmergencyNone exBase (Handle_new 0 exFullDirInode) \<lparr>seconds = 3000, nanoseconds = 0\<rparr>
       = (- EMLINK, EmergencyNone, exBase, Handle_new 0 exFullDirInode)
   \<and> - EMLINK \<noteq> - EINVAL"
  by (simp add: Handle_link_def Handle_new_def exFullDirInode_def exRootInode_def Inode_type_def
      TypeMask_def TypeDIR_def TypeREG_def errno_defs Let_def)

text \<open>
  C10, amended. For an inode that is not a regular file, \<open>Handle::link\<close> returns
  \<open>-EINVAL\<close>, or \<open>-EMLINK\<close> when the link count is already the largest 64-bit value;
  in both cases nothing is stored and the handle, with its inode, link count and
  ctime, is unchanged, and so are the filesystem and the emergency latch.
\<close>

theorem Handle_link_not_regular:
  assumes "Inode_type (h_inode h) \<noteq> TypeREG"
  shows "Handle_link e b h now =
           (if nlink (h_inode h) = - 1 then - EMLINK else - EINVAL, e, b, h)"
  using assms by (simp add: Handle_link_def Let_def errno_defs)

theorem Handle_link_not_regular_witness:
  "Inode_type exRootInode \<noteq> TypeREG
   \<and> Handle_link EmergencyNone exBase (Handle_new 0 exRootInode) \<lparr>seconds = 3000, nanoseconds = 0\<rparr>
       = (- EINVAL, EmergencyNone, exBase, Handle_new 0 exRootInode)"
proof -
  have t: "Inode_type (h_inode (Handle_new 0 exRootInode)) \<noteq> TypeREG"
    by (simp add: Handle_new_def exRootInode_def Inode_type_def TypeMask_def TypeREG_def)
  have n: "nlink (h_inode (Handle_new 0 exRootInode)) \<noteq> - 1"
    by (simp add: Handle_new_def exRootInode_def)
  from Handle_link_not_regular [OF t, of EmergencyNone exBase "\<lparr>seconds = 3000, nanoseconds = 0\<rparr>"] t n
  show ?thesis by (simp add: Handle_new_def)
qed

section \<open>Base::checkWriteAction\<close>

text \<open>
  C7 as stated fails at \<open>additionalBytes = 0\<close>: the source tests \<open>additionalBytes > 0\<close>
  before it looks at the ceiling, so a caller that adds nothing (\<open>entityRemove\<close>) is
  never refused for lack of space. Below the ceiling is one byte and the containers
  already hold more, yet the result is 0.
\<close>

theorem checkWriteAction_zero_counterexample:
  "maxSize (exBase\<lparr>maxSize := 1\<rparr>) > 0
   \<and> Base_storageSizeInBytes (exBase\<lparr>maxSize := 1\<rparr>) + 0 + 4 * 4096 > maxSize (exBase\<lparr>maxSize := 1\<rparr>)
   \<and> Base_checkWriteAction EmergencyNone (exBase\<lparr>maxSize := 1\<rparr>) 0 = 0
   \<and> (0::int) \<noteq> - ENOSPC"
  by (simp add: Base_checkWriteAction_def Base_storageSizeInBytes_def
      ChunkManager_storageSizeInBytes_def Map_storageSizeInBytes_def exBase_def exEmptyMap_def
      StorageMemory_new_def errno_defs)

text \<open>
  C7, amended. \<open>Base::checkWriteAction(additionalBytes)\<close> returns \<open>-EROFS\<close> exactly when
  the emergency latch is set; otherwise it returns \<open>-ENOSPC\<close> exactly when
  \<open>maxSize > 0\<close>, \<open>additionalBytes > 0\<close> and
  \<open>storageSizeInBytes() + additionalBytes + 4 * sizeof(Block) > maxSize\<close> (sums of
  \<open>uint64_t\<close>), and 0 in every other case.
\<close>

theorem checkWriteAction_result:
  "(Base_checkWriteAction e b a = - EROFS \<longleftrightarrow> e \<noteq> EmergencyNone)
   \<and> (e = EmergencyNone \<longrightarrow>
        (Base_checkWriteAction e b a = - ENOSPC
           \<longleftrightarrow> maxSize b > 0 \<and> a > 0 \<and> Base_storageSizeInBytes b + (a + 4 * 4096) > maxSize b))
   \<and> (Base_checkWriteAction e b a \<noteq> - EROFS \<and> Base_checkWriteAction e b a \<noteq> - ENOSPC
        \<longrightarrow> Base_checkWriteAction e b a = 0)"
  by (auto simp: Base_checkWriteAction_def Let_def errno_defs)

theorem checkWriteAction_result_witness:
  "Base_checkWriteAction EmergencyNone (exBase\<lparr>maxSize := 1\<rparr>) 4096 = - ENOSPC
   \<and> Base_checkWriteAction EmergencyBug exBase 4096 = - EROFS
   \<and> Base_checkWriteAction EmergencyNone exBase 4096 = 0"
proof -
  have s: "Base_storageSizeInBytes (exBase\<lparr>maxSize := 1\<rparr>) + (4096 + 4 * 4096) > maxSize (exBase\<lparr>maxSize := 1\<rparr>)"
    by (simp add: Base_storageSizeInBytes_def
      ChunkManager_storageSizeInBytes_def Map_storageSizeInBytes_def exBase_def exEmptyMap_def
      StorageMemory_new_def)
  have m: "maxSize exBase = 0" by (simp add: exBase_def)
  from checkWriteAction_result [of EmergencyNone "exBase\<lparr>maxSize := 1\<rparr>" 4096]
    checkWriteAction_result [of EmergencyBug exBase 4096]
    checkWriteAction_result [of EmergencyNone exBase 4096] s m
  show ?thesis by (auto simp: errno_defs)
qed

section \<open>Handle::read and the access time\<close>

lemma read_blocks_inode:
  "read_blocks r e b h offset count block buf = (r', e', h', buf')
     \<Longrightarrow> Handle_core h' = Handle_core h \<and> h_inode h' = h_inode h"
proof (induction r e b h offset count block buf rule: read_blocks.induct)
  case (1 r e b h offset count block buf)
  show ?case
  proof (cases "count > 0")
    case False
    with "1.prems" show ?thesis by (simp add: read_blocks.simps [of r e b h offset count])
  next
    case True
    obtain r1 e1 h1 blockIndex where g: "getSlot e b h (offset div 4096) 0 = (r1, e1, h1, blockIndex)"
      by (metis prod_cases4)
    note c1 = getSlot_core [OF g]
    obtain r2 e2 block2 where rd:
      "(if blockIndex = InvalidIndex then (r1, e1, initializeData)
        else Base_blockRead e1 b blockIndex block) = (r2, e2, block2)"
      by (metis prod_cases3)
    show ?thesis
    proof (cases "r1 < 0 \<or> r2 < 0")
      case True
      with \<open>count > 0\<close> "1.prems" g rd c1 show ?thesis
        by (auto simp: read_blocks.simps [of r e b h offset count] split: if_splits)
    next
      case False
      define len where "len = min count (4096 - offset mod 4096)"
      from False \<open>count > 0\<close> "1.prems" g rd
      have "read_blocks r2 e2 b h1 (offset + len) (count - len) block2
              (buf @ take (unat len) (drop (unat (offset mod 4096)) block2)) = (r', e', h', buf')"
        by (simp add: read_blocks.simps [of r e b h offset count] Let_def len_def)
      from "1.IH" [OF \<open>count > 0\<close> g [symmetric] refl refl _ rd [symmetric] refl _ refl
          len_def this] False c1
      show ?thesis by simp
    qed
  qed
qed

text \<open>A sparse regular file of five bytes: its only slot holds no block. Its last
  access (second 1000) is older than its last modification (second 2000).\<close>

definition exSparseInode :: Inode where
  "exSparseInode = exFileInode\<lparr>i_size := 5\<rparr>"

text \<open>
  C8 as stated fails: \<open>Handle::read\<close> never calls \<open>updateATime\<close> (the callers of
  \<open>updateATime\<close> are \<open>readlink\<close>, \<open>openDir\<close> and \<open>open\<close>). The read below returns its
  five bytes, the access time is older than the modification time, and the handle,
  access time included, is what it was.
\<close>

theorem Handle_read_stale_atime_counterexample:
  "isOlderThan (atime exSparseInode) (mtime exSparseInode)
   \<and> Handle_read EmergencyNone exBase (Handle_new 1 exSparseInode) 0 5
       = (5, EmergencyNone, Handle_new 1 exSparseInode, replicate 5 0)"
  by (simp add: Handle_read_def read_blocks.simps getSlot_def slotToTreeIndices_def
      Handle_new_def Inode_slotCount_def Inode_type_def TypeMask_def TypeREG_def
      exSparseInode_def exFileInode_def isOlderThan_def initializeData_def Block_size_def
      Let_def)

text \<open>
  C8, amended. \<open>Handle::read\<close> leaves the inode of the handle as it was, whatever it
  returns: it does not touch the access time, whether or not the access time is older
  than ctime, mtime or 24 hours.
\<close>

theorem Handle_read_keeps_inode:
  assumes "Handle_read e b h offset count = (ret, e', h', buf)"
  shows "h_inode h' = h_inode h \<and> atime (h_inode h') = atime (h_inode h)"
proof -
  define count1 where "count1 = (if offset \<ge> i_size (h_inode h) then 0
                    else if offset + count > i_size (h_inode h) then i_size (h_inode h) - offset
                    else count)"
  obtain r1 e1 h1 buf1 where rb: "read_blocks 0 e b h offset count1 initializeData [] = (r1, e1, h1, buf1)"
    by (metis prod_cases4)
  from assms rb have "h' = h1"
    by (simp add: Handle_read_def Let_def count1_def [symmetric])
  with read_blocks_inode [OF rb] show ?thesis by simp
qed

theorem Handle_read_keeps_inode_witness:
  "Handle_read EmergencyNone exBase (Handle_new 1 exSparseInode) 0 5
     = (5, EmergencyNone, Handle_new 1 exSparseInode, replicate 5 0)
   \<and> atime (h_inode (Handle_new 1 exSparseInode)) = atime exSparseInode"
proof -
  have r: "Handle_read EmergencyNone exBase (Handle_new 1 exSparseInode) 0 5
       = (5, EmergencyNone, Handle_new 1 exSparseInode, replicate 5 0)"
    by (simp add: Handle_read_def read_blocks.simps getSlot_def slotToTreeIndices_def
      Handle_new_def Inode_slotCount_def Inode_type_def TypeMask_def TypeREG_def
      exSparseInode_def exFileInode_def initializeData_def Block_size_def Let_def)
  from Handle_read_keeps_inode [OF r] r show ?thesis by (simp add: Handle_new_def)
qed

section \<open>Handle::write\<close>

lemma Handle_attrs_fields:
  assumes "Handle_attrs h' = Handle_attrs h"
  shows "atime (h_inode h') = atime (h_inode h)" "mtime (h_inode h') = mtime (h_inode h)"
    "ctime (h_inode h') = ctime (h_inode h)" "typeAndMode (h_inode h') = typeAndMode (h_inode h)"
    "nlink (h_inode h') = nlink (h_inode h)" "h_inodeIndex h' = h_inodeIndex h"
    "h_append h' = h_append h"
proof -
  have "h_inode (Handle_attrs h') = h_inode (Handle_attrs h)"
    "h_inodeIndex (Handle_attrs h') = h_inodeIndex (Handle_attrs h)"
    "h_append (Handle_attrs h') = h_append (Handle_attrs h)"
    using assms by simp_all
  then have i: "(h_inode h')\<lparr>slotTrees := [], i_size := 0\<rparr> = (h_inode h)\<lparr>slotTrees := [], i_size := 0\<rparr>"
    and "h_inodeIndex h' = h_inodeIndex h" "h_append h' = h_append h"
    by (simp_all add: Handle_attrs_def)
  then show "h_inodeIndex h' = h_inodeIndex h" "h_append h' = h_append h" by simp_all
  from i have "atime ((h_inode h')\<lparr>slotTrees := [], i_size := 0\<rparr>) = atime ((h_inode h)\<lparr>slotTrees := [], i_size := 0\<rparr>)"
    "mtime ((h_inode h')\<lparr>slotTrees := [], i_size := 0\<rparr>) = mtime ((h_inode h)\<lparr>slotTrees := [], i_size := 0\<rparr>)"
    "ctime ((h_inode h')\<lparr>slotTrees := [], i_size := 0\<rparr>) = ctime ((h_inode h)\<lparr>slotTrees := [], i_size := 0\<rparr>)"
    "typeAndMode ((h_inode h')\<lparr>slotTrees := [], i_size := 0\<rparr>) = typeAndMode ((h_inode h)\<lparr>slotTrees := [], i_size := 0\<rparr>)"
    "nlink ((h_inode h')\<lparr>slotTrees := [], i_size := 0\<rparr>) = nlink ((h_inode h)\<lparr>slotTrees := [], i_size := 0\<rparr>)"
    by simp_all
  then show "atime (h_inode h') = atime (h_inode h)" "mtime (h_inode h') = mtime (h_inode h)"
    "ctime (h_inode h') = ctime (h_inode h)" "typeAndMode (h_inode h') = typeAndMode (h_inode h)"
    "nlink (h_inode h') = nlink (h_inode h)"
    by simp_all
qed

lemma write_new_block_attrs:
  assumes "write_new_block e b h blockIndex blockSlot blockOffset len buf block = (r, e', b', h', block')"
  shows "Handle_attrs h' = Handle_attrs h \<and> i_size (h_inode h') = i_size (h_inode h)"
proof -
  define block2 where "block2 = memcpy_at (if \<not> (blockOffset = 0 \<and> len = 4096) then initializeData else block)
      (unat blockOffset) buf (unat len)"
  obtain r1 e1 b1 blockIndex1 where a: "Base_blockAdd e b blockIndex block2 = (r1, e1, b1, blockIndex1)"
    by (metis prod_cases4)
  show ?thesis
  proof (cases "r1 = 0")
    case False
    from assms have "h' = h"
      unfolding write_new_block_def Let_def block2_def [symmetric] a using False by simp
    then show ?thesis by simp
  next
    case True
    obtain r2 e2 b2 h2 where s:
      "(if blockSlot = h_slotCount h then insertSlot e1 b1 h blockSlot blockIndex1
        else setSlot e1 b1 h blockSlot blockIndex1) = (r2, e2, b2, h2)"
      by (metis prod_cases4)
    have "Handle_attrs h2 = Handle_attrs h \<and> i_size (h_inode h2) = i_size (h_inode h)"
      using s
      by (auto split: if_splits dest: insertSlot_attrs dest!: setSlot_core
          dest: Handle_core_attrs Handle_core_size)
    moreover from assms have "h' = h2"
      unfolding write_new_block_def Let_def block2_def [symmetric] a using True s by simp
    ultimately show ?thesis by simp
  qed
qed

lemma write_existing_block_handle:
  "write_existing_block r e b h blockIndex blockOffset len buf block = (r', e', b', h', block')
     \<Longrightarrow> h' = h"
  by (auto simp: write_existing_block_def Let_def split: if_splits prod.splits)

text \<open>One round of the loop of \<open>Handle::write\<close>, for the proofs: the state after the
  block has been stored, before the size is adjusted.\<close>

lemma write_blocks_unfold:
  assumes "count > 0"
    and "\<not> offset div 4096 \<ge> maxSlotCount" "\<not> offset div 4096 > h_slotCount h"
    and "(if offset div 4096 < h_slotCount h then getSlot e b h (offset div 4096) InvalidIndex
          else (0, e, h, InvalidIndex)) = (r1, e1, h1, blockIndex)"
    and "(if blockIndex = InvalidIndex then
            write_new_block e1 b h1 blockIndex (offset div 4096) (offset mod 4096)
              (min count (4096 - offset mod 4096)) buf block
          else write_existing_block r1 e1 b h1 blockIndex (offset mod 4096)
              (min count (4096 - offset mod 4096)) buf block) = (r2, e2, b2, h2, block2)"
  shows "write_blocks 0 e b h offset buf count block =
     (if r1 < 0 then (r1, e1, b, h1)
      else if r2 < 0 then (r2, e2, b2, h2)
      else write_blocks r2 e2 b2
             (if offset + min count (4096 - offset mod 4096) > i_size (h_inode h2)
              then h2\<lparr>h_inode := (h_inode h2)\<lparr>i_size := offset + min count (4096 - offset mod 4096)\<rparr>\<rparr>
              else h2)
             (offset + min count (4096 - offset mod 4096))
             (drop (unat (min count (4096 - offset mod 4096))) buf)
             (count - min count (4096 - offset mod 4096)) block2)"
  apply (subst write_blocks.simps)
  using assms(1-3) apply (simp only: Let_def if_True if_False simp_thms assms(4))
  apply (simp only: prod.case assms(5) Let_def)
  done

lemma write_blocks_attrs:
  "write_blocks r e b h offset buf count block = (r', e', b', h')
     \<Longrightarrow> Handle_attrs h' = Handle_attrs h"
proof (induction r e b h offset buf count block rule: write_blocks.induct)
  case (1 r e b h offset buf count block)
  show ?case
  proof (cases "r = 0 \<and> count > 0 \<and> \<not> offset div 4096 \<ge> maxSlotCount \<and> \<not> offset div 4096 > h_slotCount h")
    case False
    with "1.prems" show ?thesis
      by (auto simp: write_blocks.simps [of r e b h offset buf count] Let_def split: if_splits)
  next
    case True
    define len where "len = min count (4096 - offset mod 4096)"
    from True have r0: "r = 0" by simp
    obtain r1 e1 h1 blockIndex where g:
      "(if offset div 4096 < h_slotCount h then getSlot e b h (offset div 4096) InvalidIndex
        else (0, e, h, InvalidIndex)) = (r1, e1, h1, blockIndex)"
      by (metis prod_cases4)
    have c1: "Handle_attrs h1 = Handle_attrs h"
      using g by (auto split: if_splits dest!: getSlot_core dest: Handle_core_attrs)
    obtain r2 e2 b2 h2 block2 where w:
      "(if blockIndex = InvalidIndex then
            write_new_block e1 b h1 blockIndex (offset div 4096) (offset mod 4096) len buf block
          else write_existing_block r1 e1 b h1 blockIndex (offset mod 4096) len buf block)
        = (r2, e2, b2, h2, block2)"
      by (metis prod_cases5)
    have c2: "Handle_attrs h2 = Handle_attrs h"
      using w c1 by (auto split: if_splits dest: write_new_block_attrs write_existing_block_handle)
    define h3 where "h3 = (if offset + len > i_size (h_inode h2)
              then h2\<lparr>h_inode := (h_inode h2)\<lparr>i_size := offset + len\<rparr>\<rparr> else h2)"
    have c3: "Handle_attrs h3 = Handle_attrs h" using c2 by (simp add: h3_def)
    have u: "write_blocks r e b h offset buf count block =
     (if r1 < 0 then (r1, e1, b, h1)
      else if r2 < 0 then (r2, e2, b2, h2)
      else write_blocks r2 e2 b2 h3 (offset + len) (drop (unat len) buf) (count - len) block2)"
      using write_blocks_unfold [OF _ _ _ g w [unfolded len_def]] True
      by (simp add: len_def h3_def)
    show ?thesis
    proof (cases "r1 < 0 \<or> r2 < 0")
      case True
      with \<open>r = 0 \<and> _\<close> "1.prems" u c1 c2 show ?thesis by (auto split: if_splits)
    next
      case False
      with \<open>r = 0 \<and> _\<close> "1.prems" u
      have rec: "write_blocks r2 e2 b2 h3 (offset + len) (drop (unat len) buf) (count - len) block2
                   = (r', e', b', h')"
        by simp
      from True have c0: "r = 0 \<and> 0 < count" and n1: "\<not> maxSlotCount \<le> offset div 4096"
        and n2: "\<not> h_slotCount h < offset div 4096" by simp_all
      from False have nr1: "\<not> r1 < 0" and nr2: "\<not> r2 < 0" by simp_all
      have g': "(r1, e1, h1, blockIndex) =
        (if offset div 4096 < h_slotCount h then getSlot e b h (offset div 4096) InvalidIndex
         else (r, e, h, InvalidIndex))"
        using g r0 by (auto split: if_splits)
      have "Handle_attrs h' = Handle_attrs h3"
        using "1.IH" [OF c0 refl refl refl n1 n2 g' refl refl nr1
            w [unfolded len_def, symmetric] refl refl refl nr2 refl rec [unfolded len_def h3_def]]
        by (simp add: h3_def len_def)
      with c3 show ?thesis by simp
    qed
  qed
qed

lemma write_offset_bound:
  fixes offset :: "64 word"
  assumes "\<not> maxSlotCount \<le> offset div 4096"
  shows "unat offset < 68853957121 * 4096"
proof -
  have "offset div 4096 < maxSlotCount" using assms by simp
  then have "unat (offset div 4096) < unat maxSlotCount" by (simp add: word_less_nat_alt)
  moreover have "unat maxSlotCount = 68853957121" by (simp add: maxSlotCount_def N_indices_def)
  moreover have "unat (offset div 4096) = unat offset div 4096" by (simp add: unat_div)
  ultimately show ?thesis by simp
qed

lemma write_step_arith:
  fixes offset count len :: "64 word"
  assumes "unat offset < 68853957121 * 4096" "len \<le> 4096" "len \<le> count"
  shows "unat (offset + len) = unat offset + unat len"
    and "unat (offset + len) + unat (count - len) = unat offset + unat count"
proof -
  have l: "unat len \<le> 4096" using assms(2) by (simp add: word_le_nat_alt)
  have "unat offset + unat len < 2 ^ LENGTH(64)" using assms(1) l by simp
  then show a: "unat (offset + len) = unat offset + unat len" by (rule unat_add_lem [THEN iffD1])
  have "unat (count - len) = unat count - unat len" using assms(3) by (simp add: unat_sub)
  moreover have "unat len \<le> unat count" using assms(3) by (simp add: word_le_nat_alt)
  ultimately show "unat (offset + len) + unat (count - len) = unat offset + unat count"
    using a by simp
qed

lemma write_blocks_size:
  "write_blocks r e b h offset buf count block = (0, e', b', h')
     \<Longrightarrow> unat offset \<le> unat (i_size (h_inode h))
     \<Longrightarrow> unat offset + unat count \<le> unat (i_size (h_inode h'))"
proof (induction r e b h offset buf count block rule: write_blocks.induct)
  case (1 r e b h offset buf count block)
  show ?case
  proof (cases "r = 0 \<and> count > 0")
    case False
    with "1.prems"(1) have "r = 0 \<and> h' = h"
      by (simp add: write_blocks.simps [of r e b h offset buf count])
    with False have "count = 0" "h' = h" by (simp_all add: word_neq_0_conv [symmetric])
    with "1.prems"(2) show ?thesis by simp
  next
    case c0: True
    then have r0: "r = 0" and cpos: "count > 0" by simp_all
    show ?thesis
    proof (cases "\<not> offset div 4096 \<ge> maxSlotCount \<and> \<not> offset div 4096 > h_slotCount h")
      case False
      with c0 "1.prems"(1) show ?thesis
        by (auto simp: write_blocks.simps [of 0 e b h offset buf count] Let_def errno_defs
            split: if_splits)
    next
      case True
      then have n1: "\<not> maxSlotCount \<le> offset div 4096"
        and n2: "\<not> h_slotCount h < offset div 4096" by simp_all
      define len where "len = min count (4096 - offset mod 4096)"
      have len: "len \<le> 4096" "len \<le> count"
        using block_len_pos(2,3) [OF cpos, of offset] by (simp_all add: len_def)
      obtain r1 e1 h1 blockIndex where g:
        "(if offset div 4096 < h_slotCount h then getSlot e b h (offset div 4096) InvalidIndex
          else (0, e, h, InvalidIndex)) = (r1, e1, h1, blockIndex)"
        by (metis prod_cases4)
      obtain r2 e2 b2 h2 block2 where w:
        "(if blockIndex = InvalidIndex then
            write_new_block e1 b h1 blockIndex (offset div 4096) (offset mod 4096) len buf block
          else write_existing_block r1 e1 b h1 blockIndex (offset mod 4096) len buf block)
          = (r2, e2, b2, h2, block2)"
        by (metis prod_cases5)
      define h3 where "h3 = (if offset + len > i_size (h_inode h2)
              then h2\<lparr>h_inode := (h_inode h2)\<lparr>i_size := offset + len\<rparr>\<rparr> else h2)"
      have s3: "offset + len \<le> i_size (h_inode h3)" by (simp add: h3_def not_less)
      have u: "write_blocks r e b h offset buf count block =
       (if r1 < 0 then (r1, e1, b, h1)
        else if r2 < 0 then (r2, e2, b2, h2)
        else write_blocks r2 e2 b2 h3 (offset + len) (drop (unat len) buf) (count - len) block2)"
        using write_blocks_unfold [OF cpos n1 n2 g w [unfolded len_def]] r0
        by (simp add: len_def h3_def)
      have nr: "\<not> r1 < 0" "\<not> r2 < 0"
        using u "1.prems"(1) by (auto split: if_splits)
      with u "1.prems"(1)
      have rec: "write_blocks r2 e2 b2 h3 (offset + len) (drop (unat len) buf) (count - len) block2
                   = (0, e', b', h')"
        by simp
      have g': "(r1, e1, h1, blockIndex) =
        (if offset div 4096 < h_slotCount h then getSlot e b h (offset div 4096) InvalidIndex
         else (r, e, h, InvalidIndex))"
        using g r0 by (auto split: if_splits)
      have ih: "unat (offset + len) \<le> unat (i_size (h_inode h3))
          \<Longrightarrow> unat (offset + len) + unat (count - len) \<le> unat (i_size (h_inode h'))"
        unfolding h3_def len_def
        by (rule "1.IH" [OF c0 refl refl refl n1 n2 g' refl refl nr(1)
            w [unfolded len_def, symmetric] refl refl refl nr(2) refl rec [unfolded len_def h3_def]])
      have "unat (offset + len) + unat (count - len) \<le> unat (i_size (h_inode h'))"
        using ih s3 by (simp add: word_le_nat_alt)
      with write_step_arith(2) [OF write_offset_bound [OF n1] len] show ?thesis by simp
    qed
  qed
qed

lemma Handle_write_loop_attrs:
  assumes "Handle_write_loop e b h offset buf count = (r, e', b', h')"
  shows "Handle_attrs h' = Handle_attrs h"
proof -
  obtain r1 e1 b1 h1 where t:
    "(if write_offset h offset > i_size (h_inode h) then truncateNow e b h (write_offset h offset)
      else (0, e, b, h)) = (r1, e1, b1, h1)"
    by (metis prod_cases4)
  have "Handle_attrs h1 = Handle_attrs h"
    using t by (auto split: if_splits dest: truncateNow_attrs(1))
  moreover from assms t
  have "write_blocks r1 e1 b1 h1 (write_offset h offset) buf count initializeData = (r, e', b', h')"
    by (simp add: Handle_write_loop_def Let_def)
  ultimately show ?thesis using write_blocks_attrs by metis
qed

lemma Handle_write_loop_size:
  assumes "Handle_write_loop e b h offset buf count = (0, e', b', h')"
  shows "unat (write_offset h offset) + unat count \<le> unat (i_size (h_inode h'))"
proof -
  obtain r1 e1 b1 h1 where t:
    "(if write_offset h offset > i_size (h_inode h) then truncateNow e b h (write_offset h offset)
      else (0, e, b, h)) = (r1, e1, b1, h1)"
    by (metis prod_cases4)
  from assms t
  have w: "write_blocks r1 e1 b1 h1 (write_offset h offset) buf count initializeData = (0, e', b', h')"
    by (simp add: Handle_write_loop_def Let_def)
  have "r1 = 0"
  proof (rule ccontr)
    assume "r1 \<noteq> 0"
    then have "write_blocks r1 e1 b1 h1 (write_offset h offset) buf count initializeData = (r1, e1, b1, h1)"
      by (simp add: write_blocks.simps [of r1])
    with w \<open>r1 \<noteq> 0\<close> show False by simp
  qed
  have "unat (write_offset h offset) \<le> unat (i_size (h_inode h1))"
  proof (cases "write_offset h offset > i_size (h_inode h)")
    case True
    with t have "truncateNow e b h (write_offset h offset) = (r1, e1, b1, h1)" by simp
    from truncateNow_attrs(2) [OF this] \<open>r1 = 0\<close> show ?thesis by simp
  next
    case False
    with t have "h1 = h" by simp
    with False show ?thesis by (simp add: word_le_nat_alt not_less)
  qed
  with w show ?thesis by (rule write_blocks_size)
qed

lemma inodeWrite_then_read:
  assumes "Base_inodeWrite e b i x = (0, e', b')"
  shows "Base_inodeRead e' b' i y = (0, e', x)"
proof -
  define cm where "cm = inodeMgr b"
  define st where "st = chunks cm"
  have lt: "unat i < chunksInStorage cm" and e: "e' = e"
    using assms
    by (auto simp: Base_inodeWrite_def entityWriteRaw_def ChunkManager_write_def cm_def errno_defs
        split: if_splits prod.splits)
  obtain st' where w: "Storage_write st (unat i) x = (0, st')" and b': "b' = b\<lparr>inodeMgr := cm\<lparr>chunks := st'\<rparr>\<rparr>"
    using assms lt
    by (auto simp: Base_inodeWrite_def entityWriteRaw_def ChunkManager_write_def cm_def st_def
        split: if_splits prod.splits)
  have "\<not> fatalError st' \<and> unat i < length (storage st') \<and> storage st' ! unat i = x"
    using w
    by (auto simp: Storage_write_def resize_def Let_def errno_defs nth_append split: if_splits)
  then have "Storage_read st' (unat i) y = (0, x)" by (simp add: Storage_read_def)
  with lt b' e show ?thesis
    by (simp add: Base_inodeRead_def entityReadRaw_def ChunkManager_read_def cm_def)
qed

lemma word64_two_le_one: "\<not> (2 :: 64 word) \<le> 1"
  by (simp add: word_le_nat_alt)

lemma ctzll_all_ones: "ctzll (- 1) = 0"
  by (simp add: ctzll_def upt_conv_Cons)

lemmas ex_defs = exBase_def exEmptyMap_def StorageMemory_new_def exFileHandle_def exFileInode_def
  exRootInode_def Handle_new_def Inode_slotCount_def Inode_type_def TypeMask_def TypeREG_def TypeDIR_def
lemmas base_defs = Base_blockAdd_def Base_blockWrite_def Base_blockRead_def Base_blockRemove_def
  Base_inodeWrite_def Base_inodeRead_def entityAddRaw_def entityWriteRaw_def entityReadRaw_def
  entityRemove_def Base_checkWriteAction_def
lemmas cm_defs = ChunkManager_add_def add_allocate_def add_grow_def add_write_def
  ChunkManager_write_def ChunkManager_read_def
lemmas map_defs = Map_firstZero_def Map_set_def Map_setOne_def Map_setZero_def Map_get_def
  Map_setCurrentBitChunkIndex_def Map_sync_def toBitChunkIndex_def toBitIndex_def
  firstZero_scan.simps ctzll_all_ones
lemmas st_defs = Storage_setSize_def Storage_write_def Storage_read_def resize_def
lemmas handle_defs = Handle_write_def Handle_write_loop_def write_offset_def write_blocks.simps
  write_new_block_def write_existing_block_def insertSlot_def insertSlot_shift.simps setSlot_def
  getSlot_def slotToTreeIndices_def maxSlotCount_def N_indices_def truncateNow_def
  truncate_shrink.simps truncate_grow.simps word64_two_le_one

text \<open>The file after one byte has been written at offset 0: its handle, and the
  filesystem with the new block and the stored inode.\<close>

definition exWrittenHandle :: Handle where
  "exWrittenHandle =
     exFileHandle\<lparr>h_inode := exFileInode\<lparr>i_size := 1,
                     slotTrees := [0, InvalidIndex, InvalidIndex, InvalidIndex, InvalidIndex]\<rparr>,
                   h_slotCount := 1\<rparr>"

definition exWrittenBlocks :: Base where
  "exWrittenBlocks =
     exBase\<lparr>blockMgr :=
       \<lparr>cm_map = exEmptyMap\<lparr>currentBitChunk := 1, currentBitChunkModified := True,
                              firstZeroCandidate := 1\<rparr>,
        chunks = \<lparr>chunkSize = 4096, storage = [memcpy_at initializeData 0 [0x41] 1],
                  blank = replicate 4096 0, fatalError = False, growthsLeft = 7\<rparr>,
        punchHolesForEmptyChunks = False, chunksInStorage = 1\<rparr>\<rparr>"

definition exWrittenBase :: Base where
  "exWrittenBase =
     exWrittenBlocks\<lparr>inodeMgr :=
       (inodeMgr exBase)\<lparr>chunks :=
          (chunks (inodeMgr exBase))\<lparr>storage := [exRootInode, h_inode exWrittenHandle]\<rparr>\<rparr>\<rparr>"

lemma Handle_write_loop_ex:
  "Handle_write_loop EmergencyNone exBase exFileHandle 0 [0x41] 1
     = (0, EmergencyNone, exWrittenBlocks, exWrittenHandle)"
  by (simp add: ex_defs base_defs cm_defs map_defs st_defs handle_defs Let_def
      exWrittenHandle_def exWrittenBlocks_def)

lemma Handle_write_ex:
  "Handle_write EmergencyNone exBase exFileHandle 0 [0x41] 1
     = (1, EmergencyNone, exWrittenBase, exWrittenHandle)"
  by (simp add: Handle_write_def Handle_write_loop_ex)
    (simp add: ex_defs base_defs cm_defs st_defs exWrittenHandle_def exWrittenBlocks_def
      exWrittenBase_def)

text \<open>
  C4 as stated fails: \<open>Handle::write\<close> changes the size and the tree roots of the inode
  and nothing else (the times are set and the set-ID bits are cleared by \<open>Handle::open\<close>
  of a writable file, not by \<open>write\<close>). The write below stores one byte in a new
  block and returns 1; afterwards the size is 1, mtime and ctime are still second 2000
  and the set-user-ID bit is still set.
\<close>

theorem Handle_write_keeps_times_and_mode_counterexample:
  "(case Handle_write EmergencyNone exBase exFileHandle 0 [0x41] 1 of (ret, e', b', h') \<Rightarrow>
      ret = 1 \<and> e' = EmergencyNone
      \<and> storage (chunks (blockMgr b')) = [memcpy_at initializeData 0 [0x41] 1]
      \<and> i_size (h_inode h') = 1
      \<and> mtime (h_inode h') = \<lparr>seconds = 2000, nanoseconds = 0\<rparr>
      \<and> ctime (h_inode h') = \<lparr>seconds = 2000, nanoseconds = 0\<rparr>
      \<and> typeAndMode (h_inode h') AND ModeSUID = ModeSUID)"
  by (simp add: Handle_write_ex)
    (simp add: exWrittenHandle_def exWrittenBase_def exWrittenBlocks_def exFileInode_def
      ModeSUID_def)

text \<open>
  C4, amended. \<open>Handle::write\<close> leaves mtime, ctime and the mode bits of the inode as
  they were; and when its loop over the blocks ends without an error (\<open>r\<close> is 0 when the
  loop is left), the size of the inode covers the written range: it is at least the
  offset written at (the old size in append mode) plus \<open>count\<close>.
\<close>

theorem Handle_write_effect:
  assumes "Handle_write e b h offset buf count = (ret, e', b', h')"
  shows "mtime (h_inode h') = mtime (h_inode h)
         \<and> ctime (h_inode h') = ctime (h_inode h)
         \<and> typeAndMode (h_inode h') = typeAndMode (h_inode h)
         \<and> (fst (Handle_write_loop e b h offset buf count) = 0
              \<longrightarrow> unat (write_offset h offset) + unat count \<le> unat (i_size (h_inode h')))"
proof -
  obtain r1 e1 b1 h1 where l: "Handle_write_loop e b h offset buf count = (r1, e1, b1, h1)"
    by (metis prod_cases4)
  from assms l have h': "h' = h1"
    by (auto simp: Handle_write_def Let_def split: prod.splits)
  note a = Handle_attrs_fields [OF Handle_write_loop_attrs [OF l]]
  have "r1 = 0 \<longrightarrow> unat (write_offset h offset) + unat count \<le> unat (i_size (h_inode h1))"
    using l Handle_write_loop_size by blast
  with a h' l show ?thesis by simp
qed

theorem Handle_write_effect_witness:
  "mtime (h_inode exWrittenHandle) = mtime (h_inode exFileHandle)
   \<and> ctime (h_inode exWrittenHandle) = ctime (h_inode exFileHandle)
   \<and> typeAndMode (h_inode exWrittenHandle) = typeAndMode (h_inode exFileHandle)
   \<and> unat (write_offset exFileHandle 0) + unat (1 :: 64 word) \<le> unat (i_size (h_inode exWrittenHandle))"
  using Handle_write_effect [OF Handle_write_ex]
  by (simp add: Handle_write_loop_ex)

section \<open>Handle::write with count 0 past the end of the file\<close>

text \<open>
  C9 as stated fails: the growth is the work of \<open>truncateNow\<close>, and \<open>truncateNow\<close> can
  fail. Below the filesystem has a size limit of one block (\<open>maxSize\<close> 4096); growing
  the empty file to 4097 bytes needs an indirection block for slot 1, \<open>blockAdd\<close> is
  refused with \<open>-ENOSPC\<close>, and so is the write: it returns \<open>-ENOSPC\<close>, the size is
  still 0 and nothing is stored.
\<close>

theorem Handle_write_zero_count_counterexample:
  "Inode_type (h_inode exFileHandle) = TypeREG \<and> \<not> h_append exFileHandle
   \<and> 4097 > i_size (h_inode exFileHandle)
   \<and> (case Handle_write EmergencyNone (exBase\<lparr>maxSize := 4096\<rparr>) exFileHandle 4097 [] 0
        of (ret, e', b', h') \<Rightarrow>
          ret = - ENOSPC \<and> e' = EmergencyNone \<and> i_size (h_inode h') = 0
          \<and> b' = exBase\<lparr>maxSize := 4096\<rparr>)"
  by (simp add: ex_defs base_defs handle_defs setSlot_walk.simps setSlot_alloc_def Let_def
      errno_defs Base_storageSizeInBytes_def ChunkManager_storageSizeInBytes_def
      Map_storageSizeInBytes_def Block_size_def)

text \<open>
  C9, amended. For a handle that is not in append mode and an offset greater than the
  size of the file, whenever \<open>truncateNow(offset)\<close> succeeds and the inode is then
  stored successfully, \<open>Handle::write(offset, buf, 0)\<close> returns 0, the size of the
  inode is \<open>offset\<close>, and the inode read back from the inode container is the enlarged
  one.
\<close>

theorem Handle_write_zero_count_grows:
  assumes "\<not> h_append h" and "offset > i_size (h_inode h)"
    and "truncateNow e b h offset = (0, e1, b1, h1)"
    and "Base_inodeWrite e1 b1 (h_inodeIndex h1) (h_inode h1) = (0, e2, b2)"
  shows "Handle_write e b h offset buf 0 = (0, e2, b2, h1)
         \<and> i_size (h_inode h1) = offset
         \<and> Base_inodeRead e2 b2 (h_inodeIndex h1) x = (0, e2, h_inode h1)"
proof -
  have sz: "i_size (h_inode h1) = offset"
    using truncateNow_attrs(2) [OF assms(3)] by simp
  with assms(2) have ne: "h_inode h1 \<noteq> h_inode h" by auto
  have l: "Handle_write_loop e b h offset buf 0 = (0, e1, b1, h1)"
    using assms(1-3) by (simp add: Handle_write_loop_def write_offset_def write_blocks.simps)
  have "Handle_write e b h offset buf 0 = (0, e2, b2, h1)"
    using ne assms(4) by (simp add: Handle_write_def l)
  with sz inodeWrite_then_read [OF assms(4)] show ?thesis by simp
qed

text \<open>The empty file grown to ten bytes by a write of nothing at offset 10.\<close>

definition exGrownHandle :: Handle where
  "exGrownHandle = exFileHandle\<lparr>h_inode := exFileInode\<lparr>i_size := 10\<rparr>, h_slotCount := 1\<rparr>"

definition exGrownBase :: Base where
  "exGrownBase =
     exBase\<lparr>inodeMgr :=
       (inodeMgr exBase)\<lparr>chunks :=
          (chunks (inodeMgr exBase))\<lparr>storage := [exRootInode, h_inode exGrownHandle]\<rparr>\<rparr>\<rparr>"

theorem Handle_write_zero_count_grows_witness:
  "Handle_write EmergencyNone exBase exFileHandle 10 [] 0
     = (0, EmergencyNone, exGrownBase, exGrownHandle)
   \<and> i_size (h_inode exGrownHandle) = 10
   \<and> Base_inodeRead EmergencyNone exGrownBase (h_inodeIndex exGrownHandle) Inode_new
       = (0, EmergencyNone, h_inode exGrownHandle)"
proof -
  have a: "\<not> h_append exFileHandle" "10 > i_size (h_inode exFileHandle)"
    by (simp_all add: ex_defs)
  have t: "truncateNow EmergencyNone exBase exFileHandle 10 = (0, EmergencyNone, exBase, exGrownHandle)"
    by (simp add: ex_defs handle_defs Let_def exGrownHandle_def)
  have w: "Base_inodeWrite EmergencyNone exBase (h_inodeIndex exGrownHandle) (h_inode exGrownHandle)
             = (0, EmergencyNone, exGrownBase)"
    by (simp add: ex_defs base_defs cm_defs st_defs exGrownHandle_def exGrownBase_def)
  from Handle_write_zero_count_grows [OF a t w] show ?thesis .
qed

section \<open>ChunkManager::add\<close>

lemma setCurrentBitChunkIndex_result:
  assumes "Map_setCurrentBitChunkIndex e m k = (r, e', m')"
  shows "r \<le> 0" and "r = 0 \<Longrightarrow> currentBitChunkIndex m' = k"
  using assms
  by (auto simp: Map_setCurrentBitChunkIndex_def Let_def split: if_splits prod.splits)

lemma setCurrentBitChunkIndex_resident:
  "currentBitChunkIndex m = k \<Longrightarrow> Map_setCurrentBitChunkIndex e m k = (0, e, m)"
  by (simp add: Map_setCurrentBitChunkIndex_def)

lemma bit_or_mask:
  "n < 64 \<Longrightarrow> bit ((w :: 64 word) OR push_bit n 1) n"
  by (simp add: bit_simps)

lemma bit_and_not_mask:
  "n < 64 \<Longrightarrow> \<not> bit ((w :: 64 word) AND NOT (push_bit n 1)) n"
  by (simp add: bit_simps)

lemma toBitIndex_less: "toBitIndex i < 64"
  by (simp add: toBitIndex_def)

lemma Map_set_result:
  assumes "Map_set e m index v = (0, e', m')"
  shows "currentBitChunkIndex m' = toBitChunkIndex index"
    and "bit (currentBitChunk m') (toBitIndex index) = v"
proof -
  obtain r1 e1 m1 where s: "Map_setCurrentBitChunkIndex e m (toBitChunkIndex index) = (r1, e1, m1)"
    by (metis prod_cases3)
  have r1: "r1 = 0" using assms s setCurrentBitChunkIndex_result(1) [OF s]
    by (auto simp: Map_set_def Let_def split: if_splits)
  have i: "currentBitChunkIndex m1 = toBitChunkIndex index"
    using setCurrentBitChunkIndex_result(2) [OF s r1] .
  from assms s r1 i show "currentBitChunkIndex m' = toBitChunkIndex index"
    by (auto simp: Map_set_def Let_def split: if_splits)
  from assms s r1 show "bit (currentBitChunk m') (toBitIndex index) = v"
    using bit_or_mask [OF toBitIndex_less [of index]] bit_and_not_mask [OF toBitIndex_less [of index]]
    by (auto simp: Map_set_def Let_def split: if_splits)
qed

lemma Map_setZero_resident:
  assumes "currentBitChunkIndex m = toBitChunkIndex index"
  obtains m' where "Map_setZero e m index = (0, e, m')"
    and "currentBitChunkIndex m' = toBitChunkIndex index"
    and "\<not> bit (currentBitChunk m') (toBitIndex index)"
proof -
  have s: "Map_setCurrentBitChunkIndex e m (toBitChunkIndex index) = (0, e, m)"
    using assms by (simp add: setCurrentBitChunkIndex_resident)
  obtain r e' m' where z: "Map_set e m index False = (r, e', m')" by (metis prod_cases3)
  from z s have r: "r = 0" "e' = e" by (auto simp: Map_set_def Let_def)
  with z Map_set_result [of e m index False e' m'] that show thesis
    by (simp add: Map_setZero_def)
qed

lemma Storage_write_result:
  assumes "Storage_write st i buf = (r, st')"
  shows "r \<le> 0" and "r = 0 \<Longrightarrow> Storage_read st' i x = (0, buf)"
  using assms
  by (auto simp: Storage_write_def Storage_read_def resize_def Let_def errno_defs nth_append
      split: if_splits)

lemma Storage_setSize_result:
  "Storage_setSize st n = (r, st') \<Longrightarrow> r \<le> 0"
  by (auto simp: Storage_setSize_def Let_def errno_defs split: if_splits)

lemma add_allocate_result:
  assumes "add_allocate e cm index = (0, e1, cm1, i)"
  shows "currentBitChunkIndex (cm_map cm1) = toBitChunkIndex i"
    and "bit (currentBitChunk (cm_map cm1)) (toBitIndex i)"
    and "chunksInStorage cm1 = chunksInStorage cm" and "chunks cm1 = chunks cm"
proof -
  obtain r e0 m0 i0 where f: "Map_firstZero e (cm_map cm) index = (r, e0, m0, i0)"
    by (metis prod_cases4)
  obtain r' e2 m2 where s: "Map_setOne e0 m0 i0 = (r', e2, m2)" by (metis prod_cases3)
  from assms f s have eq: "r = 0" "r' = 0" "e2 = e1" "i0 = i" "cm1 = cm\<lparr>cm_map := m2\<rparr>"
    by (auto simp: add_allocate_def split: if_splits)
  note res = Map_set_result [OF s [unfolded Map_setOne_def eq]]
  from res eq show "currentBitChunkIndex (cm_map cm1) = toBitChunkIndex i" by simp
  from res eq show "bit (currentBitChunk (cm_map cm1)) (toBitIndex i)" by simp
  from eq show "chunksInStorage cm1 = chunksInStorage cm" "chunks cm1 = chunks cm" by simp_all
qed


lemma add_grow_result:
  assumes "currentBitChunkIndex (cm_map cm) = toBitChunkIndex i"
    and "bit (currentBitChunk (cm_map cm)) (toBitIndex i)"
    and "add_grow 0 e cm i = (r, e', cm')"
  shows "e' = e \<and> r \<le> 0 \<and> currentBitChunkIndex (cm_map cm') = toBitChunkIndex i \<and>
      (if r = 0 then bit (currentBitChunk (cm_map cm')) (toBitIndex i) \<and> i < chunksInStorage cm'
       else \<not> bit (currentBitChunk (cm_map cm')) (toBitIndex i) \<and> chunksInStorage cm' = i + 1)"
proof (cases "i \<ge> chunksInStorage cm")
  case False
  with assms show ?thesis by (auto simp: add_grow_def)
next
  case True
  obtain rs st' where s: "Storage_setSize (chunks cm) (i + 1) = (rs, st')" by (metis prod.exhaust)
  note le = Storage_setSize_result [OF s]
  show ?thesis
  proof (cases "rs < 0")
    case False
    with le have "rs = 0" by simp
    with assms True s show ?thesis by (auto simp: add_grow_def Let_def)
  next
    case neg: True
    obtain m' where z: "Map_setZero e (cm_map cm) i = (0, e, m')"
      and zi: "currentBitChunkIndex m' = toBitChunkIndex i"
      and zb: "\<not> bit (currentBitChunk m') (toBitIndex i)"
      using Map_setZero_resident [OF assms(1)] by blast
    from assms(3) True s neg z have "r = rs" "e' = e"
      "cm' = cm\<lparr>chunksInStorage := i + 1, chunks := st', cm_map := m'\<rparr>"
      by (auto simp: add_grow_def Let_def)
    with neg zi zb show ?thesis by simp
  qed
qed

lemma add_write_result:
  assumes "currentBitChunkIndex (cm_map cm) = toBitChunkIndex i"
    and "bit (currentBitChunk (cm_map cm)) (toBitIndex i)"
    and "i < chunksInStorage cm"
    and "add_write 0 e cm i buf = (r, e', cm')"
  shows "e' = e \<and> currentBitChunkIndex (cm_map cm') = toBitChunkIndex i \<and>
         (if r = 0 then bit (currentBitChunk (cm_map cm')) (toBitIndex i) \<and> i < chunksInStorage cm'
                        \<and> Storage_read (chunks cm') i x = (0, buf)
          else \<not> bit (currentBitChunk (cm_map cm')) (toBitIndex i))"
proof -
  obtain rw st' where w: "Storage_write (chunks cm) i buf = (rw, st')" by (metis prod.exhaust)
  note res = Storage_write_result [OF w]
  show ?thesis
  proof (cases "rw < 0")
    case False
    with res(1) have "rw = 0" by simp
    with assms w res(2) [of x] show ?thesis by (auto simp: add_write_def Let_def)
  next
    case neg: True
    obtain m' where z: "Map_setZero e (cm_map cm) i = (0, e, m')"
      and zi: "currentBitChunkIndex m' = toBitChunkIndex i"
      and zb: "\<not> bit (currentBitChunk m') (toBitIndex i)"
      using Map_setZero_resident [OF assms(1)] by blast
    from assms(4) w neg z have "r = rw \<and> e' = e \<and> cm_map cm' = m'"
      by (auto simp: add_write_def Let_def split: if_splits prod.splits)
    with neg zi zb show ?thesis by simp
  qed
qed

text \<open>A chunk manager with chunks of four bytes, fresh from \<open>initialize\<close>, whose data
  container can grow \<open>g\<close> times.\<close>

definition exManager :: "nat \<Rightarrow> nat ChunkManager" where
  "exManager g =
     snd (ChunkManager_initialize
            (ChunkManager_new (Map_new (StorageMemory_new 0 8)) (StorageMemory_new 0 g) 4 False))"

lemma exManager_eq:
  "exManager g =
     \<lparr>cm_map = \<lparr>map_storage = \<lparr>chunkSize = 8, storage = [0], blank = 0, fatalError = False,
                                growthsLeft = 7\<rparr>,
                bitChunksInStorage = 1, currentBitChunk = 0, currentBitChunkIndex = 0,
                currentBitChunkModified = False, firstZeroCandidate = 0\<rparr>,
      chunks = \<lparr>chunkSize = 4, storage = [], blank = 0, fatalError = False, growthsLeft = g\<rparr>,
      punchHolesForEmptyChunks = False, chunksInStorage = 0\<rparr>"
  by (simp add: exManager_def ChunkManager_initialize_def ChunkManager_new_def Map_new_def
      StorageMemory_new_def Map_initialize_def Storage_size_def Storage_setSize_def resize_def
      Let_def)

lemmas add_eval = ChunkManager_add_def add_allocate_def add_grow_def add_write_def
  Map_firstZero_def Map_set_def Map_setOne_def Map_setZero_def Map_setCurrentBitChunkIndex_def
  toBitChunkIndex_def toBitIndex_def firstZero_scan.simps ctzll_all_ones
  Storage_setSize_def Storage_write_def Storage_read_def resize_def Let_def

text \<open>
  C5. \<open>ChunkManager::add\<close> does not restore \<open>_chunksInStorage\<close> when growing the data
  container fails: it sets \<open>_chunksInStorage = *index + 1\<close> before \<open>setSize\<close> and on
  failure only clears the bit (the rollback of a failed \<open>write\<close>, a few lines below,
  does decrement it). The manager below is fresh from \<open>initialize\<close> with no chunk in
  storage, and its data container cannot grow. The first \<open>add\<close> returns \<open>-ENOMEM\<close> from
  \<open>setSize\<close>; the bit of slot 0 is clear again, but \<open>_chunksInStorage\<close> is 1 where it
  was 0 before the call, and the data container still has no chunk. The second \<open>add\<close>
  therefore does not grow the container; it returns \<open>-EIO\<close> from \<open>write\<close>, and its
  rollback clears the bit, decrements \<open>_chunksInStorage\<close> and calls \<open>setSize(0)\<close>, which
  fails too; that failure is logged and nothing else: the emergency latch is still
  unset.
\<close>

theorem ChunkManager_add_failed_growth:
  "chunksInStorage (exManager 0) = 0
   \<and> (case ChunkManager_add EmergencyNone (exManager 0) 0 7 of (r, e, cm, i) \<Rightarrow>
         r = - ENOMEM \<and> e = EmergencyNone \<and> i = 0 \<and> chunksInStorage cm = 1
         \<and> storage (chunks cm) = []
         \<and> currentBitChunk (cm_map cm) = 0
         \<and> (case ChunkManager_add e cm i 7 of (r', e', cm', i') \<Rightarrow>
               r' = - EIO \<and> i' = 0 \<and> chunksInStorage cm' = 0
               \<and> fst (Storage_setSize (chunks cm) 0) = - EIO
               \<and> e' = EmergencyNone))"
  by (simp add: exManager_eq add_eval errno_defs)

section \<open>Encrypted frames\<close>

text \<open>
  \<open>encrypt.hpp\<close>, \<open>encrypt.cpp\<close>. A frame is one byte that tells a stored chunk (255)
  from a hole (0), the nonce, and the ciphertext with its authentication tag. The
  authenticated cipher is libsodium's \<open>crypto_secretbox_easy\<close> and
  \<open>crypto_secretbox_open_easy\<close>; it is not part of this program and is a parameter
  here: \<open>seal msg nonce key\<close> is the ciphertext, and \<open>unseal ciphertext nonce key\<close> is
  the message, or \<open>None\<close> when the tag does not verify. The nonce that \<open>enc\<close> draws with
  \<open>randombytes_buf\<close> is an argument.
\<close>

type_synonym bytes = "8 word list"

definition crypto_secretbox_NONCEBYTES :: nat where
  "crypto_secretbox_NONCEBYTES = 24"

definition crypto_secretbox_MACBYTES :: nat where
  "crypto_secretbox_MACBYTES = 16"

definition EncOverhead :: nat where
  "EncOverhead = 1 + crypto_secretbox_NONCEBYTES + crypto_secretbox_MACBYTES"

text \<open>\<open>enc\<close>; the result is the buffer \<open>out\<close>.\<close>

definition enc :: "(bytes \<Rightarrow> bytes \<Rightarrow> bytes \<Rightarrow> bytes) \<Rightarrow> bytes \<Rightarrow> bytes \<Rightarrow> bytes \<Rightarrow> bytes" where
  "enc seal key msg nonce = 255 # nonce @ seal msg nonce key"

text \<open>\<open>dec\<close>; \<open>msg\<close> is the output buffer as it is before the call and \<open>inSize\<close> is the
  length of \<open>in\<close> (here \<open>inp\<close>). The buffer is taken to be unchanged when the tag does not verify.\<close>

definition dec ::
  "(bytes \<Rightarrow> bytes \<Rightarrow> bytes \<Rightarrow> bytes option) \<Rightarrow> bytes \<Rightarrow> bytes \<Rightarrow> bytes \<Rightarrow> nat
     \<Rightarrow> int \<times> bytes" where
  "dec unseal key inp msg msgSize =
     (let nonce = take crypto_secretbox_NONCEBYTES (drop 1 inp);
          ciphertextLen = length inp - crypto_secretbox_NONCEBYTES - 1;
          ciphertext = take ciphertextLen (drop (1 + crypto_secretbox_NONCEBYTES) inp)
      in if inp ! 0 = 0 then (0, replicate msgSize 0 @ drop msgSize msg)
         else (case unseal ciphertext nonce key of
                 None \<Rightarrow> (- EIO, msg)
               | Some m \<Rightarrow> (0, m @ drop (length m) msg)))"

text \<open>A stand-in for the cipher, to run \<open>enc\<close> and \<open>dec\<close> on: the tag is sixteen times
  the first key byte, and the text is not changed.\<close>

definition exSeal :: "bytes \<Rightarrow> bytes \<Rightarrow> bytes \<Rightarrow> bytes" where
  "exSeal msg nonce key = replicate 16 (hd key) @ msg"

definition exUnseal :: "bytes \<Rightarrow> bytes \<Rightarrow> bytes \<Rightarrow> bytes option" where
  "exUnseal c nonce key =
     (if take 16 c = replicate 16 (hd key) then Some (drop 16 c) else None)"

text \<open>
  C3. With a cipher whose \<open>unseal\<close> undoes \<open>seal\<close> under the same key and nonce (the
  contract of \<open>crypto_secretbox_easy\<close> and \<open>crypto_secretbox_open_easy\<close>), \<open>dec\<close> of the
  frame that \<open>enc\<close> builds from \<open>m\<close> returns 0 and fills the buffer with \<open>m\<close>, for every
  key and every nonce of 24 bytes. And \<open>dec\<close> of a frame whose first byte is 0 returns 0
  and fills the buffer with zeros whatever the cipher is: it is not consulted.
\<close>

theorem dec_enc:
  assumes "length nonce = crypto_secretbox_NONCEBYTES"
    and "unseal (seal m nonce key) nonce key = Some m"
    and "length buf = length m"
    and "frame \<noteq> []" and "frame ! 0 = 0" and "length out = n"
  shows "dec unseal key (enc seal key m nonce) buf (length m) = (0, m)
         \<and> dec any key frame out n = (0, replicate n 0)"
  using assms by (simp add: dec_def enc_def Let_def)

theorem dec_enc_witness:
  "dec exUnseal (replicate 32 7) (enc exSeal (replicate 32 7) [1, 2, 3] (replicate 24 9)) [0, 0, 0] 3
     = (0, [1, 2, 3])
   \<and> dec exUnseal (replicate 32 7) (replicate 43 0) [4, 5, 6] 3 = (0, [0, 0, 0])"
proof -
  have "dec exUnseal (replicate 32 7) (enc exSeal (replicate 32 7) [1, 2, 3] (replicate 24 9))
          [0, 0, 0] (length [1, 2, 3 :: 8 word]) = (0, [1, 2, 3])
        \<and> dec exUnseal (replicate 32 7) (replicate 43 0) [4, 5, 6] 3 = (0, replicate 3 0)"
    by (rule dec_enc) (simp_all add: crypto_secretbox_NONCEBYTES_def exSeal_def exUnseal_def)
  then show ?thesis by (simp add: numeral_3_eq_3)
qed

section \<open>Directories: lookup and rename with exchange\<close>

definition ENOTDIR :: int where "ENOTDIR = 20"
definition EISDIR :: int where "EISDIR = 21"
definition ENAMETOOLONG :: int where "ENAMETOOLONG = 36"
definition ENOTEMPTY :: int where "ENOTEMPTY = 39"

text \<open>The sign of \<open>strcmp\<close> on two names: bytes compare as unsigned characters.\<close>

fun strcmp :: "string \<Rightarrow> string \<Rightarrow> int" where
  "strcmp [] [] = 0"
| "strcmp [] (y # ys) = - 1"
| "strcmp (x # xs) [] = 1"
| "strcmp (x # xs) (y # ys) =
     (if x = y then strcmp xs ys
      else if (of_char x :: nat) < of_char y then - 1 else 1)"

text \<open>
  The binary search of \<open>Handle::findDirentNow\<close> over the slots of a directory, which
  are kept sorted by name:
  \<^verbatim>\<open>
  while (b >= a) {
      int64_t c = (a + b) / 2;
      r = getSlot(c, direntIndex);            if (r < 0) break;
      r = _base->direntRead(*direntIndex, dirent);   if (r < 0) break;
      int cmp = strcmp(nameCopy, dirent->name);
      if (cmp > 0) a = c + 1;
      else if (cmp < 0) b = c - 1;
      else { *direntSlot = c; found = true; break; }
  }\<close>
  The result is \<open>r\<close>, the latch, the handle (whose block cache \<open>getSlot\<close> fills), \<open>a\<close>,
  \<open>found\<close> and the three out-parameters.
\<close>

function findDirent_search ::
  "EmergencyType \<Rightarrow> Base \<Rightarrow> Handle \<Rightarrow> string \<Rightarrow> int \<Rightarrow> int \<Rightarrow> int
     \<Rightarrow> 64 word \<Rightarrow> 64 word \<Rightarrow> Dirent
     \<Rightarrow> int \<times> EmergencyType \<times> Handle \<times> int \<times> bool \<times> 64 word \<times> 64 word \<times> Dirent" where
  "findDirent_search e b h nameCopy r a bb direntSlot direntIndex dirent =
     (if bb \<ge> a then
        (let c = (a + bb) div 2 in
         case getSlot e b h (of_int c) direntIndex of (r1, e1, h1, direntIndex1) \<Rightarrow>
           if r1 < 0 then (r1, e1, h1, a, False, direntSlot, direntIndex1, dirent)
           else
             (case Base_direntRead e1 b direntIndex1 dirent of (r2, e2, dirent2) \<Rightarrow>
                if r2 < 0 then (r2, e2, h1, a, False, direntSlot, direntIndex1, dirent2)
                else
                  (let cmp = strcmp nameCopy (name dirent2) in
                   if cmp > 0 then
                     findDirent_search e2 b h1 nameCopy r2 (c + 1) bb direntSlot direntIndex1 dirent2
                   else if cmp < 0 then
                     findDirent_search e2 b h1 nameCopy r2 a (c - 1) direntSlot direntIndex1 dirent2
                   else (r2, e2, h1, a, True, of_int c, direntIndex1, dirent2))))
      else (r, e, h, a, False, direntSlot, direntIndex, dirent))"
  by pat_completeness auto
termination
  by (relation "measure (\<lambda>(e, b, h, nameCopy, r, a, bb, direntSlot, direntIndex, dirent).
        nat (bb - a + 1))") auto

declare findDirent_search.simps [simp del]

text \<open>\<open>Handle::findDirentNow\<close>; \<open>name\<close> is the \<open>nameLen\<close> bytes at \<open>name\<close>.\<close>

definition findDirentNow ::
  "EmergencyType \<Rightarrow> Base \<Rightarrow> Handle \<Rightarrow> string \<Rightarrow> 64 word \<Rightarrow> 64 word \<Rightarrow> Dirent
     \<Rightarrow> int \<times> EmergencyType \<times> Handle \<times> 64 word \<times> 64 word \<times> Dirent" where
  "findDirentNow e b h nameCopy direntSlot direntIndex dirent =
     (case findDirent_search e b h nameCopy 0 0 (sint (h_slotCount h) - 1)
             direntSlot direntIndex dirent
      of (r, e', h', a, found, direntSlot', direntIndex', dirent') \<Rightarrow>
        if r = 0 then
          (if \<not> found then (- ENOENT, e', h', of_int a, direntIndex', dirent')
           else (r, e', h', direntSlot', direntIndex', dirent'))
        else (r, e', h', direntSlot', direntIndex', dirent'))"

text \<open>\<open>Handle::findDirent\<close>: \<open>findDirentNow\<close> under the shared lock.\<close>

definition Handle_findDirent ::
  "EmergencyType \<Rightarrow> Base \<Rightarrow> Handle \<Rightarrow> string \<Rightarrow> 64 word \<Rightarrow> 64 word \<Rightarrow> Dirent
     \<Rightarrow> int \<times> EmergencyType \<times> Handle \<times> 64 word \<times> 64 word \<times> Dirent" where
  "Handle_findDirent e b h nameCopy direntSlot direntIndex dirent =
     findDirentNow e b h nameCopy direntSlot direntIndex dirent"

text \<open>\<open>Handle::renameHelperReplace\<close>.\<close>

definition renameHelperReplace ::
  "EmergencyType \<Rightarrow> Base \<Rightarrow> Handle \<Rightarrow> 64 word \<Rightarrow> 64 word
     \<Rightarrow> int \<times> EmergencyType \<times> Base \<times> Handle" where
  "renameHelperReplace e b h direntSlot newDirentIndex =
     (case setSlot e b h direntSlot newDirentIndex of (r, e1, b1, h1) \<Rightarrow>
        if r = 0 then
          (case Base_inodeWrite e1 b1 (h_inodeIndex h1) (h_inode h1) of (r2, e2, b2) \<Rightarrow>
             (r2, e2, b2, h1))
        else (r, e1, b1, h1))"

text \<open>
  \<open>SixFS::rename(oldPath, newPath, RenameExchange)\<close> for two paths in the same
  directory, from the point where the handle of that directory has been obtained
  (\<open>newParentHandle = oldParentHandle\<close>); \<open>oldName\<close> and \<open>newName\<close> are the last
  components of the two paths. The lookup of the directory by its path and the release
  of the handle are not part of the model. The first part finds the two entries and
  reads their inodes, and the checks follow:
  \<^verbatim>\<open>
  if (oldNameLen >= sizeof(Dirent::name) || newNameLen >= sizeof(Dirent::name)) r = -ENAMETOOLONG;
  if (r == 0 && oldParentHandle->inode().type() != TypeDIR) r = -ENOTDIR;
  if (r == 0) r = oldParentHandle->findDirent(oldName, ..., &oldDirentSlot, &oldDirentIndex, &oldDirent);
  if (r == 0) {
      r = newParentHandle->findDirent(newName, ..., &newDirentSlot, &newDirentIndex, &newDirent);
      newPathExists = (r == 0);
      if (r == -ENOENT) r = 0;
  }
  if (r == 0) r = _base->inodeRead(oldDirent.inodeIndex, &oldInode);
  if (r == 0 && newPathExists) r = _base->inodeRead(newDirent.inodeIndex, &newInode);\<close>
\<close>

record RenameLocals =
  rl_r :: int
  oldDirentSlot :: "64 word"
  oldDirentIndex :: "64 word"
  oldDirent :: Dirent
  newDirentSlot :: "64 word"
  newDirentIndex :: "64 word"
  newDirent :: Dirent
  newPathExists :: bool
  oldInode :: Inode
  newInode :: Inode

definition rename_lookup ::
  "EmergencyType \<Rightarrow> Base \<Rightarrow> Handle \<Rightarrow> string \<Rightarrow> string \<Rightarrow> RenameLocals
     \<Rightarrow> EmergencyType \<times> Handle \<times> RenameLocals" where
  "rename_lookup e b parent oldName newName v0 =
     (let v1 = v0\<lparr>rl_r := (if length oldName \<ge> 256 \<or> length newName \<ge> 256
                            then - ENAMETOOLONG else 0)\<rparr>;
          v2 = (if rl_r v1 = 0 \<and> Inode_type (h_inode parent) \<noteq> TypeDIR
                then v1\<lparr>rl_r := - ENOTDIR\<rparr> else v1)
      in case (if rl_r v2 = 0 then
                 (case Handle_findDirent e b parent oldName (oldDirentSlot v2) (oldDirentIndex v2)
                         (oldDirent v2)
                  of (r, e', h', slot, idx, d) \<Rightarrow>
                    (e', h', v2\<lparr>rl_r := r, oldDirentSlot := slot, oldDirentIndex := idx,
                                 oldDirent := d\<rparr>))
               else (e, parent, v2))
         of (e3, h3, v3) \<Rightarrow>
      case (if rl_r v3 = 0 then
              (case Handle_findDirent e3 b h3 newName (newDirentSlot v3) (newDirentIndex v3)
                      (newDirent v3)
               of (r, e', h', slot, idx, d) \<Rightarrow>
                 (e', h', v3\<lparr>rl_r := (if r = - ENOENT then 0 else r), newDirentSlot := slot,
                              newDirentIndex := idx, newDirent := d, newPathExists := (r = 0)\<rparr>))
            else (e3, h3, v3))
         of (e4, h4, v4) \<Rightarrow>
      case (if rl_r v4 = 0 then
              (case Base_inodeRead e4 b (d_inodeIndex (oldDirent v4)) (oldInode v4)
               of (r, e', i) \<Rightarrow> (e', v4\<lparr>rl_r := r, oldInode := i\<rparr>))
            else (e4, v4))
         of (e5, v5) \<Rightarrow>
      case (if rl_r v5 = 0 \<and> newPathExists v5 then
              (case Base_inodeRead e5 b (d_inodeIndex (newDirent v5)) (newInode v5)
               of (r, e', i) \<Rightarrow> (e', v5\<lparr>rl_r := r, newInode := i\<rparr>))
            else (e5, v5))
         of (e6, v6) \<Rightarrow> (e6, h4, v6))"

text \<open>
  The checks on the two inodes, for \<open>mode == RenameExchange\<close>:
  \<^verbatim>\<open>
  if (r == 0 && newPathExists && oldInode.type() == TypeDIR && newInode.type() != TypeDIR)
      r = -ENOTDIR;
  if (r == 0 && newPathExists && oldInode.type() == TypeDIR && newInode.type() != TypeDIR && newInode.size > 0)
      r = -ENOTEMPTY;
  if (r == 0 && newPathExists && oldInode.type() != TypeDIR && newInode.type() == TypeDIR)
      r = -EISDIR;
  if (r == 0 && newPathExists && mode == RenameNoreplace) r = -EEXIST;
  if (r == 0 && !newPathExists && mode == RenameExchange) r = -ENOENT;\<close>
\<close>

definition rename_checks :: "RenameLocals \<Rightarrow> int" where
  "rename_checks v =
     (let r = rl_r v;
          r = (if r = 0 \<and> newPathExists v \<and> Inode_type (oldInode v) = TypeDIR
                  \<and> Inode_type (newInode v) \<noteq> TypeDIR then - ENOTDIR else r);
          r = (if r = 0 \<and> newPathExists v \<and> Inode_type (oldInode v) = TypeDIR
                  \<and> Inode_type (newInode v) \<noteq> TypeDIR \<and> i_size (newInode v) > 0
               then - ENOTEMPTY else r);
          r = (if r = 0 \<and> newPathExists v \<and> Inode_type (oldInode v) \<noteq> TypeDIR
                  \<and> Inode_type (newInode v) = TypeDIR then - EISDIR else r);
          r = (if r = 0 \<and> \<not> newPathExists v then - ENOENT else r)
      in r)"

text \<open>
  The exchange itself:
  \<^verbatim>\<open>
  r = oldParentHandle->renameHelperReplace(oldDirentSlot, newDirentIndex);
  if (r == 0) {
      r = newParentHandle->renameHelperReplace(newDirentSlot, oldDirentIndex);
      if (r < 0) {
          int r2 = oldParentHandle->renameHelperReplace(oldDirentSlot, oldDirentIndex);
          if (r2 < 0) { emergency(EmergencySystemFailure); r = -ENOTRECOVERABLE; }
      }
  }\<close>
\<close>

definition rename_exchange ::
  "EmergencyType \<Rightarrow> Base \<Rightarrow> Handle \<Rightarrow> RenameLocals \<Rightarrow> int \<times> EmergencyType \<times> Base \<times> Handle" where
  "rename_exchange e b parent v =
     (case renameHelperReplace e b parent (oldDirentSlot v) (newDirentIndex v) of (r, e1, b1, h1) \<Rightarrow>
        if r = 0 then
          (case renameHelperReplace e1 b1 h1 (newDirentSlot v) (oldDirentIndex v) of (r', e2, b2, h2) \<Rightarrow>
             if r' < 0 then
               (case renameHelperReplace e2 b2 h2 (oldDirentSlot v) (oldDirentIndex v)
                of (r2, e3, b3, h3) \<Rightarrow>
                  if r2 < 0 then (- ENOTRECOVERABLE, emergency EmergencySystemFailure e3, b3, h3)
                  else (r', e3, b3, h3))
             else (r', e2, b2, h2))
        else (r, e1, b1, h1))"

text \<open>The three parts together; hard links to the same regular file are left alone.
  The locals of the source that have no initial value get one here; they are not read
  before they are set.\<close>

definition RenameLocals_new :: RenameLocals where
  "RenameLocals_new =
     \<lparr>rl_r = 0, oldDirentSlot = 0, oldDirentIndex = 0,
      oldDirent = \<lparr>name = [], d_inodeIndex = 0\<rparr>,
      newDirentSlot = InvalidIndex, newDirentIndex = InvalidIndex,
      newDirent = \<lparr>name = [], d_inodeIndex = 0\<rparr>, newPathExists = False,
      oldInode = Inode_new, newInode = Inode_new\<rparr>"

definition SixFS_rename_Exchange ::
  "EmergencyType \<Rightarrow> Base \<Rightarrow> Handle \<Rightarrow> string \<Rightarrow> string \<Rightarrow> int \<times> EmergencyType \<times> Base \<times> Handle" where
  "SixFS_rename_Exchange e b parent oldName newName =
     (case rename_lookup e b parent oldName newName RenameLocals_new of (e1, h1, v) \<Rightarrow>
        let r = rename_checks v in
        if r = 0 then
          (if newPathExists v \<and> Inode_type (oldInode v) = TypeREG
                \<and> d_inodeIndex (oldDirent v) = d_inodeIndex (newDirent v)
           then (r, e1, b, h1)
           else rename_exchange e1 b h1 v)
        else (r, e1, b, h1))"


lemma length_le_encode: "length (le_encode n w) = n"
  by (induction n arbitrary: w) simp_all

lemma le_decode_step:
  "(ucast (ucast (w :: 64 word) :: 8 word) :: 64 word) OR push_bit 8 (take_bit k (drop_bit 8 w))
     = take_bit (8 + k) w"
proof (rule bit_eqI)
  fix n
  assume "possible_bit TYPE(64 word) n"
  show "bit ((ucast (ucast w :: 8 word) :: 64 word) OR push_bit 8 (take_bit k (drop_bit 8 w))) n
        = bit (take_bit (8 + k) w) n"
    unfolding bit_or_iff bit_push_bit_iff bit_take_bit_iff bit_drop_bit_eq bit_ucast_iff
    by (auto simp: possible_bit_word dest: bit_imp_le_length)
qed

lemma le_decode_encode_take_bit: "le_decode (le_encode n w) = take_bit (8 * n) w"
proof (induction n arbitrary: w)
  case 0
  show ?case by simp
next
  case (Suc n)
  have "le_decode (le_encode (Suc n) w)
          = (ucast (ucast w :: 8 word) :: 64 word) OR push_bit 8 (take_bit (8 * n) (drop_bit 8 w))"
    unfolding le_encode.simps le_decode.simps Suc.IH ..
  also have "\<dots> = take_bit (8 + 8 * n) w" by (rule le_decode_step)
  finally show ?case by simp
qed

lemma le_decode_encode: "le_decode (le_encode 8 w) = w"
  unfolding le_decode_encode_take_bit by (simp add: take_bit_word_eq_self)

lemma Block_index_set_index:
  "8 * j \<le> length blk \<Longrightarrow> Block_index (Block_set_index blk j v) j = v"
  by (simp add: Block_index_def Block_set_index_def length_le_encode le_decode_encode)


text \<open>
  A directory with the two entries \<open>y\<close> (inode 1) and \<open>z\<close> (inode 2). Slot 0 is the
  first tree root of the directory inode; slot 1 is entry 0 of the indirection block
  that the second root names.
\<close>

definition exDirBlock :: Block where
  "exDirBlock = Block_set_index initializeIndices 0 1"

definition exDirInode :: Inode where
  "exDirInode =
     exRootInode\<lparr>i_size := 2,
                  slotTrees := [0, 0, InvalidIndex, InvalidIndex, InvalidIndex]\<rparr>"

definition exDirBase :: Base where
  "exDirBase =
     \<lparr>maxSize = 0,
      inodeMgr =
        \<lparr>cm_map = exEmptyMap\<lparr>currentBitChunk := 7, firstZeroCandidate := 3\<rparr>,
         chunks = \<lparr>chunkSize = 120,
                   storage = [exDirInode, exFileInode, exFileInode\<lparr>uid := 1\<rparr>],
                   blank = Inode_zero, fatalError = False, growthsLeft = 6\<rparr>,
         punchHolesForEmptyChunks = False, chunksInStorage = 3\<rparr>,
      direntMgr =
        \<lparr>cm_map = exEmptyMap\<lparr>currentBitChunk := 3, firstZeroCandidate := 2\<rparr>,
         chunks = \<lparr>chunkSize = 264,
                   storage = [\<lparr>name = ''y'', d_inodeIndex = 1\<rparr>, \<lparr>name = ''z'', d_inodeIndex = 2\<rparr>],
                   blank = \<lparr>name = [], d_inodeIndex = 0\<rparr>, fatalError = False,
                   growthsLeft = 6\<rparr>,
         punchHolesForEmptyChunks = False, chunksInStorage = 2\<rparr>,
      blockMgr =
        \<lparr>cm_map = exEmptyMap\<lparr>currentBitChunk := 1, firstZeroCandidate := 1\<rparr>,
         chunks = \<lparr>chunkSize = 4096, storage = [exDirBlock], blank = replicate 4096 0,
                   fatalError = False, growthsLeft = 7\<rparr>,
         punchHolesForEmptyChunks = False, chunksInStorage = 1\<rparr>\<rparr>"

definition exDirHandle :: Handle where
  "exDirHandle = Handle_new 0 exDirInode"

definition exNoDirent :: Dirent where
  "exNoDirent = \<lparr>name = [], d_inodeIndex = 0\<rparr>"

lemma Block_index_exDirBlock: "Block_index exDirBlock 0 = 1"
  unfolding exDirBlock_def by (rule Block_index_set_index) simp

lemmas dir_defs = exDirBase_def exDirHandle_def exDirInode_def exRootInode_def exFileInode_def
  exNoDirent_def Handle_new_def Inode_slotCount_def Inode_type_def TypeMask_def TypeDIR_def
  TypeREG_def InvalidIndex_def
lemmas find_defs = Handle_findDirent_def findDirentNow_def findDirent_search.simps getSlot_def
  getSlot_walk.simps slotToTreeIndices_def N_indices_def cacheBlock_def Base_direntRead_def
  Base_blockRead_def Base_inodeRead_def entityReadRaw_def ChunkManager_read_def Storage_read_def
  Block_index_exDirBlock

lemmas rename_defs = SixFS_rename_Exchange_def rename_lookup_def rename_checks_def
  rename_exchange_def renameHelperReplace_def RenameLocals_new_def setSlot_def setSlot_walk.simps
  setSlot_leaf_def Base_inodeWrite_def Base_blockWrite_def entityWriteRaw_def
  Base_checkWriteAction_def ChunkManager_write_def Storage_write_def word64_two_le_one
  errno_defs

text \<open>The directory after \<open>y\<close> and \<open>z\<close> have been exchanged: the two slots have
  swapped their entries (slot 0 names entry 1, slot 1 names entry 0), and the entries
  themselves are as before.\<close>

definition exExchangedInode :: Inode where
  "exExchangedInode =
     exDirInode\<lparr>slotTrees := [1, 0, InvalidIndex, InvalidIndex, InvalidIndex]\<rparr>"

definition exExchangedBase :: Base where
  "exExchangedBase =
     exDirBase\<lparr>inodeMgr :=
                  (inodeMgr exDirBase)\<lparr>chunks :=
                     (chunks (inodeMgr exDirBase))\<lparr>storage :=
                        [exExchangedInode, exFileInode, exFileInode\<lparr>uid := 1\<rparr>]\<rparr>\<rparr>,
                blockMgr :=
                  (blockMgr exDirBase)\<lparr>chunks :=
                     (chunks (blockMgr exDirBase))\<lparr>storage :=
                        [Block_set_index exDirBlock 0 0]\<rparr>\<rparr>\<rparr>"

definition exExchangedHandle :: Handle where
  "exExchangedHandle =
     exDirHandle\<lparr>h_inode := exExchangedInode,
                   h_cachedBlockIndices := [0, InvalidIndex, InvalidIndex, InvalidIndex],
                   h_cachedBlocks := [Block_set_index exDirBlock 0 0, initializeData,
                                      initializeData, initializeData]\<rparr>"

lemma replicate_4: "replicate 4 x = [x, x, x, x]"
  by (simp add: eval_nat_numeral)

lemmas exchanged_defs = exExchangedBase_def exExchangedHandle_def exExchangedInode_def
  replicate_4

text \<open>
  C2, on the directory above. Before the call \<open>y\<close> resolves to inode 1 and \<open>z\<close> to
  inode 2. \<open>rename(y, z, Exchange)\<close> returns 0. It has exchanged the entries of the two
  slots and left each name with its own inode, so that the slots are no longer sorted
  by name: afterwards the lookup of \<open>y\<close> fails with \<open>-ENOENT\<close>, \<open>z\<close> still resolves
  to inode 2, and the same \<open>rename\<close> call a second time fails with \<open>-ENOENT\<close> and
  changes nothing.
\<close>

theorem rename_Exchange_same_directory:
  "(case Handle_findDirent EmergencyNone exDirBase exDirHandle ''y'' 0 0 exNoDirent
    of (r, e, h, slot, idx, d) \<Rightarrow> r = 0 \<and> slot = 0 \<and> d_inodeIndex d = 1)
   \<and> (case Handle_findDirent EmergencyNone exDirBase exDirHandle ''z'' 0 0 exNoDirent
       of (r, e, h, slot, idx, d) \<Rightarrow> r = 0 \<and> slot = 1 \<and> d_inodeIndex d = 2)
   \<and> SixFS_rename_Exchange EmergencyNone exDirBase exDirHandle ''y'' ''z''
       = (0, EmergencyNone, exExchangedBase, exExchangedHandle)
   \<and> (case Handle_findDirent EmergencyNone exExchangedBase exExchangedHandle ''y'' 0 0 exNoDirent
       of (r, e, h, slot, idx, d) \<Rightarrow> r = - ENOENT)
   \<and> (case Handle_findDirent EmergencyNone exExchangedBase exExchangedHandle ''z'' 0 0 exNoDirent
       of (r, e, h, slot, idx, d) \<Rightarrow> r = 0 \<and> slot = 0 \<and> d_inodeIndex d = 2)
   \<and> (case Handle_findDirent EmergencyNone exExchangedBase (Handle_new 0 exExchangedInode)
               ''y'' 0 0 exNoDirent
       of (r, e, h, slot, idx, d) \<Rightarrow> r = - ENOENT)
   \<and> SixFS_rename_Exchange EmergencyNone exExchangedBase exExchangedHandle ''y'' ''z''
       = (- ENOENT, EmergencyNone, exExchangedBase, exExchangedHandle)"
proof -
  have 1: "case Handle_findDirent EmergencyNone exDirBase exDirHandle ''y'' 0 0 exNoDirent
    of (r, e, h, slot, idx, d) \<Rightarrow> r = 0 \<and> slot = 0 \<and> d_inodeIndex d = 1"
    by (simp add: dir_defs find_defs word64_two_le_one errno_defs Let_def)
  have 2: "case Handle_findDirent EmergencyNone exDirBase exDirHandle ''z'' 0 0 exNoDirent
       of (r, e, h, slot, idx, d) \<Rightarrow> r = 0 \<and> slot = 1 \<and> d_inodeIndex d = 2"
    by (simp add: dir_defs find_defs word64_two_le_one errno_defs Let_def)
  have 3: "SixFS_rename_Exchange EmergencyNone exDirBase exDirHandle ''y'' ''z''
       = (0, EmergencyNone, exExchangedBase, exExchangedHandle)"
    by (simp add: dir_defs find_defs rename_defs exchanged_defs Let_def)
  have 4: "case Handle_findDirent EmergencyNone exExchangedBase exExchangedHandle ''y'' 0 0 exNoDirent
       of (r, e, h, slot, idx, d) \<Rightarrow> r = - ENOENT"
    by (simp add: dir_defs find_defs exchanged_defs word64_two_le_one errno_defs Let_def)
  have 5: "case Handle_findDirent EmergencyNone exExchangedBase exExchangedHandle ''z'' 0 0 exNoDirent
       of (r, e, h, slot, idx, d) \<Rightarrow> r = 0 \<and> slot = 0 \<and> d_inodeIndex d = 2"
    by (simp add: dir_defs find_defs exchanged_defs word64_two_le_one errno_defs Let_def)
  have 6: "case Handle_findDirent EmergencyNone exExchangedBase (Handle_new 0 exExchangedInode)
               ''y'' 0 0 exNoDirent
       of (r, e, h, slot, idx, d) \<Rightarrow> r = - ENOENT"
    by (simp add: dir_defs find_defs exchanged_defs word64_two_le_one errno_defs Let_def)
  have 7: "SixFS_rename_Exchange EmergencyNone exExchangedBase exExchangedHandle ''y'' ''z''
       = (- ENOENT, EmergencyNone, exExchangedBase, exExchangedHandle)"
    by (simp add: dir_defs find_defs rename_defs exchanged_defs Let_def)
  from 1 2 3 4 5 6 7 show ?thesis by blast
qed

section \<open>Map::firstZero returns the smallest free index\<close>







lemma sync_scan_le:
  "sync_scan st r idx c = (r', idx', c') \<Longrightarrow> idx' \<le> idx \<and> (idx' = idx \<longrightarrow> c' = c \<and> r' = r)"
proof (induction st r idx c rule: sync_scan.induct)
  case (1 st r idx chunk)
  show ?case
  proof (cases "idx > 1")
    case False
    with "1.prems" show ?thesis by (simp add: sync_scan.simps [of st r idx chunk])
  next
    case True
    obtain r1 c1 where rd: "Storage_read st (idx - 1) chunk = (r1, c1)" by (metis prod.exhaust)
    show ?thesis
    proof (cases "r1 < 0 \<or> c1 \<noteq> 0")
      case stop: True
      with True rd "1.prems" show ?thesis by (auto simp: sync_scan.simps [of st r idx chunk])
    next
      case go: False
      with True rd "1.prems" have "sync_scan st r1 (idx - 1) c1 = (r', idx', c')"
        by (simp add: sync_scan.simps [of st r idx chunk])
      from "1.IH" [OF True rd [symmetric] go this] True show ?thesis by auto
    qed
  qed
qed
























text \<open>
  The states of a bitmap. A bitmap belongs to a \<open>ChunkManager\<close> and is used by it
  alone: \<open>initialize\<close> (a bitmap whose initialization fails is not used), \<open>sync\<close>,
  \<open>get\<close> and \<open>setZero\<close> for any index (\<open>ChunkManager::remove\<close> and the rollbacks of
  \<open>ChunkManager::add\<close>), and \<open>firstZero\<close>, after which \<open>ChunkManager::add\<close> calls
  \<open>setOne\<close> for the index that \<open>firstZero\<close> has returned. The state after a failed call
  is a state too. The emergency latch is written by these calls and never read, and is
  arbitrary.
\<close>

inductive Map_reachable :: "Map \<Rightarrow> bool" where
  init: "Map_initialize (Map_new st) = (0, m) \<Longrightarrow> Map_reachable m"
| sync: "Map_reachable m \<Longrightarrow> Map_sync e m = (r, e', m') \<Longrightarrow> Map_reachable m'"
| get: "Map_reachable m \<Longrightarrow> Map_get e m i b = (r, e', m', b') \<Longrightarrow> Map_reachable m'"
| setZero: "Map_reachable m \<Longrightarrow> Map_setZero e m i = (r, e', m') \<Longrightarrow> Map_reachable m'"
| firstZero: "Map_reachable m \<Longrightarrow> Map_firstZero e m i0 = (r, e', m', i) \<Longrightarrow> Map_reachable m'"
| alloc: "Map_reachable m \<Longrightarrow> Map_firstZero e m i0 = (0, e1, m1, i)
            \<Longrightarrow> Map_setOne e2 m1 i = (r, e3, m2) \<Longrightarrow> Map_reachable m2"




text \<open>The same for a \<open>ChunkManager\<close>, whose bitmap is then in one of the states
  above.\<close>

inductive ChunkManager_reachable :: "'a ChunkManager \<Rightarrow> bool" where
  cm_init: "ChunkManager_initialize (ChunkManager_new (Map_new mst) st n punch) = (0, cm)
              \<Longrightarrow> ChunkManager_reachable cm"
| cm_sync: "ChunkManager_reachable cm \<Longrightarrow> ChunkManager_sync e cm = (r, e', cm')
              \<Longrightarrow> ChunkManager_reachable cm'"
| cm_add: "ChunkManager_reachable cm \<Longrightarrow> ChunkManager_add e cm i buf = (r, e', cm', i')
              \<Longrightarrow> ChunkManager_reachable cm'"
| cm_remove: "ChunkManager_reachable cm \<Longrightarrow> ChunkManager_remove e cm i = (r, e', cm')
              \<Longrightarrow> ChunkManager_reachable cm'"
| cm_write: "ChunkManager_reachable cm \<Longrightarrow> ChunkManager_write e cm i buf = (r, e', cm')
              \<Longrightarrow> ChunkManager_reachable cm'"

lemma remove_scan_reachable:
  "Map_reachable (cm_map cm) \<Longrightarrow> remove_scan r e cm i = (r', e', cm')
     \<Longrightarrow> Map_reachable (cm_map cm')"
proof (induction r e cm i rule: remove_scan.induct)
  case (1 r e cm index)
  show ?case
  proof (cases "index > 0")
    case False
    with "1.prems" show ?thesis by (simp add: remove_scan.simps [of r e cm index])
  next
    case True
    obtain r2 e2 m2 b where g: "Map_get e (cm_map cm) (index - 1) False = (r2, e2, m2, b)"
      by (metis prod_cases4)
    have reach: "Map_reachable m2" using "1.prems"(1) g by (rule Map_reachable.get)
    show ?thesis
    proof (cases "r2 < 0 \<or> b")
      case stop: True
      with True g "1.prems"(2) have "cm_map cm' = m2"
        by (auto simp: remove_scan.simps [of r e cm index] Let_def split: if_splits)
      with reach show ?thesis by simp
    next
      case go: False
      with True g "1.prems"(2)
      have rec: "remove_scan r e2
                   ((cm\<lparr>cm_map := m2\<rparr>)\<lparr>chunksInStorage :=
                       chunksInStorage (cm\<lparr>cm_map := m2\<rparr>) - 1\<rparr>)
                   (index - 1) = (r', e', cm')"
        by (simp add: remove_scan.simps [of r e cm index] Let_def)
      from go have n1: "\<not> r2 < 0" and n2: "\<not> b" by simp_all
      show ?thesis
        by (rule "1.IH" [OF True g [symmetric] refl refl refl n1 n2 _ rec])
          (simp add: reach)
    qed
  qed
qed

lemma ChunkManager_add_reachable:
  assumes "Map_reachable (cm_map cm)" and "ChunkManager_add e cm i buf = (r, e', cm', i')"
  shows "Map_reachable (cm_map cm')"
proof -
  obtain r1 e1 cm1 i1 where a: "add_allocate e cm i = (r1, e1, cm1, i1)" by (metis prod_cases4)
  obtain r2 e2 cm2 where g: "add_grow r1 e1 cm1 i1 = (r2, e2, cm2)" by (metis prod_cases3)
  obtain r3 e3 cm3 where w: "add_write r2 e2 cm2 i1 buf = (r3, e3, cm3)" by (metis prod_cases3)
  from assms(2) a g w have cm': "cm' = cm3" by (simp add: ChunkManager_add_def)
  have 1: "Map_reachable (cm_map cm1)"
  proof -
    obtain rf ef mf jf where f: "Map_firstZero e (cm_map cm) i = (rf, ef, mf, jf)"
      by (metis prod_cases4)
    show ?thesis
    proof (cases "rf = 0")
      case False
      with a f have "cm_map cm1 = mf" by (auto simp: add_allocate_def)
      with Map_reachable.firstZero [OF assms(1) f] show ?thesis by simp
    next
      case True
      obtain rs es ms where s: "Map_setOne ef mf jf = (rs, es, ms)" by (metis prod_cases3)
      from a f s True have "cm_map cm1 = ms" by (auto simp: add_allocate_def)
      with Map_reachable.alloc [OF assms(1) f [unfolded True] s] show ?thesis by simp
    qed
  qed
  have 2: "Map_reachable (cm_map cm2)"
    using g 1
    by (auto simp: add_grow_def Let_def split: if_splits prod.splits
        intro: Map_reachable.setZero)
  have "Map_reachable (cm_map cm3)"
    using w 2
    by (auto simp: add_write_def Let_def split: if_splits prod.splits
        intro: Map_reachable.setZero)
  with cm' show ?thesis by simp
qed

lemma ChunkManager_remove_reachable:
  assumes "Map_reachable (cm_map cm)" and "ChunkManager_remove e cm i = (r, e', cm')"
  shows "Map_reachable (cm_map cm')"
proof (cases "i \<ge> chunksInStorage cm")
  case True
  with assms show ?thesis by (simp add: ChunkManager_remove_def)
next
  case False
  obtain r1 e1 m1 where z: "Map_setZero e (cm_map cm) i = (r1, e1, m1)" by (metis prod_cases3)
  have 1: "Map_reachable m1" using assms(1) z by (rule Map_reachable.setZero)
  show ?thesis
  proof (cases "r1 = 0 \<and> i + 1 = chunksInStorage cm")
    case no: False
    with False z assms(2) have "cm_map cm' = m1"
      by (auto simp: ChunkManager_remove_def Let_def split: if_splits)
    with 1 show ?thesis by simp
  next
    case yes: True
    obtain r2 e2 cm2 where
      sc: "remove_scan r1 e1 (cm\<lparr>cm_map := m1, chunksInStorage := chunksInStorage cm - 1\<rparr>) i
             = (r2, e2, cm2)"
      by (metis prod_cases3)
    have 2: "Map_reachable (cm_map cm2)"
      by (rule remove_scan_reachable [OF _ sc]) (simp add: 1)
    from False z yes sc assms(2) have "cm_map cm' = cm_map cm2"
      by (auto simp: ChunkManager_remove_def Let_def split: if_splits prod.splits)
    with 2 show ?thesis by simp
  qed
qed

lemma ChunkManager_reachable_map:
  "ChunkManager_reachable cm \<Longrightarrow> Map_reachable (cm_map cm)"
proof (induction rule: ChunkManager_reachable.induct)
  case (cm_init mst st n punch cm)
  obtain r m where i: "Map_initialize (Map_new mst) = (r, m)" by (metis prod.exhaust)
  with cm_init have "r = 0 \<and> cm_map cm = m"
    by (auto simp: ChunkManager_initialize_def ChunkManager_new_def Let_def
        split: if_splits prod.splits)
  with i show ?case by (auto intro: Map_reachable.init)
next
  case (cm_sync cm e r e' cm')
  then show ?case
    by (auto simp: ChunkManager_sync_def split: prod.splits intro: Map_reachable.sync)
next
  case (cm_add cm e i buf r e' cm' i')
  then show ?case by (auto intro: ChunkManager_add_reachable)
next
  case (cm_remove cm e i r e' cm')
  then show ?case by (auto intro: ChunkManager_remove_reachable)
next
  case (cm_write cm e i buf r e' cm')
  then show ?case by (auto simp: ChunkManager_write_def split: if_splits prod.splits)
qed












end
